theory Spec2Isabelle
  imports Main "HOL-Library.AList" "HOL-Library.Multiset"
begin

section \<open>Errors and outcomes\<close>

text \<open>
  The daemon class \<open>FirewallD\<close> of \<open>firewall/server/firewalld.py\<close> is embedded with
  explicit state passing: every method takes the daemon state and returns an outcome
  together with the state it leaves behind. An outcome is a returned value or a raised
  exception; the state travels with both, so what a method has changed before it raises
  stays visible.
\<close>

datatype errcode =
    ACCESS_DENIED | ALREADY_ENABLED | NOT_ENABLED | INVALID_ZONE | INVALID_SERVICE
  | INVALID_ICMPTYPE | ZONE_CONFLICT | RT_TO_PERM_FAILED | COMMAND_FAILED

datatype action =
    PK_ACTION_ALL | PK_ACTION_CONFIG | PK_ACTION_CONFIG_INFO | PK_ACTION_DIRECT
  | PK_ACTION_DIRECT_INFO | PK_ACTION_INFO | PK_ACTION_POLICIES | PK_ACTION_POLICIES_INFO

datatype error =
    FirewallError errcode string
  | KeyError
  | NotAuthorized action
  | Exception string

datatype 'a outcome = Return 'a | Raise error

fun errcode_name :: "errcode \<Rightarrow> string" where
  "errcode_name ACCESS_DENIED = ''ACCESS_DENIED''"
| "errcode_name ALREADY_ENABLED = ''ALREADY_ENABLED''"
| "errcode_name NOT_ENABLED = ''NOT_ENABLED''"
| "errcode_name INVALID_ZONE = ''INVALID_ZONE''"
| "errcode_name INVALID_SERVICE = ''INVALID_SERVICE''"
| "errcode_name INVALID_ICMPTYPE = ''INVALID_ICMPTYPE''"
| "errcode_name ZONE_CONFLICT = ''ZONE_CONFLICT''"
| "errcode_name RT_TO_PERM_FAILED = ''RT_TO_PERM_FAILED''"
| "errcode_name COMMAND_FAILED = ''COMMAND_FAILED''"

text \<open>\<open>str(e)\<close>, as the \<open>%s\<close> of a format string renders an exception.\<close>

fun str_of_error :: "error \<Rightarrow> string" where
  "str_of_error (FirewallError c msg) = errcode_name c @ '': '' @ msg"
| "str_of_error KeyError = ''KeyError''"
| "str_of_error (NotAuthorized a) = ''NotAuthorizedException''"
| "str_of_error (Exception msg) = msg"

section \<open>The core firewall object \<open>self.fw\<close>\<close>

subsection \<open>Lockdown policies\<close>

record whitelist =
  commands :: "string set"
  uids :: "int set"
  users :: "string set"
  contexts :: "string set"

record policies =
  lockdown :: bool
  lockdown_whitelist :: whitelist

datatype pyval = PyStr string | PyInt int

text \<open>Modelled from the spec: \<open>fw.policies.query_lockdown\<close> (module \<open>firewall.core.fw_policies\<close>
  is not part of the sources); lockdown is a boolean mode of the policies object.\<close>

definition query_lockdown :: "policies \<Rightarrow> bool" where
  "query_lockdown p = lockdown p"

text \<open>Modelled from the spec: \<open>fw.policies.access_check(key, value)\<close>; the lockdown whitelist
  is four independent sets (commands, uids, users, contexts) and a value passes the check
  for a key when it is in the set of that key.\<close>

definition access_check :: "policies \<Rightarrow> string \<Rightarrow> pyval \<Rightarrow> bool" where
  "access_check p key v =
     (if key = ''context'' then (case v of PyStr c \<Rightarrow> c \<in> contexts (lockdown_whitelist p) | PyInt _ \<Rightarrow> False)
      else if key = ''uid'' then (case v of PyInt u \<Rightarrow> u \<in> uids (lockdown_whitelist p) | PyStr _ \<Rightarrow> False)
      else if key = ''user'' then (case v of PyStr u \<Rightarrow> u \<in> users (lockdown_whitelist p) | PyInt _ \<Rightarrow> False)
      else if key = ''command'' then (case v of PyStr c \<Rightarrow> c \<in> commands (lockdown_whitelist p) | PyInt _ \<Rightarrow> False)
      else False)"

subsection \<open>The system bus as the identity helpers see it\<close>

text \<open>
  \<open>context_of_sender\<close>, \<open>uid_of_sender\<close>, \<open>user_of_uid\<close> and \<open>command_of_sender\<close> belong to
  \<open>firewall.dbus_utils\<close> and ask the bus daemon and the operating system about a bus name.
  They are parameters of the model: each maps its argument to a value or raises.
\<close>

record bus =
  context_of_sender :: "string \<Rightarrow> error + string"
  uid_of_sender :: "string \<Rightarrow> error + int"
  user_of_uid :: "int \<Rightarrow> error + string"
  command_of_sender :: "string \<Rightarrow> error + string"

subsection \<open>Zones, services, direct configuration\<close>

text \<open>
  The rich-rule parser (\<open>firewall.core.rich.Rich_Rule\<close>) is outside the sources and
  outside the spec's scope ("a pure function producing a RichRule value"); the rule object
  is kept as the text it was built from.
\<close>

datatype rich_rule = Rich_Rule string

datatype entry =
    RichRule rich_rule
  | Service string
  | Port string string
  | Protocol string
  | Masquerade
  | ForwardPort string string string string
  | IcmpBlock string

record firewall =
  default_zone :: string
  zone_names :: "string list"
  zones :: "string \<Rightarrow> entry set"
  bound_interfaces :: "(string \<times> string) list"
  bound_sources :: "(string \<times> string) list"
  services :: "(string \<times> string list) list"
  icmptypes :: "(string \<times> string list) list"
  policies :: policies
  chains :: "(string \<times> string \<times> string) list"
  rules :: "(string \<times> string \<times> string \<times> int \<times> string list) list"
  passthroughs :: "(string \<times> string list) list"
  panic :: bool

text \<open>Modelled from the spec: zone resolution of the missing module \<open>firewall.core.fw_zone\<close>;
  the empty zone name means the default zone, and a zone that is referenced must exist
  (\<open>INVALID_ZONE\<close>).\<close>

definition check_zone :: "firewall \<Rightarrow> string \<Rightarrow> error + string" where
  "check_zone f zone =
     (let z = (if zone = [] then default_zone f else zone)
      in if z \<in> set (zone_names f) then Inr z else Inl (FirewallError INVALID_ZONE z))"

text \<open>Modelled from the spec: what the missing model validates about an entry before it is
  enabled; a service and an ICMP type must be known (\<open>INVALID_SERVICE\<close>,
  \<open>INVALID_ICMPTYPE\<close>). The spec gives no grammar for ports, protocols and addresses.\<close>

fun check_entry :: "firewall \<Rightarrow> entry \<Rightarrow> error option" where
  "check_entry f (Service s) =
     (if s \<in> fst ` set (services f) then None else Some (FirewallError INVALID_SERVICE s))"
| "check_entry f (IcmpBlock i) =
     (if i \<in> fst ` set (icmptypes f) then None else Some (FirewallError INVALID_ICMPTYPE i))"
| "check_entry f _ = None"

text \<open>Modelled from the spec: the mutators of the missing zone model; they validate first and
  then apply, an entry is in a zone at most once (\<open>ALREADY_ENABLED\<close>), removing an entry
  that is not there fails (\<open>NOT_ENABLED\<close>), and the resolved zone name is returned.\<close>

definition zone_add :: "firewall \<Rightarrow> string \<Rightarrow> entry \<Rightarrow> error + string \<times> firewall" where
  "zone_add f zone e =
     (case check_zone f zone of
        Inl err \<Rightarrow> Inl err
      | Inr z \<Rightarrow>
          (case check_entry f e of
             Some err \<Rightarrow> Inl err
           | None \<Rightarrow>
               if e \<in> zones f z then Inl (FirewallError ALREADY_ENABLED z)
               else Inr (z, f\<lparr>zones := (zones f)(z := insert e (zones f z))\<rparr>)))"

definition zone_remove :: "firewall \<Rightarrow> string \<Rightarrow> entry \<Rightarrow> error + string \<times> firewall" where
  "zone_remove f zone e =
     (case check_zone f zone of
        Inl err \<Rightarrow> Inl err
      | Inr z \<Rightarrow>
          if e \<in> zones f z then Inr (z, f\<lparr>zones := (zones f)(z := zones f z - {e})\<rparr>)
          else Inl (FirewallError NOT_ENABLED z))"

text \<open>Modelled from the spec: membership queries of the missing zone model; they return
  false for an unknown zone and do not raise.\<close>

definition zone_query :: "firewall \<Rightarrow> string \<Rightarrow> entry \<Rightarrow> bool" where
  "zone_query f zone e =
     (case check_zone f zone of Inl err \<Rightarrow> False | Inr z \<Rightarrow> e \<in> zones f z)"

text \<open>The methods of \<open>self.fw.zone\<close> that the daemon calls, by their names.\<close>

definition add_rule :: "firewall \<Rightarrow> string \<Rightarrow> rich_rule \<Rightarrow> int \<Rightarrow> error + string \<times> firewall" where
  "add_rule f zone obj timeout = zone_add f zone (RichRule obj)"

definition remove_rule :: "firewall \<Rightarrow> string \<Rightarrow> rich_rule \<Rightarrow> error + string \<times> firewall" where
  "remove_rule f zone obj = zone_remove f zone (RichRule obj)"

definition query_rule :: "firewall \<Rightarrow> string \<Rightarrow> rich_rule \<Rightarrow> bool" where
  "query_rule f zone obj = zone_query f zone (RichRule obj)"

definition add_service ::
  "firewall \<Rightarrow> string \<Rightarrow> string \<Rightarrow> int \<Rightarrow> string option \<Rightarrow> error + string \<times> firewall" where
  "add_service f zone service timeout sender = zone_add f zone (Service service)"

definition remove_service :: "firewall \<Rightarrow> string \<Rightarrow> string \<Rightarrow> error + string \<times> firewall" where
  "remove_service f zone service = zone_remove f zone (Service service)"

definition query_service :: "firewall \<Rightarrow> string \<Rightarrow> string \<Rightarrow> bool" where
  "query_service f zone service = zone_query f zone (Service service)"

definition add_port ::
  "firewall \<Rightarrow> string \<Rightarrow> string \<Rightarrow> string \<Rightarrow> int \<Rightarrow> string option \<Rightarrow> error + string \<times> firewall" where
  "add_port f zone port protocol timeout sender = zone_add f zone (Port port protocol)"

definition remove_port :: "firewall \<Rightarrow> string \<Rightarrow> string \<Rightarrow> string \<Rightarrow> error + string \<times> firewall" where
  "remove_port f zone port protocol = zone_remove f zone (Port port protocol)"

definition query_port :: "firewall \<Rightarrow> string \<Rightarrow> string \<Rightarrow> string \<Rightarrow> bool" where
  "query_port f zone port protocol = zone_query f zone (Port port protocol)"

definition add_protocol ::
  "firewall \<Rightarrow> string \<Rightarrow> string \<Rightarrow> int \<Rightarrow> string option \<Rightarrow> error + string \<times> firewall" where
  "add_protocol f zone protocol timeout sender = zone_add f zone (Protocol protocol)"

definition remove_protocol :: "firewall \<Rightarrow> string \<Rightarrow> string \<Rightarrow> error + string \<times> firewall" where
  "remove_protocol f zone protocol = zone_remove f zone (Protocol protocol)"

definition query_protocol :: "firewall \<Rightarrow> string \<Rightarrow> string \<Rightarrow> bool" where
  "query_protocol f zone protocol = zone_query f zone (Protocol protocol)"

definition add_masquerade ::
  "firewall \<Rightarrow> string \<Rightarrow> int \<Rightarrow> string option \<Rightarrow> error + string \<times> firewall" where
  "add_masquerade f zone timeout sender = zone_add f zone Masquerade"

definition remove_masquerade :: "firewall \<Rightarrow> string \<Rightarrow> error + string \<times> firewall" where
  "remove_masquerade f zone = zone_remove f zone Masquerade"

definition query_masquerade :: "firewall \<Rightarrow> string \<Rightarrow> bool" where
  "query_masquerade f zone = zone_query f zone Masquerade"

definition add_forward_port ::
  "firewall \<Rightarrow> string \<Rightarrow> string \<Rightarrow> string \<Rightarrow> string \<Rightarrow> string \<Rightarrow> int \<Rightarrow> string option
    \<Rightarrow> error + string \<times> firewall" where
  "add_forward_port f zone port protocol toport toaddr timeout sender =
     zone_add f zone (ForwardPort port protocol toport toaddr)"

definition remove_forward_port ::
  "firewall \<Rightarrow> string \<Rightarrow> string \<Rightarrow> string \<Rightarrow> string \<Rightarrow> string \<Rightarrow> error + string \<times> firewall" where
  "remove_forward_port f zone port protocol toport toaddr =
     zone_remove f zone (ForwardPort port protocol toport toaddr)"

definition query_forward_port ::
  "firewall \<Rightarrow> string \<Rightarrow> string \<Rightarrow> string \<Rightarrow> string \<Rightarrow> string \<Rightarrow> bool" where
  "query_forward_port f zone port protocol toport toaddr =
     zone_query f zone (ForwardPort port protocol toport toaddr)"

definition add_icmp_block ::
  "firewall \<Rightarrow> string \<Rightarrow> string \<Rightarrow> int \<Rightarrow> string option \<Rightarrow> error + string \<times> firewall" where
  "add_icmp_block f zone icmp timeout sender = zone_add f zone (IcmpBlock icmp)"

definition remove_icmp_block :: "firewall \<Rightarrow> string \<Rightarrow> string \<Rightarrow> error + string \<times> firewall" where
  "remove_icmp_block f zone icmp = zone_remove f zone (IcmpBlock icmp)"

definition query_icmp_block :: "firewall \<Rightarrow> string \<Rightarrow> string \<Rightarrow> bool" where
  "query_icmp_block f zone icmp = zone_query f zone (IcmpBlock icmp)"

text \<open>Modelled from the spec: interface and source bindings of the missing zone model; an
  interface (a source) belongs to at most one zone, binding one that another zone holds
  fails with \<open>ZONE_CONFLICT\<close>, and changing the zone rebinds it in one step. For the
  removal the docstrings of \<open>removeInterface\<close> and \<open>removeSource\<close> in the daemon say
  what the empty zone means: "If zone is empty, remove from zone the interface belongs
  to."\<close>

definition bind_to_zone ::
  "firewall \<Rightarrow> (string \<times> string) list \<Rightarrow> string \<Rightarrow> string \<Rightarrow> error + string \<times> (string \<times> string) list" where
  "bind_to_zone f bound zone x =
     (case check_zone f zone of
        Inl err \<Rightarrow> Inl err
      | Inr z \<Rightarrow>
          (case map_of bound x of
             Some z' \<Rightarrow>
               if z' = z then Inl (FirewallError ALREADY_ENABLED z)
               else Inl (FirewallError ZONE_CONFLICT z')
           | None \<Rightarrow> Inr (z, AList.update x z bound)))"

definition rebind_to_zone ::
  "firewall \<Rightarrow> (string \<times> string) list \<Rightarrow> string \<Rightarrow> string \<Rightarrow> error + string \<times> (string \<times> string) list" where
  "rebind_to_zone f bound zone x =
     (case check_zone f zone of
        Inl err \<Rightarrow> Inl err
      | Inr z \<Rightarrow> Inr (z, AList.update x z bound))"

definition unbind_from_zone ::
  "firewall \<Rightarrow> (string \<times> string) list \<Rightarrow> string \<Rightarrow> string \<Rightarrow> error + string \<times> (string \<times> string) list" where
  "unbind_from_zone f bound zone x =
     (case map_of bound x of
        None \<Rightarrow> Inl (FirewallError NOT_ENABLED x)
      | Some zoi \<Rightarrow>
          if zone = [] then Inr (zoi, AList.delete x bound)
          else
            (case check_zone f zone of
               Inl err \<Rightarrow> Inl err
             | Inr z \<Rightarrow>
                 if z = zoi then Inr (zoi, AList.delete x bound)
                 else Inl (FirewallError ZONE_CONFLICT zoi)))"

definition get_zone_of_interface :: "firewall \<Rightarrow> string \<Rightarrow> string option" where
  "get_zone_of_interface f interface = map_of (bound_interfaces f) interface"

definition get_zone_of_source :: "firewall \<Rightarrow> string \<Rightarrow> string option" where
  "get_zone_of_source f source = map_of (bound_sources f) source"

definition add_interface ::
  "firewall \<Rightarrow> string \<Rightarrow> string \<Rightarrow> string option \<Rightarrow> error + string \<times> firewall" where
  "add_interface f zone interface sender =
     (case bind_to_zone f (bound_interfaces f) zone interface of
        Inl err \<Rightarrow> Inl err
      | Inr (z, b) \<Rightarrow> Inr (z, f\<lparr>bound_interfaces := b\<rparr>))"

definition change_zone_of_interface ::
  "firewall \<Rightarrow> string \<Rightarrow> string \<Rightarrow> string option \<Rightarrow> error + string \<times> firewall" where
  "change_zone_of_interface f zone interface sender =
     (case rebind_to_zone f (bound_interfaces f) zone interface of
        Inl err \<Rightarrow> Inl err
      | Inr (z, b) \<Rightarrow> Inr (z, f\<lparr>bound_interfaces := b\<rparr>))"

definition remove_interface :: "firewall \<Rightarrow> string \<Rightarrow> string \<Rightarrow> error + string \<times> firewall" where
  "remove_interface f zone interface =
     (case unbind_from_zone f (bound_interfaces f) zone interface of
        Inl err \<Rightarrow> Inl err
      | Inr (z, b) \<Rightarrow> Inr (z, f\<lparr>bound_interfaces := b\<rparr>))"

definition add_source ::
  "firewall \<Rightarrow> string \<Rightarrow> string \<Rightarrow> string option \<Rightarrow> error + string \<times> firewall" where
  "add_source f zone source sender =
     (case bind_to_zone f (bound_sources f) zone source of
        Inl err \<Rightarrow> Inl err
      | Inr (z, b) \<Rightarrow> Inr (z, f\<lparr>bound_sources := b\<rparr>))"

definition change_zone_of_source ::
  "firewall \<Rightarrow> string \<Rightarrow> string \<Rightarrow> string option \<Rightarrow> error + string \<times> firewall" where
  "change_zone_of_source f zone source sender =
     (case rebind_to_zone f (bound_sources f) zone source of
        Inl err \<Rightarrow> Inl err
      | Inr (z, b) \<Rightarrow> Inr (z, f\<lparr>bound_sources := b\<rparr>))"

definition remove_source :: "firewall \<Rightarrow> string \<Rightarrow> string \<Rightarrow> error + string \<times> firewall" where
  "remove_source f zone source =
     (case unbind_from_zone f (bound_sources f) zone source of
        Inl err \<Rightarrow> Inl err
      | Inr (z, b) \<Rightarrow> Inr (z, f\<lparr>bound_sources := b\<rparr>))"

text \<open>Modelled from the spec: tracked passthroughs of the missing module
  \<open>firewall.core.fw_direct\<close>; they are recorded and enumerable, each at most once
  (\<open>ALREADY_ENABLED\<close>), and one that is not tracked cannot be removed (\<open>NOT_ENABLED\<close>).\<close>

definition add_passthrough :: "firewall \<Rightarrow> string \<Rightarrow> string list \<Rightarrow> error + firewall" where
  "add_passthrough f ipv args =
     (if (ipv, args) \<in> set (passthroughs f) then Inl (FirewallError ALREADY_ENABLED ipv)
      else Inr (f\<lparr>passthroughs := passthroughs f @ [(ipv, args)]\<rparr>))"

definition remove_passthrough :: "firewall \<Rightarrow> string \<Rightarrow> string list \<Rightarrow> error + firewall" where
  "remove_passthrough f ipv args =
     (if (ipv, args) \<in> set (passthroughs f)
      then Inr (f\<lparr>passthroughs := remove1 (ipv, args) (passthroughs f)\<rparr>)
      else Inl (FirewallError NOT_ENABLED ipv))"

definition query_passthrough :: "firewall \<Rightarrow> string \<Rightarrow> string list \<Rightarrow> bool" where
  "query_passthrough f ipv args \<longleftrightarrow> (ipv, args) \<in> set (passthroughs f)"

definition get_all_passthroughs :: "firewall \<Rightarrow> (string \<times> string list) list" where
  "get_all_passthroughs f = passthroughs f"

definition get_all_chains :: "firewall \<Rightarrow> (string \<times> string \<times> string) list" where
  "get_all_chains f = chains f"

definition get_all_rules :: "firewall \<Rightarrow> (string \<times> string \<times> string \<times> int \<times> string list) list" where
  "get_all_rules f = rules f"

subsection \<open>Settings and the permanent configuration\<close>

datatype settings =
    ServiceSettings "string list"
  | IcmpTypeSettings "string list"
  | ZoneSettings "entry set" "string list" "string list"
  | DirectSettings "(string \<times> string \<times> string) list"
      "(string \<times> string \<times> string \<times> int \<times> string list) list" "(string \<times> string list) list"
  | WhitelistSettings "string set" "int set" "string set" "string set"

datatype target = TService string | TIcmpType string | TZone string | TDirect | TPolicies

text \<open>
  The permanent store behind \<open>self.config\<close> (\<open>firewall.server.config.FirewallDConfig\<close>) is
  an external collaborator, "an opaque loader/saver keyed by name". Its contents are kept
  by name; \<open>read_fault\<close> and \<open>write_fault\<close> are parameters that say for which target a
  lookup or a save raises, and with which exception.
\<close>

record config_store =
  c_services :: "(string \<times> settings) list"
  c_icmptypes :: "(string \<times> settings) list"
  c_zones :: "(string \<times> settings) list"
  c_direct :: settings
  c_whitelist :: settings
  read_fault :: "target \<Rightarrow> error option"
  write_fault :: "target \<Rightarrow> error option"

text \<open>Modelled from the spec: the runtime enumerations and exports of the missing core
  (\<open>fw.service.get_services\<close>, \<open>get_service(name).export_config()\<close>, the same for ICMP
  types, \<open>fw.zone.get_zones\<close>, \<open>get_config_with_settings\<close>, the lockdown whitelist's
  \<open>export_config\<close>); an unknown name raises the \<open>INVALID_\<close> error of its kind.\<close>

definition get_services :: "firewall \<Rightarrow> string list" where
  "get_services f = map fst (services f)"

definition get_service_config :: "firewall \<Rightarrow> string \<Rightarrow> error + settings" where
  "get_service_config f name =
     (case map_of (services f) name of
        None \<Rightarrow> Inl (FirewallError INVALID_SERVICE name)
      | Some c \<Rightarrow> Inr (ServiceSettings c))"

definition get_icmptypes :: "firewall \<Rightarrow> string list" where
  "get_icmptypes f = map fst (icmptypes f)"

definition get_icmptype_config :: "firewall \<Rightarrow> string \<Rightarrow> error + settings" where
  "get_icmptype_config f name =
     (case map_of (icmptypes f) name of
        None \<Rightarrow> Inl (FirewallError INVALID_ICMPTYPE name)
      | Some c \<Rightarrow> Inr (IcmpTypeSettings c))"

definition get_zones :: "firewall \<Rightarrow> string list" where
  "get_zones f = zone_names f"

definition get_config_with_settings :: "firewall \<Rightarrow> string \<Rightarrow> error + settings" where
  "get_config_with_settings f zone =
     (case check_zone f zone of
        Inl err \<Rightarrow> Inl err
      | Inr z \<Rightarrow>
          Inr (ZoneSettings (zones f z)
                 (map fst (filter (\<lambda>b. snd b = z) (bound_interfaces f)))
                 (map fst (filter (\<lambda>b. snd b = z) (bound_sources f)))))"

definition export_config :: "whitelist \<Rightarrow> settings" where
  "export_config w = WhitelistSettings (commands w) (uids w) (users w) (contexts w)"

text \<open>Modelled from the spec: \<open>fw.reload()\<close> of the missing core; it rebuilds zones,
  services and ICMP types from the permanent store, keeps the runtime direct
  configuration, and leaves panic mode off. It has no access to the daemon object.\<close>

definition zone_entries :: "settings option \<Rightarrow> entry set" where
  "zone_entries c = (case c of Some (ZoneSettings es is ss) \<Rightarrow> es | _ \<Rightarrow> {})"

definition zone_bindings :: "(string \<times> settings) list \<Rightarrow> bool \<Rightarrow> (string \<times> string) list" where
  "zone_bindings zs src =
     concat (map (\<lambda>(z, c). case c of
                     ZoneSettings es is ss \<Rightarrow> map (\<lambda>x. (x, z)) (if src then ss else is)
                   | _ \<Rightarrow> []) zs)"

definition names_config :: "(string \<times> settings) list \<Rightarrow> (string \<times> string list) list" where
  "names_config cs =
     map (\<lambda>(n, c). (n, case c of ServiceSettings x \<Rightarrow> x | IcmpTypeSettings x \<Rightarrow> x | _ \<Rightarrow> [])) cs"

definition fw_reload :: "config_store \<Rightarrow> firewall \<Rightarrow> firewall" where
  "fw_reload c f =
     f\<lparr>zone_names := map fst (c_zones c),
       zones := (\<lambda>z. zone_entries (map_of (c_zones c) z)),
       bound_interfaces := zone_bindings (c_zones c) False,
       bound_sources := zone_bindings (c_zones c) True,
       services := names_config (c_services c),
       icmptypes := names_config (c_icmptypes c),
       panic := False\<rparr>"

section \<open>The daemon object\<close>

subsection \<open>State\<close>

text \<open>
  The keys of the inner dictionaries of \<open>self._timeouts\<close> are Python values: a string (a
  service, a protocol, an ICMP type, a rich rule's text, the literal \<open>"masquerade"\<close>), a
  pair \<open>(port, protocol)\<close> or a 4-tuple \<open>(port, protocol, toport, toaddr)\<close>.
\<close>

datatype key = KStr string | KPair string string | KQuad string string string string

text \<open>What \<open>GLib.timeout_add_seconds\<close> is given to call: a bound method with its arguments.\<close>

datatype callback =
    DisableTimedRichRule string string
  | DisableTimedService string string
  | DisableTimedPort string string string
  | DisableTimedProtocol string string
  | DisableTimedMasquerade string
  | Disable_forward_port string string string string string
  | DisableTimedIcmpBlock string string "string option"

datatype signal =
    Reloaded
  | InterfaceAdded string string
  | ZoneChanged string string
  | ZoneOfInterfaceChanged string string
  | InterfaceRemoved string string
  | SourceAdded string string
  | ZoneOfSourceChanged string string
  | SourceRemoved string string
  | RichRuleAdded string string int
  | RichRuleRemoved string string
  | ServiceAdded string string int
  | ServiceRemoved string string
  | PortAdded string string string int
  | PortRemoved string string string
  | ProtocolAdded string string int
  | ProtocolRemoved string string
  | MasqueradeAdded string int
  | MasqueradeRemoved string
  | ForwardPortAdded string string string string string int
  | ForwardPortRemoved string string string string string
  | IcmpBlockAdded string string int
  | IcmpBlockRemoved string string
  | PassthroughAdded string "string list"
  | PassthroughRemoved string "string list"

text \<open>
  \<open>timeouts\<close> is \<open>self._timeouts\<close>, a dictionary of dictionaries, kept in insertion order.
  \<open>glib_sources\<close> are the timeout sources attached to the GLib main loop, by source id,
  each with its interval and callback; \<open>next_tag\<close> is the id the main loop hands out
  next. \<open>signals\<close> lists the signals emitted so far, oldest first.
\<close>

record daemon =
  fw :: firewall
  config :: config_store
  system_bus :: bus
  timeouts :: "(string \<times> (key \<times> nat) list) list"
  glib_sources :: "nat \<Rightarrow> (int \<times> callback) option"
  next_tag :: nat
  signals :: "signal list"

definition emit :: "signal \<Rightarrow> daemon \<Rightarrow> daemon" where
  "emit sig s = s\<lparr>signals := signals s @ [sig]\<rparr>"

subsection \<open>The GLib main loop\<close>

text \<open>
  \<open>GLib.timeout_add_seconds(interval, function, *args)\<close> attaches a new source and returns
  its id; \<open>GLib.source_remove(tag)\<close> detaches the source with that id.
\<close>

definition timeout_add_seconds :: "int \<Rightarrow> callback \<Rightarrow> daemon \<Rightarrow> nat \<times> daemon" where
  "timeout_add_seconds interval cb s =
     (next_tag s,
      s\<lparr>glib_sources := (glib_sources s)(next_tag s \<mapsto> (interval, cb)),
        next_tag := Suc (next_tag s)\<rparr>)"

definition source_remove :: "nat \<Rightarrow> daemon \<Rightarrow> daemon" where
  "source_remove tag s = s\<lparr>glib_sources := (glib_sources s)(tag := None)\<rparr>"

subsection \<open>Lockdown\<close>

definition accessCheck :: "string option \<Rightarrow> daemon \<Rightarrow> unit outcome" where
  "accessCheck sender s =
     (if query_lockdown (policies (fw s)) then
        (case sender of
           None \<Rightarrow> Return ()
         | Some name \<Rightarrow>
             (case context_of_sender (system_bus s) name of
                Inl e \<Rightarrow> Raise e
              | Inr ctx \<Rightarrow>
                  if access_check (policies (fw s)) ''context'' (PyStr ctx) then Return ()
                  else
                    (case uid_of_sender (system_bus s) name of
                       Inl e \<Rightarrow> Raise e
                     | Inr uid \<Rightarrow>
                         if access_check (policies (fw s)) ''uid'' (PyInt uid) then Return ()
                         else
                           (case user_of_uid (system_bus s) uid of
                              Inl e \<Rightarrow> Raise e
                            | Inr user \<Rightarrow>
                                if access_check (policies (fw s)) ''user'' (PyStr user) then Return ()
                                else
                                  (case command_of_sender (system_bus s) name of
                                     Inl e \<Rightarrow> Raise e
                                   | Inr command \<Rightarrow>
                                       if access_check (policies (fw s)) ''command'' (PyStr command)
                                       then Return ()
                                       else Raise (FirewallError ACCESS_DENIED ''lockdown is enabled''))))))
      else Return ())"

subsection \<open>Timeouts\<close>

definition addTimeout :: "string \<Rightarrow> key \<Rightarrow> nat \<Rightarrow> daemon \<Rightarrow> daemon" where
  "addTimeout zone x tag s =
     (let ts = (if map_of (timeouts s) zone = None then AList.update zone [] (timeouts s)
                else timeouts s);
          m = (case map_of ts zone of None \<Rightarrow> [] | Some m \<Rightarrow> m)
      in s\<lparr>timeouts := AList.update zone (AList.update x tag m) ts\<rparr>)"

definition removeTimeout :: "string \<Rightarrow> key \<Rightarrow> daemon \<Rightarrow> daemon" where
  "removeTimeout zone x s =
     (case map_of (timeouts s) zone of
        None \<Rightarrow> s
      | Some m \<Rightarrow>
          (case map_of m x of
             None \<Rightarrow> s
           | Some tag \<Rightarrow>
               (source_remove tag s)\<lparr>timeouts := AList.update zone (AList.delete x m) (timeouts s)\<rparr>))"

definition cleanup_timeouts :: "daemon \<Rightarrow> daemon" where
  "cleanup_timeouts s =
     (fold (\<lambda>(zone, m) s'. fold (\<lambda>(x, tag) s''. source_remove tag s'') m s') (timeouts s) s)
       \<lparr>timeouts := []\<rparr>"

text \<open>\<open>del self._timeouts[zone][x]\<close>, which raises \<open>KeyError\<close> when either key is missing.\<close>

definition del_timeout :: "string \<Rightarrow> key \<Rightarrow> daemon \<Rightarrow> error + daemon" where
  "del_timeout zone x s =
     (case map_of (timeouts s) zone of
        None \<Rightarrow> Inl KeyError
      | Some m \<Rightarrow>
          (case map_of m x of
             None \<Rightarrow> Inl KeyError
           | Some tag \<Rightarrow> Inr (s\<lparr>timeouts := AList.update zone (AList.delete x m) (timeouts s)\<rparr>)))"

text \<open>The tag that the table holds for a key, if any.\<close>

definition timeout_tag :: "daemon \<Rightarrow> string \<Rightarrow> key \<Rightarrow> nat option" where
  "timeout_tag s zone x =
     (case map_of (timeouts s) zone of None \<Rightarrow> None | Some m \<Rightarrow> map_of m x)"

subsection \<open>Reload\<close>

text \<open>Modelled from the spec: \<open>self.config.reload()\<close> of the missing module
  \<open>firewall.server.config\<close>; the bus view of the permanent store is read again, the store
  itself stays as it is.\<close>

definition config_reload :: "config_store \<Rightarrow> config_store" where
  "config_reload c = c"

definition reload :: "string option \<Rightarrow> daemon \<Rightarrow> unit outcome \<times> daemon" where
  "reload sender s =
     (let s1 = s\<lparr>fw := fw_reload (config s) (fw s)\<rparr>;
          s2 = s1\<lparr>config := config_reload (config s1)\<rparr>
      in (Return (), emit Reloaded s2))"

subsection \<open>Zone interface: interfaces and sources\<close>

text \<open>The signal method \<open>ZoneOfInterfaceChanged\<close> calls the deprecated \<open>ZoneChanged\<close> in its
  body, which runs before its own signal is sent.\<close>

definition zoneOfInterfaceChanged :: "string \<Rightarrow> string \<Rightarrow> daemon \<Rightarrow> daemon" where
  "zoneOfInterfaceChanged zone interface s =
     emit (ZoneOfInterfaceChanged zone interface) (emit (ZoneChanged zone interface) s)"

definition addInterface ::
  "string \<Rightarrow> string \<Rightarrow> string option \<Rightarrow> daemon \<Rightarrow> string outcome \<times> daemon" where
  "addInterface zone interface sender s =
     (case accessCheck sender s of
        Raise e \<Rightarrow> (Raise e, s)
      | Return u \<Rightarrow>
          (case add_interface (fw s) zone interface sender of
             Inl e \<Rightarrow> (Raise e, s)
           | Inr (z, f) \<Rightarrow> (Return z, emit (InterfaceAdded z interface) (s\<lparr>fw := f\<rparr>))))"

definition changeZoneOfInterface ::
  "string \<Rightarrow> string \<Rightarrow> string option \<Rightarrow> daemon \<Rightarrow> string outcome \<times> daemon" where
  "changeZoneOfInterface zone interface sender s =
     (case accessCheck sender s of
        Raise e \<Rightarrow> (Raise e, s)
      | Return u \<Rightarrow>
          (case change_zone_of_interface (fw s) zone interface sender of
             Inl e \<Rightarrow> (Raise e, s)
           | Inr (z, f) \<Rightarrow> (Return z, zoneOfInterfaceChanged z interface (s\<lparr>fw := f\<rparr>))))"

definition changeZone ::
  "string \<Rightarrow> string \<Rightarrow> string option \<Rightarrow> daemon \<Rightarrow> string outcome \<times> daemon" where
  "changeZone zone interface sender s = changeZoneOfInterface zone interface sender s"

definition removeInterface ::
  "string \<Rightarrow> string \<Rightarrow> string option \<Rightarrow> daemon \<Rightarrow> string outcome \<times> daemon" where
  "removeInterface zone interface sender s =
     (case accessCheck sender s of
        Raise e \<Rightarrow> (Raise e, s)
      | Return u \<Rightarrow>
          (case remove_interface (fw s) zone interface of
             Inl e \<Rightarrow> (Raise e, s)
           | Inr (z, f) \<Rightarrow> (Return z, emit (InterfaceRemoved z interface) (s\<lparr>fw := f\<rparr>))))"

definition addSource ::
  "string \<Rightarrow> string \<Rightarrow> string option \<Rightarrow> daemon \<Rightarrow> string outcome \<times> daemon" where
  "addSource zone source sender s =
     (case accessCheck sender s of
        Raise e \<Rightarrow> (Raise e, s)
      | Return u \<Rightarrow>
          (case add_source (fw s) zone source sender of
             Inl e \<Rightarrow> (Raise e, s)
           | Inr (z, f) \<Rightarrow> (Return z, emit (SourceAdded z source) (s\<lparr>fw := f\<rparr>))))"

definition changeZoneOfSource ::
  "string \<Rightarrow> string \<Rightarrow> string option \<Rightarrow> daemon \<Rightarrow> string outcome \<times> daemon" where
  "changeZoneOfSource zone source sender s =
     (case accessCheck sender s of
        Raise e \<Rightarrow> (Raise e, s)
      | Return u \<Rightarrow>
          (case change_zone_of_source (fw s) zone source sender of
             Inl e \<Rightarrow> (Raise e, s)
           | Inr (z, f) \<Rightarrow> (Return z, emit (ZoneOfSourceChanged z source) (s\<lparr>fw := f\<rparr>))))"

definition removeSource ::
  "string \<Rightarrow> string \<Rightarrow> string option \<Rightarrow> daemon \<Rightarrow> string outcome \<times> daemon" where
  "removeSource zone source sender s =
     (case accessCheck sender s of
        Raise e \<Rightarrow> (Raise e, s)
      | Return u \<Rightarrow>
          (case remove_source (fw s) zone source of
             Inl e \<Rightarrow> (Raise e, s)
           | Inr (z, f) \<Rightarrow> (Return z, emit (SourceRemoved z source) (s\<lparr>fw := f\<rparr>))))"

subsection \<open>Zone interface: rich rules\<close>

text \<open>\<open>addRichRule\<close> and \<open>removeRichRule\<close> are written as they stand in the source: neither
  calls \<open>accessCheck\<close>.\<close>

definition disableTimedRichRule :: "string \<Rightarrow> string \<Rightarrow> daemon \<Rightarrow> unit outcome \<times> daemon" where
  "disableTimedRichRule zone rule s =
     (case del_timeout zone (KStr rule) s of
        Inl e \<Rightarrow> (Raise e, s)
      | Inr s1 \<Rightarrow>
          (case remove_rule (fw s1) zone (Rich_Rule rule) of
             Inl e \<Rightarrow> (Raise e, s1)
           | Inr (z, f) \<Rightarrow> (Return (), emit (RichRuleRemoved zone rule) (s1\<lparr>fw := f\<rparr>))))"

definition addRichRule ::
  "string \<Rightarrow> string \<Rightarrow> int \<Rightarrow> string option \<Rightarrow> daemon \<Rightarrow> string outcome \<times> daemon" where
  "addRichRule zone rule timeout sender s =
     (case add_rule (fw s) zone (Rich_Rule rule) timeout of
        Inl e \<Rightarrow> (Raise e, s)
      | Inr (z, f) \<Rightarrow>
          (let s1 = s\<lparr>fw := f\<rparr>;
               s2 = (if timeout > 0
                     then (case timeout_add_seconds timeout (DisableTimedRichRule z rule) s1 of
                             (tag, s') \<Rightarrow> addTimeout z (KStr rule) tag s')
                     else s1)
           in (Return z, emit (RichRuleAdded z rule timeout) s2)))"

definition removeRichRule ::
  "string \<Rightarrow> string \<Rightarrow> string option \<Rightarrow> daemon \<Rightarrow> string outcome \<times> daemon" where
  "removeRichRule zone rule sender s =
     (case remove_rule (fw s) zone (Rich_Rule rule) of
        Inl e \<Rightarrow> (Raise e, s)
      | Inr (z, f) \<Rightarrow>
          (Return z, emit (RichRuleRemoved z rule) (removeTimeout z (KStr rule) (s\<lparr>fw := f\<rparr>))))"

definition queryRichRule :: "string \<Rightarrow> string \<Rightarrow> daemon \<Rightarrow> bool" where
  "queryRichRule zone rule s = query_rule (fw s) zone (Rich_Rule rule)"

subsection \<open>Zone interface: services\<close>

definition disableTimedService :: "string \<Rightarrow> string \<Rightarrow> daemon \<Rightarrow> unit outcome \<times> daemon" where
  "disableTimedService zone service s =
     (case del_timeout zone (KStr service) s of
        Inl e \<Rightarrow> (Raise e, s)
      | Inr s1 \<Rightarrow>
          (case remove_service (fw s1) zone service of
             Inl e \<Rightarrow> (Raise e, s1)
           | Inr (z, f) \<Rightarrow> (Return (), emit (ServiceRemoved zone service) (s1\<lparr>fw := f\<rparr>))))"

definition addService ::
  "string \<Rightarrow> string \<Rightarrow> int \<Rightarrow> string option \<Rightarrow> daemon \<Rightarrow> string outcome \<times> daemon" where
  "addService zone service timeout sender s =
     (case accessCheck sender s of
        Raise e \<Rightarrow> (Raise e, s)
      | Return u \<Rightarrow>
          (case add_service (fw s) zone service timeout sender of
             Inl e \<Rightarrow> (Raise e, s)
           | Inr (z, f) \<Rightarrow>
               (let s1 = s\<lparr>fw := f\<rparr>;
                    s2 = (if timeout > 0
                          then (case timeout_add_seconds timeout (DisableTimedService z service) s1 of
                                  (tag, s') \<Rightarrow> addTimeout z (KStr service) tag s')
                          else s1)
                in (Return z, emit (ServiceAdded z service timeout) s2))))"

definition removeService ::
  "string \<Rightarrow> string \<Rightarrow> string option \<Rightarrow> daemon \<Rightarrow> string outcome \<times> daemon" where
  "removeService zone service sender s =
     (case accessCheck sender s of
        Raise e \<Rightarrow> (Raise e, s)
      | Return u \<Rightarrow>
          (case remove_service (fw s) zone service of
             Inl e \<Rightarrow> (Raise e, s)
           | Inr (z, f) \<Rightarrow>
               (Return z, emit (ServiceRemoved z service) (removeTimeout z (KStr service) (s\<lparr>fw := f\<rparr>)))))"

definition queryService :: "string \<Rightarrow> string \<Rightarrow> daemon \<Rightarrow> bool" where
  "queryService zone service s = query_service (fw s) zone service"

subsection \<open>Zone interface: ports\<close>

definition disableTimedPort :: "string \<Rightarrow> string \<Rightarrow> string \<Rightarrow> daemon \<Rightarrow> unit outcome \<times> daemon" where
  "disableTimedPort zone port protocol s =
     (case del_timeout zone (KPair port protocol) s of
        Inl e \<Rightarrow> (Raise e, s)
      | Inr s1 \<Rightarrow>
          (case remove_port (fw s1) zone port protocol of
             Inl e \<Rightarrow> (Raise e, s1)
           | Inr (z, f) \<Rightarrow> (Return (), emit (PortRemoved zone port protocol) (s1\<lparr>fw := f\<rparr>))))"

definition addPort ::
  "string \<Rightarrow> string \<Rightarrow> string \<Rightarrow> int \<Rightarrow> string option \<Rightarrow> daemon \<Rightarrow> string outcome \<times> daemon" where
  "addPort zone port protocol timeout sender s =
     (case accessCheck sender s of
        Raise e \<Rightarrow> (Raise e, s)
      | Return u \<Rightarrow>
          (case add_port (fw s) zone port protocol timeout sender of
             Inl e \<Rightarrow> (Raise e, s)
           | Inr (z, f) \<Rightarrow>
               (let s1 = s\<lparr>fw := f\<rparr>;
                    s2 = (if timeout > 0
                          then (case timeout_add_seconds timeout (DisableTimedPort z port protocol) s1 of
                                  (tag, s') \<Rightarrow> addTimeout z (KPair port protocol) tag s')
                          else s1)
                in (Return z, emit (PortAdded z port protocol timeout) s2))))"

definition removePort ::
  "string \<Rightarrow> string \<Rightarrow> string \<Rightarrow> string option \<Rightarrow> daemon \<Rightarrow> string outcome \<times> daemon" where
  "removePort zone port protocol sender s =
     (case accessCheck sender s of
        Raise e \<Rightarrow> (Raise e, s)
      | Return u \<Rightarrow>
          (case remove_port (fw s) zone port protocol of
             Inl e \<Rightarrow> (Raise e, s)
           | Inr (z, f) \<Rightarrow>
               (Return z, emit (PortRemoved z port protocol) (removeTimeout z (KPair port protocol) (s\<lparr>fw := f\<rparr>)))))"

definition queryPort :: "string \<Rightarrow> string \<Rightarrow> string \<Rightarrow> daemon \<Rightarrow> bool" where
  "queryPort zone port protocol s = query_port (fw s) zone port protocol"

subsection \<open>Zone interface: protocols\<close>

definition disableTimedProtocol :: "string \<Rightarrow> string \<Rightarrow> daemon \<Rightarrow> unit outcome \<times> daemon" where
  "disableTimedProtocol zone protocol s =
     (case del_timeout zone (KStr protocol) s of
        Inl e \<Rightarrow> (Raise e, s)
      | Inr s1 \<Rightarrow>
          (case remove_protocol (fw s1) zone protocol of
             Inl e \<Rightarrow> (Raise e, s1)
           | Inr (z, f) \<Rightarrow> (Return (), emit (ProtocolRemoved zone protocol) (s1\<lparr>fw := f\<rparr>))))"

definition addProtocol ::
  "string \<Rightarrow> string \<Rightarrow> int \<Rightarrow> string option \<Rightarrow> daemon \<Rightarrow> string outcome \<times> daemon" where
  "addProtocol zone protocol timeout sender s =
     (case accessCheck sender s of
        Raise e \<Rightarrow> (Raise e, s)
      | Return u \<Rightarrow>
          (case add_protocol (fw s) zone protocol timeout sender of
             Inl e \<Rightarrow> (Raise e, s)
           | Inr (z, f) \<Rightarrow>
               (let s1 = s\<lparr>fw := f\<rparr>;
                    s2 = (if timeout > 0
                          then (case timeout_add_seconds timeout (DisableTimedProtocol z protocol) s1 of
                                  (tag, s') \<Rightarrow> addTimeout z (KStr protocol) tag s')
                          else s1)
                in (Return z, emit (ProtocolAdded z protocol timeout) s2))))"

definition removeProtocol ::
  "string \<Rightarrow> string \<Rightarrow> string option \<Rightarrow> daemon \<Rightarrow> string outcome \<times> daemon" where
  "removeProtocol zone protocol sender s =
     (case accessCheck sender s of
        Raise e \<Rightarrow> (Raise e, s)
      | Return u \<Rightarrow>
          (case remove_protocol (fw s) zone protocol of
             Inl e \<Rightarrow> (Raise e, s)
           | Inr (z, f) \<Rightarrow>
               (Return z, emit (ProtocolRemoved z protocol) (removeTimeout z (KStr protocol) (s\<lparr>fw := f\<rparr>)))))"

definition queryProtocol :: "string \<Rightarrow> string \<Rightarrow> daemon \<Rightarrow> bool" where
  "queryProtocol zone protocol s = query_protocol (fw s) zone protocol"

subsection \<open>Zone interface: masquerade\<close>

definition disableTimedMasquerade :: "string \<Rightarrow> daemon \<Rightarrow> unit outcome \<times> daemon" where
  "disableTimedMasquerade zone s =
     (case del_timeout zone (KStr ''masquerade'') s of
        Inl e \<Rightarrow> (Raise e, s)
      | Inr s1 \<Rightarrow>
          (case remove_masquerade (fw s1) zone of
             Inl e \<Rightarrow> (Raise e, s1)
           | Inr (z, f) \<Rightarrow> (Return (), emit (MasqueradeRemoved zone) (s1\<lparr>fw := f\<rparr>))))"

definition addMasquerade ::
  "string \<Rightarrow> int \<Rightarrow> string option \<Rightarrow> daemon \<Rightarrow> string outcome \<times> daemon" where
  "addMasquerade zone timeout sender s =
     (case accessCheck sender s of
        Raise e \<Rightarrow> (Raise e, s)
      | Return u \<Rightarrow>
          (case add_masquerade (fw s) zone timeout sender of
             Inl e \<Rightarrow> (Raise e, s)
           | Inr (z, f) \<Rightarrow>
               (let s1 = s\<lparr>fw := f\<rparr>;
                    s2 = (if timeout > 0
                          then (case timeout_add_seconds timeout (DisableTimedMasquerade z) s1 of
                                  (tag, s') \<Rightarrow> addTimeout z (KStr ''masquerade'') tag s')
                          else s1)
                in (Return z, emit (MasqueradeAdded z timeout) s2))))"

definition removeMasquerade ::
  "string \<Rightarrow> string option \<Rightarrow> daemon \<Rightarrow> string outcome \<times> daemon" where
  "removeMasquerade zone sender s =
     (case accessCheck sender s of
        Raise e \<Rightarrow> (Raise e, s)
      | Return u \<Rightarrow>
          (case remove_masquerade (fw s) zone of
             Inl e \<Rightarrow> (Raise e, s)
           | Inr (z, f) \<Rightarrow>
               (Return z, emit (MasqueradeRemoved z) (removeTimeout z (KStr ''masquerade'') (s\<lparr>fw := f\<rparr>)))))"

definition queryMasquerade :: "string \<Rightarrow> daemon \<Rightarrow> bool" where
  "queryMasquerade zone s = query_masquerade (fw s) zone"

subsection \<open>Zone interface: forward ports\<close>

definition disable_forward_port :: "string \<Rightarrow> string \<Rightarrow> string \<Rightarrow> string \<Rightarrow> string \<Rightarrow> daemon \<Rightarrow> unit outcome \<times> daemon" where
  "disable_forward_port zone port protocol toport toaddr s =
     (case del_timeout zone (KQuad port protocol toport toaddr) s of
        Inl e \<Rightarrow> (Raise e, s)
      | Inr s1 \<Rightarrow>
          (case remove_forward_port (fw s1) zone port protocol toport toaddr of
             Inl e \<Rightarrow> (Raise e, s1)
           | Inr (z, f) \<Rightarrow> (Return (), emit (ForwardPortRemoved zone port protocol toport toaddr) (s1\<lparr>fw := f\<rparr>))))"

definition addForwardPort ::
  "string \<Rightarrow> string \<Rightarrow> string \<Rightarrow> string \<Rightarrow> string \<Rightarrow> int \<Rightarrow> string option \<Rightarrow> daemon \<Rightarrow> string outcome \<times> daemon" where
  "addForwardPort zone port protocol toport toaddr timeout sender s =
     (case accessCheck sender s of
        Raise e \<Rightarrow> (Raise e, s)
      | Return u \<Rightarrow>
          (case add_forward_port (fw s) zone port protocol toport toaddr timeout sender of
             Inl e \<Rightarrow> (Raise e, s)
           | Inr (z, f) \<Rightarrow>
               (let s1 = s\<lparr>fw := f\<rparr>;
                    s2 = (if timeout > 0
                          then (case timeout_add_seconds timeout (Disable_forward_port z port protocol toport toaddr) s1 of
                                  (tag, s') \<Rightarrow> addTimeout z (KQuad port protocol toport toaddr) tag s')
                          else s1)
                in (Return z, emit (ForwardPortAdded z port protocol toport toaddr timeout) s2))))"

definition removeForwardPort ::
  "string \<Rightarrow> string \<Rightarrow> string \<Rightarrow> string \<Rightarrow> string \<Rightarrow> string option \<Rightarrow> daemon \<Rightarrow> string outcome \<times> daemon" where
  "removeForwardPort zone port protocol toport toaddr sender s =
     (case accessCheck sender s of
        Raise e \<Rightarrow> (Raise e, s)
      | Return u \<Rightarrow>
          (case remove_forward_port (fw s) zone port protocol toport toaddr of
             Inl e \<Rightarrow> (Raise e, s)
           | Inr (z, f) \<Rightarrow>
               (Return z, emit (ForwardPortRemoved z port protocol toport toaddr) (removeTimeout z (KQuad port protocol toport toaddr) (s\<lparr>fw := f\<rparr>)))))"

definition queryForwardPort :: "string \<Rightarrow> string \<Rightarrow> string \<Rightarrow> string \<Rightarrow> string \<Rightarrow> daemon \<Rightarrow> bool" where
  "queryForwardPort zone port protocol toport toaddr s = query_forward_port (fw s) zone port protocol toport toaddr"

subsection \<open>Zone interface: ICMP blocks\<close>

definition disableTimedIcmpBlock :: "string \<Rightarrow> string \<Rightarrow> string option \<Rightarrow> daemon \<Rightarrow> unit outcome \<times> daemon" where
  "disableTimedIcmpBlock zone icmp sender s =
     (case del_timeout zone (KStr icmp) s of
        Inl e \<Rightarrow> (Raise e, s)
      | Inr s1 \<Rightarrow>
          (case remove_icmp_block (fw s1) zone icmp of
             Inl e \<Rightarrow> (Raise e, s1)
           | Inr (z, f) \<Rightarrow> (Return (), emit (IcmpBlockRemoved zone icmp) (s1\<lparr>fw := f\<rparr>))))"

definition addIcmpBlock ::
  "string \<Rightarrow> string \<Rightarrow> int \<Rightarrow> string option \<Rightarrow> daemon \<Rightarrow> string outcome \<times> daemon" where
  "addIcmpBlock zone icmp timeout sender s =
     (case accessCheck sender s of
        Raise e \<Rightarrow> (Raise e, s)
      | Return u \<Rightarrow>
          (case add_icmp_block (fw s) zone icmp timeout sender of
             Inl e \<Rightarrow> (Raise e, s)
           | Inr (z, f) \<Rightarrow>
               (let s1 = s\<lparr>fw := f\<rparr>;
                    s2 = (if timeout > 0
                          then (case timeout_add_seconds timeout (DisableTimedIcmpBlock z icmp sender) s1 of
                                  (tag, s') \<Rightarrow> addTimeout z (KStr icmp) tag s')
                          else s1)
                in (Return z, emit (IcmpBlockAdded z icmp timeout) s2))))"

definition removeIcmpBlock ::
  "string \<Rightarrow> string \<Rightarrow> string option \<Rightarrow> daemon \<Rightarrow> string outcome \<times> daemon" where
  "removeIcmpBlock zone icmp sender s =
     (case accessCheck sender s of
        Raise e \<Rightarrow> (Raise e, s)
      | Return u \<Rightarrow>
          (case remove_icmp_block (fw s) zone icmp of
             Inl e \<Rightarrow> (Raise e, s)
           | Inr (z, f) \<Rightarrow>
               (Return z, emit (IcmpBlockRemoved z icmp) (removeTimeout z (KStr icmp) (s\<lparr>fw := f\<rparr>)))))"

definition queryIcmpBlock :: "string \<Rightarrow> string \<Rightarrow> daemon \<Rightarrow> bool" where
  "queryIcmpBlock zone icmp s = query_icmp_block (fw s) zone icmp"

subsection \<open>Timer expiry\<close>

fun run_callback :: "callback \<Rightarrow> daemon \<Rightarrow> unit outcome \<times> daemon" where
  "run_callback (DisableTimedRichRule zone rule) s = disableTimedRichRule zone rule s"
| "run_callback (DisableTimedService zone service) s = disableTimedService zone service s"
| "run_callback (DisableTimedPort zone port protocol) s = disableTimedPort zone port protocol s"
| "run_callback (DisableTimedProtocol zone protocol) s = disableTimedProtocol zone protocol s"
| "run_callback (DisableTimedMasquerade zone) s = disableTimedMasquerade zone s"
| "run_callback (Disable_forward_port zone port protocol toport toaddr) s =
     disable_forward_port zone port protocol toport toaddr s"
| "run_callback (DisableTimedIcmpBlock zone icmp sender) s = disableTimedIcmpBlock zone icmp sender s"

text \<open>
  The main loop dispatches an attached timeout source when its interval has passed: it
  calls the callback and keeps the source only if the callback returns a true value. The
  \<open>disable\<close> methods return \<open>None\<close> or raise, so the source is detached after its first
  call. Time itself is not modelled; \<open>timer_fires tag\<close> is the expiry of the source
  \<open>tag\<close>, and nothing happens for an id that is not attached.
\<close>

definition timer_fires :: "nat \<Rightarrow> daemon \<Rightarrow> daemon" where
  "timer_fires tag s =
     (case glib_sources s tag of
        None \<Rightarrow> s
      | Some (interval, cb) \<Rightarrow> source_remove tag (snd (run_callback cb s)))"

subsection \<open>Direct interface: tracked passthroughs\<close>

definition addPassthrough ::
  "string \<Rightarrow> string list \<Rightarrow> string option \<Rightarrow> daemon \<Rightarrow> unit outcome \<times> daemon" where
  "addPassthrough ipv args sender s =
     (case accessCheck sender s of
        Raise e \<Rightarrow> (Raise e, s)
      | Return u \<Rightarrow>
          (case add_passthrough (fw s) ipv args of
             Inl e \<Rightarrow> (Raise e, s)
           | Inr f \<Rightarrow> (Return (), emit (PassthroughAdded ipv args) (s\<lparr>fw := f\<rparr>))))"

definition removePassthrough ::
  "string \<Rightarrow> string list \<Rightarrow> string option \<Rightarrow> daemon \<Rightarrow> unit outcome \<times> daemon" where
  "removePassthrough ipv args sender s =
     (case accessCheck sender s of
        Raise e \<Rightarrow> (Raise e, s)
      | Return u \<Rightarrow>
          (case remove_passthrough (fw s) ipv args of
             Inl e \<Rightarrow> (Raise e, s)
           | Inr f \<Rightarrow> (Return (), emit (PassthroughRemoved ipv args) (s\<lparr>fw := f\<rparr>))))"

definition queryPassthrough :: "string \<Rightarrow> string list \<Rightarrow> daemon \<Rightarrow> bool" where
  "queryPassthrough ipv args s = query_passthrough (fw s) ipv args"

definition getAllPassthroughs :: "daemon \<Rightarrow> (string \<times> string list) list" where
  "getAllPassthroughs s = get_all_passthroughs (fw s)"

text \<open>The loop of \<open>removeAllPassthroughs\<close>: \<open>self.removePassthrough(*passthrough)\<close> for each
  element, with \<open>sender\<close> left at its default \<open>None\<close>; an exception ends the loop.\<close>

fun removePassthrough_each :: "(string \<times> string list) list \<Rightarrow> daemon \<Rightarrow> unit outcome \<times> daemon" where
  "removePassthrough_each [] s = (Return (), s)"
| "removePassthrough_each (p # ps) s =
     (case removePassthrough (fst p) (snd p) None s of
        (Raise e, s') \<Rightarrow> (Raise e, s')
      | (Return u, s') \<Rightarrow> removePassthrough_each ps s')"

definition removeAllPassthroughs :: "string option \<Rightarrow> daemon \<Rightarrow> unit outcome \<times> daemon" where
  "removeAllPassthroughs sender s = removePassthrough_each (rev (getAllPassthroughs s)) s"

subsection \<open>Authorization of the direct interface\<close>

text \<open>
  The methods exported on \<open>DBUS_INTERFACE_DIRECT\<close>, and for each the action of its
  \<open>@slip.dbus.polkit.require_auth\<close> decorator, \<open>None\<close> where the method has none. A method
  without the decorator is checked against the class attribute
  \<open>default_polkit_auth_required\<close>.
\<close>

datatype direct_method =
    AddChain | RemoveChain | QueryChain | GetChains | GetAllChains
  | AddRule | RemoveRule | RemoveRules | QueryRule | GetRules | GetAllRules
  | Passthrough | AddPassthrough | RemovePassthrough | QueryPassthrough
  | GetAllPassthroughs | RemoveAllPassthroughs | GetPassthroughs

definition default_polkit_auth_required :: action where
  "default_polkit_auth_required = PK_ACTION_INFO"

fun require_auth :: "direct_method \<Rightarrow> action option" where
  "require_auth AddChain = Some PK_ACTION_DIRECT"
| "require_auth RemoveChain = Some PK_ACTION_DIRECT"
| "require_auth QueryChain = Some PK_ACTION_DIRECT_INFO"
| "require_auth GetChains = Some PK_ACTION_DIRECT_INFO"
| "require_auth GetAllChains = Some PK_ACTION_DIRECT_INFO"
| "require_auth AddRule = Some PK_ACTION_DIRECT"
| "require_auth RemoveRule = Some PK_ACTION_DIRECT"
| "require_auth RemoveRules = Some PK_ACTION_DIRECT"
| "require_auth QueryRule = Some PK_ACTION_DIRECT_INFO"
| "require_auth GetRules = Some PK_ACTION_DIRECT_INFO"
| "require_auth GetAllRules = Some PK_ACTION_DIRECT_INFO"
| "require_auth Passthrough = Some PK_ACTION_DIRECT"
| "require_auth AddPassthrough = None"
| "require_auth RemovePassthrough = None"
| "require_auth QueryPassthrough = Some PK_ACTION_DIRECT_INFO"
| "require_auth GetAllPassthroughs = Some PK_ACTION_DIRECT_INFO"
| "require_auth RemoveAllPassthroughs = Some PK_ACTION_DIRECT"
| "require_auth GetPassthroughs = Some PK_ACTION_DIRECT_INFO"

definition polkit_auth_required :: "direct_method \<Rightarrow> action" where
  "polkit_auth_required m =
     (case require_auth m of None \<Rightarrow> default_polkit_auth_required | Some a \<Rightarrow> a)"

text \<open>Which methods of the direct interface change state.\<close>

fun mutating :: "direct_method \<Rightarrow> bool" where
  "mutating AddChain = True"
| "mutating RemoveChain = True"
| "mutating AddRule = True"
| "mutating RemoveRule = True"
| "mutating RemoveRules = True"
| "mutating Passthrough = True"
| "mutating AddPassthrough = True"
| "mutating RemovePassthrough = True"
| "mutating RemoveAllPassthroughs = True"
| "mutating _ = False"

text \<open>
  A call over the bus: the service object asks the authorization provider whether the
  sender may perform the method's action and runs the method only if so. The provider is
  external; \<open>authz\<close> is its decision.
\<close>

definition bus_call ::
  "(string option \<Rightarrow> action \<Rightarrow> bool) \<Rightarrow> direct_method
     \<Rightarrow> (string option \<Rightarrow> daemon \<Rightarrow> 'a outcome \<times> daemon)
     \<Rightarrow> string option \<Rightarrow> daemon \<Rightarrow> 'a outcome \<times> daemon" where
  "bus_call authz m method sender s =
     (if authz sender (polkit_auth_required m) then method sender s
      else (Raise (NotAuthorized (polkit_auth_required m)), s))"

text \<open>A provider that grants the info action to everyone and nothing else.\<close>

definition info_only :: "string option \<Rightarrow> action \<Rightarrow> bool" where
  "info_only sender a \<longleftrightarrow> a = PK_ACTION_INFO"

subsection \<open>The timed zone methods by entry\<close>

text \<open>
  The bus dispatches a call to the method named in it. For the seven kinds of zone entry
  that can be enabled for a time, the following functions pick the \<open>add\<close>, \<open>remove\<close> and
  \<open>query\<close> method of an entry, the key its \<open>add\<close> method files the timer under, the callback
  it hands to the main loop, and the signals of the group.
\<close>

fun add_entry :: "entry \<Rightarrow> string \<Rightarrow> int \<Rightarrow> string option \<Rightarrow> daemon \<Rightarrow> string outcome \<times> daemon" where
  "add_entry (RichRule (Rich_Rule rule)) zone timeout sender s = addRichRule zone rule timeout sender s"
| "add_entry (Service service) zone timeout sender s = addService zone service timeout sender s"
| "add_entry (Port port protocol) zone timeout sender s = addPort zone port protocol timeout sender s"
| "add_entry (Protocol protocol) zone timeout sender s = addProtocol zone protocol timeout sender s"
| "add_entry Masquerade zone timeout sender s = addMasquerade zone timeout sender s"
| "add_entry (ForwardPort port protocol toport toaddr) zone timeout sender s =
     addForwardPort zone port protocol toport toaddr timeout sender s"
| "add_entry (IcmpBlock icmp) zone timeout sender s = addIcmpBlock zone icmp timeout sender s"

fun remove_entry :: "entry \<Rightarrow> string \<Rightarrow> string option \<Rightarrow> daemon \<Rightarrow> string outcome \<times> daemon" where
  "remove_entry (RichRule (Rich_Rule rule)) zone sender s = removeRichRule zone rule sender s"
| "remove_entry (Service service) zone sender s = removeService zone service sender s"
| "remove_entry (Port port protocol) zone sender s = removePort zone port protocol sender s"
| "remove_entry (Protocol protocol) zone sender s = removeProtocol zone protocol sender s"
| "remove_entry Masquerade zone sender s = removeMasquerade zone sender s"
| "remove_entry (ForwardPort port protocol toport toaddr) zone sender s =
     removeForwardPort zone port protocol toport toaddr sender s"
| "remove_entry (IcmpBlock icmp) zone sender s = removeIcmpBlock zone icmp sender s"

fun query_entry :: "entry \<Rightarrow> string \<Rightarrow> daemon \<Rightarrow> bool" where
  "query_entry (RichRule (Rich_Rule rule)) zone s = queryRichRule zone rule s"
| "query_entry (Service service) zone s = queryService zone service s"
| "query_entry (Port port protocol) zone s = queryPort zone port protocol s"
| "query_entry (Protocol protocol) zone s = queryProtocol zone protocol s"
| "query_entry Masquerade zone s = queryMasquerade zone s"
| "query_entry (ForwardPort port protocol toport toaddr) zone s =
     queryForwardPort zone port protocol toport toaddr s"
| "query_entry (IcmpBlock icmp) zone s = queryIcmpBlock zone icmp s"

fun timer_key :: "entry \<Rightarrow> key" where
  "timer_key (RichRule (Rich_Rule rule)) = KStr rule"
| "timer_key (Service service) = KStr service"
| "timer_key (Port port protocol) = KPair port protocol"
| "timer_key (Protocol protocol) = KStr protocol"
| "timer_key Masquerade = KStr ''masquerade''"
| "timer_key (ForwardPort port protocol toport toaddr) = KQuad port protocol toport toaddr"
| "timer_key (IcmpBlock icmp) = KStr icmp"

fun timer_callback :: "entry \<Rightarrow> string \<Rightarrow> string option \<Rightarrow> callback" where
  "timer_callback (RichRule (Rich_Rule rule)) zone sender = DisableTimedRichRule zone rule"
| "timer_callback (Service service) zone sender = DisableTimedService zone service"
| "timer_callback (Port port protocol) zone sender = DisableTimedPort zone port protocol"
| "timer_callback (Protocol protocol) zone sender = DisableTimedProtocol zone protocol"
| "timer_callback Masquerade zone sender = DisableTimedMasquerade zone"
| "timer_callback (ForwardPort port protocol toport toaddr) zone sender =
     Disable_forward_port zone port protocol toport toaddr"
| "timer_callback (IcmpBlock icmp) zone sender = DisableTimedIcmpBlock zone icmp sender"

fun added_signal :: "entry \<Rightarrow> string \<Rightarrow> int \<Rightarrow> signal" where
  "added_signal (RichRule (Rich_Rule rule)) zone timeout = RichRuleAdded zone rule timeout"
| "added_signal (Service service) zone timeout = ServiceAdded zone service timeout"
| "added_signal (Port port protocol) zone timeout = PortAdded zone port protocol timeout"
| "added_signal (Protocol protocol) zone timeout = ProtocolAdded zone protocol timeout"
| "added_signal Masquerade zone timeout = MasqueradeAdded zone timeout"
| "added_signal (ForwardPort port protocol toport toaddr) zone timeout =
     ForwardPortAdded zone port protocol toport toaddr timeout"
| "added_signal (IcmpBlock icmp) zone timeout = IcmpBlockAdded zone icmp timeout"

fun removed_signal :: "entry \<Rightarrow> string \<Rightarrow> signal" where
  "removed_signal (RichRule (Rich_Rule rule)) zone = RichRuleRemoved zone rule"
| "removed_signal (Service service) zone = ServiceRemoved zone service"
| "removed_signal (Port port protocol) zone = PortRemoved zone port protocol"
| "removed_signal (Protocol protocol) zone = ProtocolRemoved zone protocol"
| "removed_signal Masquerade zone = MasqueradeRemoved zone"
| "removed_signal (ForwardPort port protocol toport toaddr) zone =
     ForwardPortRemoved zone port protocol toport toaddr"
| "removed_signal (IcmpBlock icmp) zone = IcmpBlockRemoved zone icmp"

text \<open>Whether the methods of an entry's group call \<open>accessCheck\<close>: all but the rich-rule ones.\<close>

fun gated :: "entry \<Rightarrow> bool" where
  "gated (RichRule r) = False"
| "gated e = True"

text \<open>
  The seven groups are written to one pattern. The pattern itself, with the entry, the key,
  the callback and the signal as arguments, serves the proofs: each method is shown to be
  an instance of it.
\<close>

definition add_pattern ::
  "bool \<Rightarrow> entry \<Rightarrow> key \<Rightarrow> (string \<Rightarrow> callback) \<Rightarrow> (string \<Rightarrow> signal)
     \<Rightarrow> string \<Rightarrow> int \<Rightarrow> string option \<Rightarrow> daemon \<Rightarrow> string outcome \<times> daemon" where
  "add_pattern g e k cb sig zone timeout sender s =
     (case (if g then accessCheck sender s else Return ()) of
        Raise err \<Rightarrow> (Raise err, s)
      | Return u \<Rightarrow>
          (case zone_add (fw s) zone e of
             Inl err \<Rightarrow> (Raise err, s)
           | Inr (z, f) \<Rightarrow>
               (let s1 = s\<lparr>fw := f\<rparr>;
                    s2 = (if timeout > 0
                          then (case timeout_add_seconds timeout (cb z) s1 of
                                  (tag, s') \<Rightarrow> addTimeout z k tag s')
                          else s1)
                in (Return z, emit (sig z) s2))))"

definition remove_pattern ::
  "bool \<Rightarrow> entry \<Rightarrow> key \<Rightarrow> (string \<Rightarrow> signal)
     \<Rightarrow> string \<Rightarrow> string option \<Rightarrow> daemon \<Rightarrow> string outcome \<times> daemon" where
  "remove_pattern g e k sig zone sender s =
     (case (if g then accessCheck sender s else Return ()) of
        Raise err \<Rightarrow> (Raise err, s)
      | Return u \<Rightarrow>
          (case zone_remove (fw s) zone e of
             Inl err \<Rightarrow> (Raise err, s)
           | Inr (z, f) \<Rightarrow> (Return z, emit (sig z) (removeTimeout z k (s\<lparr>fw := f\<rparr>)))))"

definition disable_pattern ::
  "entry \<Rightarrow> key \<Rightarrow> signal \<Rightarrow> string \<Rightarrow> daemon \<Rightarrow> unit outcome \<times> daemon" where
  "disable_pattern e k sig zone s =
     (case del_timeout zone k s of
        Inl err \<Rightarrow> (Raise err, s)
      | Inr s1 \<Rightarrow>
          (case zone_remove (fw s1) zone e of
             Inl err \<Rightarrow> (Raise err, s1)
           | Inr (z, f) \<Rightarrow> (Return (), emit sig (s1\<lparr>fw := f\<rparr>))))"

subsection \<open>Runtime to permanent\<close>

text \<open>Modelled from the spec: the operations of the permanent store that
  \<open>runtimeToPermanent\<close> calls on \<open>self.config\<close> (module \<open>firewall.server.config\<close> is not part
  of the sources); a lookup by name raises the \<open>INVALID_\<close> error of its kind when the name
  is not in the store, and a lookup or a save raises when the store has a fault for its
  target. A configuration object is represented by its settings.\<close>

definition getServiceByName :: "config_store \<Rightarrow> string \<Rightarrow> error + settings" where
  "getServiceByName c name =
     (case read_fault c (TService name) of
        Some e \<Rightarrow> Inl e
      | None \<Rightarrow>
          (case map_of (c_services c) name of
             None \<Rightarrow> Inl (FirewallError INVALID_SERVICE name)
           | Some conf \<Rightarrow> Inr conf))"

definition config_addService :: "config_store \<Rightarrow> string \<Rightarrow> settings \<Rightarrow> error + config_store" where
  "config_addService c name conf =
     (case write_fault c (TService name) of
        Some e \<Rightarrow> Inl e
      | None \<Rightarrow> Inr (c\<lparr>c_services := c_services c @ [(name, conf)]\<rparr>))"

definition service_update :: "config_store \<Rightarrow> string \<Rightarrow> settings \<Rightarrow> error + config_store" where
  "service_update c name conf =
     (case write_fault c (TService name) of
        Some e \<Rightarrow> Inl e
      | None \<Rightarrow> Inr (c\<lparr>c_services := AList.update name conf (c_services c)\<rparr>))"

definition getIcmpTypeByName :: "config_store \<Rightarrow> string \<Rightarrow> error + settings" where
  "getIcmpTypeByName c name =
     (case read_fault c (TIcmpType name) of
        Some e \<Rightarrow> Inl e
      | None \<Rightarrow>
          (case map_of (c_icmptypes c) name of
             None \<Rightarrow> Inl (FirewallError INVALID_ICMPTYPE name)
           | Some conf \<Rightarrow> Inr conf))"

definition config_addIcmpType :: "config_store \<Rightarrow> string \<Rightarrow> settings \<Rightarrow> error + config_store" where
  "config_addIcmpType c name conf =
     (case write_fault c (TIcmpType name) of
        Some e \<Rightarrow> Inl e
      | None \<Rightarrow> Inr (c\<lparr>c_icmptypes := c_icmptypes c @ [(name, conf)]\<rparr>))"

definition icmptype_update :: "config_store \<Rightarrow> string \<Rightarrow> settings \<Rightarrow> error + config_store" where
  "icmptype_update c name conf =
     (case write_fault c (TIcmpType name) of
        Some e \<Rightarrow> Inl e
      | None \<Rightarrow> Inr (c\<lparr>c_icmptypes := AList.update name conf (c_icmptypes c)\<rparr>))"

definition getZoneByName :: "config_store \<Rightarrow> string \<Rightarrow> error + settings" where
  "getZoneByName c name =
     (case read_fault c (TZone name) of
        Some e \<Rightarrow> Inl e
      | None \<Rightarrow>
          (case map_of (c_zones c) name of
             None \<Rightarrow> Inl (FirewallError INVALID_ZONE name)
           | Some conf \<Rightarrow> Inr conf))"

definition config_addZone :: "config_store \<Rightarrow> string \<Rightarrow> settings \<Rightarrow> error + config_store" where
  "config_addZone c name conf =
     (case write_fault c (TZone name) of
        Some e \<Rightarrow> Inl e
      | None \<Rightarrow> Inr (c\<lparr>c_zones := c_zones c @ [(name, conf)]\<rparr>))"

definition zone_update :: "config_store \<Rightarrow> string \<Rightarrow> settings \<Rightarrow> error + config_store" where
  "zone_update c name conf =
     (case write_fault c (TZone name) of
        Some e \<Rightarrow> Inl e
      | None \<Rightarrow> Inr (c\<lparr>c_zones := AList.update name conf (c_zones c)\<rparr>))"

definition config_getSettings :: "config_store \<Rightarrow> error + settings" where
  "config_getSettings c =
     (case read_fault c TDirect of Some e \<Rightarrow> Inl e | None \<Rightarrow> Inr (c_direct c))"

definition direct_update :: "config_store \<Rightarrow> settings \<Rightarrow> error + config_store" where
  "direct_update c conf =
     (case write_fault c TDirect of Some e \<Rightarrow> Inl e | None \<Rightarrow> Inr (c\<lparr>c_direct := conf\<rparr>))"

definition setLockdownWhitelist :: "config_store \<Rightarrow> settings \<Rightarrow> error + config_store" where
  "setLockdownWhitelist c conf =
     (case write_fault c TPolicies of Some e \<Rightarrow> Inl e | None \<Rightarrow> Inr (c\<lparr>c_whitelist := conf\<rparr>))"

text \<open>Modelled from the spec: the test \<open>"INVALID_SERVICE" in e\<close> on a caught \<open>FirewallError\<close>
  (module \<open>firewall.errors\<close> is not part of the sources); the spec reads it as a match on the
  error kind.\<close>

definition error_has :: "string \<Rightarrow> error \<Rightarrow> bool" where
  "error_has code e = (case e of FirewallError c msg \<Rightarrow> errcode_name c = code | _ \<Rightarrow> False)"

definition getServiceSettings :: "string \<Rightarrow> daemon \<Rightarrow> settings outcome" where
  "getServiceSettings service s =
     (case get_service_config (fw s) service of Inl e \<Rightarrow> Raise e | Inr c \<Rightarrow> Return c)"

definition getIcmpTypeSettings :: "string \<Rightarrow> daemon \<Rightarrow> settings outcome" where
  "getIcmpTypeSettings icmptype s =
     (case get_icmptype_config (fw s) icmptype of Inl e \<Rightarrow> Raise e | Inr c \<Rightarrow> Return c)"

definition getZoneSettings :: "string \<Rightarrow> daemon \<Rightarrow> settings outcome" where
  "getZoneSettings zone s =
     (case get_config_with_settings (fw s) zone of Inl e \<Rightarrow> Raise e | Inr c \<Rightarrow> Return c)"

text \<open>
  The inner \<open>try\<close> of each loop body: look the name up; on a \<open>FirewallError\<close> that is the
  \<open>INVALID_\<close> error of the kind create the entry, on any other exception raise it again;
  if the lookup succeeds, update the entry when its settings differ. \<open>except FirewallError\<close>
  does not catch other exceptions, which pass on as they are.
\<close>

definition service_to_permanent :: "config_store \<Rightarrow> string \<Rightarrow> settings \<Rightarrow> error + config_store" where
  "service_to_permanent c name conf =
     (case getServiceByName c name of
        Inl e \<Rightarrow>
          (case e of
             FirewallError code msg \<Rightarrow>
               if error_has ''INVALID_SERVICE'' e then config_addService c name conf else Inl e
           | _ \<Rightarrow> Inl e)
      | Inr conf_obj \<Rightarrow> if conf_obj \<noteq> conf then service_update c name conf else Inr c)"

definition icmptype_to_permanent :: "config_store \<Rightarrow> string \<Rightarrow> settings \<Rightarrow> error + config_store" where
  "icmptype_to_permanent c name conf =
     (case getIcmpTypeByName c name of
        Inl e \<Rightarrow>
          (case e of
             FirewallError code msg \<Rightarrow>
               if error_has ''INVALID_ICMPTYPE'' e then config_addIcmpType c name conf else Inl e
           | _ \<Rightarrow> Inl e)
      | Inr conf_obj \<Rightarrow> if conf_obj \<noteq> conf then icmptype_update c name conf else Inr c)"

definition zone_to_permanent :: "config_store \<Rightarrow> string \<Rightarrow> settings \<Rightarrow> error + config_store" where
  "zone_to_permanent c name conf =
     (case getZoneByName c name of
        Inl e \<Rightarrow>
          (case e of
             FirewallError code msg \<Rightarrow>
               if error_has ''INVALID_ZONE'' e then config_addZone c name conf else Inl e
           | _ \<Rightarrow> Inl e)
      | Inr conf_obj \<Rightarrow> if conf_obj \<noteq> conf then zone_update c name conf else Inr c)"

definition direct_to_permanent :: "config_store \<Rightarrow> settings \<Rightarrow> error + config_store" where
  "direct_to_permanent c conf =
     (case config_getSettings c of
        Inl e \<Rightarrow> Inl e
      | Inr old \<Rightarrow> if old \<noteq> conf then direct_update c conf else Inr c)"

definition policies_to_permanent :: "config_store \<Rightarrow> settings \<Rightarrow> error + config_store" where
  "policies_to_permanent c conf =
     (case config_getSettings c of
        Inl e \<Rightarrow> Inl e
      | Inr old \<Rightarrow> if old \<noteq> conf then setLockdownWhitelist c conf else Inr c)"

text \<open>The text \<open>'%s'\<close> of a format string: the name between single quotes.\<close>

definition quoted :: "string \<Rightarrow> string" where
  "quoted name = [CHR 0x27] @ name @ [CHR 0x27]"

text \<open>
  The three \<open>for\<close> loops of \<open>runtimeToPermanent\<close> differ in the kind of entity only. One
  pass of the body: the runtime settings are read outside the \<open>try\<close>, so an exception there
  is not wrapped; an exception of the inner \<open>try\<close> is caught by \<open>except Exception\<close> and
  raised as \<open>RT_TO_PERM_FAILED\<close> with the text \<open>"<kind> '<name>' : <e>"\<close>, which leaves the
  loop and the method.
\<close>

fun copy_loop ::
  "string \<Rightarrow> (string \<Rightarrow> daemon \<Rightarrow> settings outcome)
     \<Rightarrow> (config_store \<Rightarrow> string \<Rightarrow> settings \<Rightarrow> error + config_store)
     \<Rightarrow> string list \<Rightarrow> daemon \<Rightarrow> unit outcome \<times> daemon" where
  "copy_loop kind get persist [] s = (Return (), s)"
| "copy_loop kind get persist (name # names) s =
     (case get name s of
        Raise e \<Rightarrow> (Raise e, s)
      | Return conf \<Rightarrow>
          (case persist (config s) name conf of
             Inl e \<Rightarrow>
               (Raise (FirewallError RT_TO_PERM_FAILED
                        (kind @ '' '' @ quoted name @ '' : '' @ str_of_error e)), s)
           | Inr c \<Rightarrow> copy_loop kind get persist names (s\<lparr>config := c\<rparr>)))"

definition runtimeToPermanent :: "string option \<Rightarrow> daemon \<Rightarrow> unit outcome \<times> daemon" where
  "runtimeToPermanent sender s =
     (case copy_loop ''service'' getServiceSettings service_to_permanent (get_services (fw s)) s of
        (Raise e, s1) \<Rightarrow> (Raise e, s1)
      | (Return u, s1) \<Rightarrow>
     (case copy_loop ''icmptype'' getIcmpTypeSettings icmptype_to_permanent (get_icmptypes (fw s1)) s1 of
        (Raise e, s2) \<Rightarrow> (Raise e, s2)
      | (Return u, s2) \<Rightarrow>
     (case copy_loop ''zone'' getZoneSettings zone_to_permanent (get_zones (fw s2)) s2 of
        (Raise e, s3) \<Rightarrow> (Raise e, s3)
      | (Return u, s3) \<Rightarrow>
     (case direct_to_permanent (config s3)
             (DirectSettings (get_all_chains (fw s3)) (get_all_rules (fw s3))
                (get_all_passthroughs (fw s3))) of
        Inl e \<Rightarrow>
          (Raise (FirewallError RT_TO_PERM_FAILED (''direct configuration: '' @ str_of_error e)), s3)
      | Inr c \<Rightarrow>
     (case policies_to_permanent c (export_config (lockdown_whitelist (policies (fw s3)))) of
        Inl e \<Rightarrow>
          (Raise (FirewallError RT_TO_PERM_FAILED (''policies configuration: '' @ str_of_error e)),
           s3\<lparr>config := c\<rparr>)
      | Inr c' \<Rightarrow> (Return (), s3\<lparr>config := c'\<rparr>))))))"

subsection \<open>The mutators of the zone interface\<close>

text \<open>
  A call of a mutating method of the zone interface, without its zone argument and its
  sender; \<open>zone_method\<close> is the dispatch of such a call to the method, and \<open>zone_signals\<close>
  lists the signals of the call for a given zone payload, in the order they are sent.
\<close>

datatype zone_call =
    AddInterface string
  | ChangeZone string
  | ChangeZoneOfInterface string
  | RemoveInterface string
  | AddSource string
  | ChangeZoneOfSource string
  | RemoveSource string
  | Add entry int
  | Remove entry

fun zone_method :: "zone_call \<Rightarrow> string \<Rightarrow> string option \<Rightarrow> daemon \<Rightarrow> string outcome \<times> daemon" where
  "zone_method (AddInterface interface) zone sender s = addInterface zone interface sender s"
| "zone_method (ChangeZone interface) zone sender s = changeZone zone interface sender s"
| "zone_method (ChangeZoneOfInterface interface) zone sender s =
     changeZoneOfInterface zone interface sender s"
| "zone_method (RemoveInterface interface) zone sender s = removeInterface zone interface sender s"
| "zone_method (AddSource source) zone sender s = addSource zone source sender s"
| "zone_method (ChangeZoneOfSource source) zone sender s = changeZoneOfSource zone source sender s"
| "zone_method (RemoveSource source) zone sender s = removeSource zone source sender s"
| "zone_method (Add e timeout) zone sender s = add_entry e zone timeout sender s"
| "zone_method (Remove e) zone sender s = remove_entry e zone sender s"

fun zone_signals :: "zone_call \<Rightarrow> string \<Rightarrow> signal list" where
  "zone_signals (AddInterface interface) z = [InterfaceAdded z interface]"
| "zone_signals (ChangeZone interface) z = [ZoneChanged z interface, ZoneOfInterfaceChanged z interface]"
| "zone_signals (ChangeZoneOfInterface interface) z =
     [ZoneChanged z interface, ZoneOfInterfaceChanged z interface]"
| "zone_signals (RemoveInterface interface) z = [InterfaceRemoved z interface]"
| "zone_signals (AddSource source) z = [SourceAdded z source]"
| "zone_signals (ChangeZoneOfSource source) z = [ZoneOfSourceChanged z source]"
| "zone_signals (RemoveSource source) z = [SourceRemoved z source]"
| "zone_signals (Add e timeout) z = [added_signal e z timeout]"
| "zone_signals (Remove e) z = [removed_signal e z]"

text \<open>The zone that a call with the empty zone name is resolved to: the zone the interface
  or the source belongs to for the two removals of a binding, the default zone for every
  other call.\<close>

fun resolved_zone :: "zone_call \<Rightarrow> firewall \<Rightarrow> string option" where
  "resolved_zone (RemoveInterface interface) f = get_zone_of_interface f interface"
| "resolved_zone (RemoveSource source) f = get_zone_of_source f source"
| "resolved_zone c f = Some (default_zone f)"

subsection \<open>Runs of the daemon\<close>

text \<open>
  The daemon serves calls and timer expiries one at a time, on one loop. An event is a
  call of a mutating zone method (with its zone argument and its sender) or the expiry of
  a timeout source; a run is a list of events handled in order. An exception of a call goes
  back to the caller and the daemon carries on with the state the call has left.
\<close>

datatype event = Call zone_call string "string option" | Expire nat

fun step :: "event \<Rightarrow> daemon \<Rightarrow> daemon" where
  "step (Call c zone sender) s = snd (zone_method c zone sender s)"
| "step (Expire tag) s = timer_fires tag s"

definition run :: "event list \<Rightarrow> daemon \<Rightarrow> daemon" where
  "run evs s = fold step evs s"

text \<open>The zone and the key of the table entry that a callback deletes.\<close>

fun slot_of :: "callback \<Rightarrow> string \<times> key" where
  "slot_of (DisableTimedRichRule zone rule) = (zone, KStr rule)"
| "slot_of (DisableTimedService zone service) = (zone, KStr service)"
| "slot_of (DisableTimedPort zone port protocol) = (zone, KPair port protocol)"
| "slot_of (DisableTimedProtocol zone protocol) = (zone, KStr protocol)"
| "slot_of (DisableTimedMasquerade zone) = (zone, KStr ''masquerade'')"
| "slot_of (Disable_forward_port zone port protocol toport toaddr) =
     (zone, KQuad port protocol toport toaddr)"
| "slot_of (DisableTimedIcmpBlock zone icmp sender) = (zone, KStr icmp)"

text \<open>
  An event leaves an entry's timer alone when it is not the expiry of that timer, not a
  timed \<open>add\<close> that succeeds under the entry's key in the entry's zone and not a \<open>remove\<close>
  that succeeds under that key in that zone; calls that raise are allowed. A run leaves
  the timer alone when each of its events does, in the state it is handled in.
\<close>

fun quiet :: "daemon \<Rightarrow> entry \<Rightarrow> string \<Rightarrow> nat \<Rightarrow> event \<Rightarrow> bool" where
  "quiet s e z tag (Call (Add e' timeout) zone sender) =
     (0 < timeout \<and> timer_key e' = timer_key e
        \<longrightarrow> fst (add_entry e' zone timeout sender s) \<noteq> Return z)"
| "quiet s e z tag (Call (Remove e') zone sender) =
     (timer_key e' = timer_key e \<longrightarrow> fst (remove_entry e' zone sender s) \<noteq> Return z)"
| "quiet s e z tag (Call c zone sender) = True"
| "quiet s e z tag (Expire t) = (t \<noteq> tag)"

fun undisturbed :: "entry \<Rightarrow> string \<Rightarrow> nat \<Rightarrow> event list \<Rightarrow> daemon \<Rightarrow> bool" where
  "undisturbed e z tag [] s = True"
| "undisturbed e z tag (ev # evs) s = (quiet s e z tag ev \<and> undisturbed e z tag evs (step ev s))"

text \<open>
  The timers of a state are well formed when the ids of the attached sources and the ids
  in the table lie below the next id, and every callback names its zone by the resolved
  name: resolving it again gives the same zone. The daemon starts with no timers and every
  event keeps them well formed. A state has no timer for a key of a zone when its timers
  are well formed and no attached source would delete that table entry.
\<close>

definition resolves_self :: "firewall \<Rightarrow> string \<Rightarrow> bool" where
  "resolves_self f z \<longleftrightarrow> (\<forall>z'. check_zone f z = Inr z' \<longrightarrow> z' = z)"

definition timers_wf :: "daemon \<Rightarrow> bool" where
  "timers_wf s \<longleftrightarrow>
     (\<forall>t interval cb. glib_sources s t = Some (interval, cb) \<longrightarrow>
        t < next_tag s \<and> resolves_self (fw s) (fst (slot_of cb)))
     \<and> (\<forall>z' k' t. timeout_tag s z' k' = Some t \<longrightarrow> t < next_tag s)"

definition no_timer_for :: "daemon \<Rightarrow> string \<Rightarrow> key \<Rightarrow> bool" where
  "no_timer_for s z k \<longleftrightarrow>
     timers_wf s
     \<and> (\<forall>t interval cb. glib_sources s t = Some (interval, cb) \<longrightarrow> slot_of cb \<noteq> (z, k))"

text \<open>
  The link between an enabled entry and its timer: the entry is in the zone, the source is
  attached with the entry's callback, the table holds the source's id under the entry's
  key and nowhere else, and no other attached source would delete that table entry.
\<close>

definition timer_linked :: "daemon \<Rightarrow> entry \<Rightarrow> string \<Rightarrow> nat \<Rightarrow> int \<Rightarrow> string option \<Rightarrow> bool" where
  "timer_linked s e z tag T sender \<longleftrightarrow>
     check_zone (fw s) z = Inr z
     \<and> e \<in> zones (fw s) z
     \<and> glib_sources s tag = Some (T, timer_callback e z sender)
     \<and> tag < next_tag s
     \<and> (\<forall>z' k'. timeout_tag s z' k' = Some tag \<longleftrightarrow> z' = z \<and> k' = timer_key e)
     \<and> (\<forall>t interval cb. glib_sources s t = Some (interval, cb) \<longrightarrow>
           resolves_self (fw s) (fst (slot_of cb))
           \<and> (t \<noteq> tag \<longrightarrow> slot_of cb \<noteq> (z, timer_key e)))"

text \<open>What no event changes: the zones that exist, the lockdown policies and the bus.\<close>

definition same_frame :: "daemon \<Rightarrow> daemon \<Rightarrow> bool" where
  "same_frame s s' \<longleftrightarrow>
     (\<forall>zone. check_zone (fw s') zone = check_zone (fw s) zone)
     \<and> policies (fw s') = policies (fw s) \<and> system_bus s' = system_bus s"


section \<open>A concrete daemon\<close>

text \<open>
  A small installation used to run the methods on concrete inputs: two zones with
  \<open>public\<close> as the default, a few services and one ICMP type, lockdown off, a
  permanent store that holds the same zones and services with nothing enabled, and a bus
  on which every sender is the same local user. \<open>start\<close> has run: the timeout table is
  empty and nothing is attached to the main loop.
\<close>

definition no_lockdown :: policies where
  "no_lockdown =
     \<lparr>lockdown = False,
      lockdown_whitelist = \<lparr>commands = {}, uids = {}, users = {}, contexts = {}\<rparr>\<rparr>"

definition public_fw :: firewall where
  "public_fw =
     \<lparr>default_zone = ''public'',
      zone_names = [''public'', ''work''],
      zones = (\<lambda>z. {}),
      bound_interfaces = [],
      bound_sources = [],
      services = [(''ssh'', [''22/tcp'']), (''gre'', [''gre''])],
      icmptypes = [(''echo-request'', [''ipv4'', ''ipv6''])],
      policies = no_lockdown,
      chains = [],
      rules = [],
      passthroughs = [],
      panic = False\<rparr>"

definition permanent_store :: config_store where
  "permanent_store =
     \<lparr>c_services = [(''ssh'', ServiceSettings [''22/tcp'']), (''gre'', ServiceSettings [''gre''])],
      c_icmptypes = [(''echo-request'', IcmpTypeSettings [''ipv4'', ''ipv6''])],
      c_zones = [(''public'', ZoneSettings {} [] []), (''work'', ZoneSettings {} [] [])],
      c_direct = DirectSettings [] [] [],
      c_whitelist = WhitelistSettings {} {} {} {},
      read_fault = (\<lambda>t. None),
      write_fault = (\<lambda>t. None)\<rparr>"

definition local_bus :: bus where
  "local_bus =
     \<lparr>context_of_sender = (\<lambda>n. Inr ''unconfined''),
      uid_of_sender = (\<lambda>n. Inr 1000),
      user_of_uid = (\<lambda>u. Inr ''alice''),
      command_of_sender = (\<lambda>n. Inr ''/usr/bin/firewall-cmd'')\<rparr>"

definition start_daemon :: daemon where
  "start_daemon =
     \<lparr>fw = public_fw, config = permanent_store, system_bus = local_bus,
      timeouts = [], glib_sources = (\<lambda>t. None), next_tag = 1, signals = []\<rparr>"

text \<open>The same daemon with lockdown enabled and a given whitelist.\<close>

definition locked_daemon :: "whitelist \<Rightarrow> daemon" where
  "locked_daemon w =
     start_daemon\<lparr>fw := public_fw\<lparr>policies := \<lparr>lockdown = True, lockdown_whitelist = w\<rparr>\<rparr>\<rparr>"

definition no_one :: whitelist where
  "no_one = \<lparr>commands = {}, uids = {}, users = {}, contexts = {}\<rparr>"

text \<open>A bus on which only the security context of a sender can be found out; every other
  lookup raises.\<close>

definition broken_bus :: bus where
  "broken_bus =
     \<lparr>context_of_sender = (\<lambda>n. Inr ''unconfined''),
      uid_of_sender = (\<lambda>n. Inl (Exception ''no such name'')),
      user_of_uid = (\<lambda>u. Inl (Exception ''no such user'')),
      command_of_sender = (\<lambda>n. Inl (Exception ''no such process''))\<rparr>"

text \<open>The daemon after port 80/tcp has been added to the default zone for two seconds.\<close>

definition after_addPort :: daemon where
  "after_addPort = snd (addPort [] ''80'' ''tcp'' 2 (Some '':1.42'') start_daemon)"

text \<open>The daemon after the service \<open>gre\<close> and then the protocol \<open>gre\<close> have been added to the
  default zone, each for ten seconds.\<close>

definition after_addService :: daemon where
  "after_addService = snd (addService [] ''gre'' 10 (Some '':1.42'') start_daemon)"

definition after_addProtocol :: daemon where
  "after_addProtocol = snd (addProtocol [] ''gre'' 10 (Some '':1.42'') after_addService)"

text \<open>The daemon after a reload that follows the timed port.\<close>

definition after_reload :: daemon where
  "after_reload = snd (reload (Some '':1.42'') after_addPort)"

text \<open>The daemon after the interface \<open>eth0\<close> has been bound to the zone \<open>work\<close>.\<close>

definition after_addInterface :: daemon where
  "after_addInterface = snd (addInterface ''work'' ''eth0'' (Some '':1.42'') start_daemon)"

text \<open>A daemon whose permanent store holds no service yet and cannot save the service
  \<open>ssh\<close>.\<close>

definition faulty_daemon :: daemon where
  "faulty_daemon =
     start_daemon\<lparr>config := permanent_store
       \<lparr>c_services := [],
        write_fault := (\<lambda>t. if t = TService ''ssh''
                            then Some (Exception ''read-only file system'') else None)\<rparr>\<rparr>"

text \<open>The daemon after the service \<open>ssh\<close> has been added with the empty zone name and no
  timeout.\<close>

definition after_add_ssh :: daemon where
  "after_add_ssh = snd (addService [] ''ssh'' 0 (Some '':1.42'') start_daemon)"

text \<open>Daemons whose permanent store holds no ICMP type (no zone) yet and cannot save the
  ICMP type \<open>echo-request\<close> (the zone \<open>public\<close>).\<close>

definition faulty_icmptype_daemon :: daemon where
  "faulty_icmptype_daemon =
     start_daemon\<lparr>config := permanent_store
       \<lparr>c_icmptypes := [],
        write_fault := (\<lambda>t. if t = TIcmpType ''echo-request''
                            then Some (Exception ''read-only file system'') else None)\<rparr>\<rparr>"

definition faulty_zone_daemon :: daemon where
  "faulty_zone_daemon =
     start_daemon\<lparr>config := permanent_store
       \<lparr>c_zones := [],
        write_fault := (\<lambda>t. if t = TZone ''public''
                            then Some (Exception ''read-only file system'') else None)\<rparr>\<rparr>"

text \<open>Calls and an expiry that follow the timed port and leave its timer alone: a timed
  service and the same port in another zone, the same port once more in its own zone
  (which raises), a binding, the expiry of the service's timer, a removal that raises and
  the removal of the port from the other zone.\<close>

definition other_events :: "event list" where
  "other_events =
     [Call (Add (Service ''ssh'') 5) ''work'' (Some '':1.42''),
      Call (Add (Port ''80'' ''tcp'') 5) ''work'' (Some '':1.42''),
      Call (Add (Port ''80'' ''tcp'') 9) [] (Some '':1.42''),
      Call (AddInterface ''eth0'') [] None,
      Expire 2,
      Call (Remove (Port ''22'' ''tcp'')) [] None,
      Call (Remove (Port ''80'' ''tcp'')) ''work'' None]"

definition after_other_events :: daemon where
  "after_other_events = run other_events after_addPort"


section \<open>Properties\<close>

lemmas fw_zone_defs =
  add_rule_def remove_rule_def query_rule_def
  add_service_def remove_service_def query_service_def
  add_port_def remove_port_def query_port_def
  add_protocol_def remove_protocol_def query_protocol_def
  add_masquerade_def remove_masquerade_def query_masquerade_def
  add_forward_port_def remove_forward_port_def query_forward_port_def
  add_icmp_block_def remove_icmp_block_def query_icmp_block_def

lemmas concrete_defs = locked_daemon_def start_daemon_def public_fw_def local_bus_def
  no_one_def query_lockdown_def access_check_def no_lockdown_def permanent_store_def


subsection \<open>Authorization of tracked passthroughs\<close>

lemma direct_mutators_other_than_tracked:
  "mutating m \<Longrightarrow> m \<noteq> AddPassthrough \<Longrightarrow> m \<noteq> RemovePassthrough
     \<Longrightarrow> polkit_auth_required m = PK_ACTION_DIRECT"
  by (cases m) (simp_all add: polkit_auth_required_def)

lemmas passthrough_defs = addPassthrough_def removePassthrough_def add_passthrough_def
  remove_passthrough_def getAllPassthroughs_def get_all_passthroughs_def emit_def

text \<open>
  Claim C1. Every mutating method of the direct interface is to require the direct action.
  \<open>addChain\<close>, \<open>removeChain\<close>, \<open>addRule\<close>, \<open>removeRule\<close>, \<open>removeRules\<close>, \<open>passthrough\<close>
  and \<open>removeAllPassthroughs\<close> carry \<open>require_auth(PK_ACTION_DIRECT)\<close>; \<open>addPassthrough\<close>
  and \<open>removePassthrough\<close> carry no decorator and fall back to the class default
  \<open>PK_ACTION_INFO\<close>. A sender who is granted the info action only is refused
  \<open>removeAllPassthroughs\<close>, yet adds a tracked passthrough and removes it again.
\<close>

theorem tracked_passthrough_info_action:
  "polkit_auth_required AddPassthrough = PK_ACTION_INFO
   \<and> polkit_auth_required RemovePassthrough = PK_ACTION_INFO
   \<and> polkit_auth_required Passthrough = PK_ACTION_DIRECT
   \<and> polkit_auth_required RemoveAllPassthroughs = PK_ACTION_DIRECT
   \<and> fst (bus_call info_only AddPassthrough (addPassthrough ''ipv4'' [''-N'', ''A''])
            (Some '':1.42'') start_daemon) = Return ()
   \<and> getAllPassthroughs (snd (bus_call info_only AddPassthrough (addPassthrough ''ipv4'' [''-N'', ''A''])
            (Some '':1.42'') start_daemon)) = [(''ipv4'', [''-N'', ''A''])]
   \<and> bus_call info_only RemoveAllPassthroughs removeAllPassthroughs (Some '':1.42'')
        (snd (bus_call info_only AddPassthrough (addPassthrough ''ipv4'' [''-N'', ''A''])
            (Some '':1.42'') start_daemon))
      = (Raise (NotAuthorized PK_ACTION_DIRECT),
         snd (bus_call info_only AddPassthrough (addPassthrough ''ipv4'' [''-N'', ''A''])
            (Some '':1.42'') start_daemon))
   \<and> fst (bus_call info_only RemovePassthrough (removePassthrough ''ipv4'' [''-N'', ''A''])
        (Some '':1.42'')
        (snd (bus_call info_only AddPassthrough (addPassthrough ''ipv4'' [''-N'', ''A''])
            (Some '':1.42'') start_daemon))) = Return ()
   \<and> getAllPassthroughs (snd (bus_call info_only RemovePassthrough (removePassthrough ''ipv4'' [''-N'', ''A''])
        (Some '':1.42'')
        (snd (bus_call info_only AddPassthrough (addPassthrough ''ipv4'' [''-N'', ''A''])
            (Some '':1.42'') start_daemon)))) = []"
proof -
  define s1 where "s1 = emit (PassthroughAdded ''ipv4'' [''-N'', ''A''])
     (start_daemon\<lparr>fw := public_fw\<lparr>passthroughs := [(''ipv4'', [''-N'', ''A''])]\<rparr>\<rparr>)"
  have acts: "polkit_auth_required AddPassthrough = PK_ACTION_INFO"
    "polkit_auth_required RemovePassthrough = PK_ACTION_INFO"
    "polkit_auth_required Passthrough = PK_ACTION_DIRECT"
    "polkit_auth_required RemoveAllPassthroughs = PK_ACTION_DIRECT"
    by (simp_all add: polkit_auth_required_def default_polkit_auth_required_def)
  have ok: "accessCheck (Some '':1.42'') start_daemon = Return ()"
    "accessCheck (Some '':1.42'') s1 = Return ()"
    by (simp_all add: accessCheck_def s1_def emit_def concrete_defs)
  have add: "bus_call info_only AddPassthrough (addPassthrough ''ipv4'' [''-N'', ''A''])
            (Some '':1.42'') start_daemon = (Return (), s1)"
    by (simp add: bus_call_def info_only_def acts addPassthrough_def ok add_passthrough_def s1_def)
       (simp add: start_daemon_def public_fw_def)
  have all: "getAllPassthroughs s1 = [(''ipv4'', [''-N'', ''A''])]"
    by (simp add: s1_def passthrough_defs)
  have refused: "bus_call info_only RemoveAllPassthroughs removeAllPassthroughs (Some '':1.42'') s1
      = (Raise (NotAuthorized PK_ACTION_DIRECT), s1)"
    by (simp add: bus_call_def info_only_def acts)
  have rem: "fst (bus_call info_only RemovePassthrough (removePassthrough ''ipv4'' [''-N'', ''A''])
        (Some '':1.42'') s1) = Return ()
     \<and> getAllPassthroughs (snd (bus_call info_only RemovePassthrough
          (removePassthrough ''ipv4'' [''-N'', ''A'']) (Some '':1.42'') s1)) = []"
    by (simp add: bus_call_def info_only_def acts removePassthrough_def ok remove_passthrough_def
        getAllPassthroughs_def get_all_passthroughs_def)
       (simp add: s1_def emit_def)
  show ?thesis using acts all refused rem by (simp add: add)
qed

subsection \<open>Rich rules and the lockdown check\<close>

lemmas rich_defs = addRichRule_def removeRichRule_def queryRichRule_def fw_zone_defs
  zone_add_def zone_remove_def zone_query_def check_zone_def emit_def

text \<open>
  Claim C2. Every mutating zone method is to test the caller against the lockdown
  whitelist before it changes anything. \<open>addService\<close> and \<open>addPort\<close> do; \<open>addRichRule\<close>
  and \<open>removeRichRule\<close> never call \<open>accessCheck\<close>. With lockdown enabled and an empty
  whitelist, a sender that \<open>addService\<close> and \<open>addPort\<close> turn away with \<open>ACCESS_DENIED\<close>
  (leaving the state as it was) adds a rich rule to the default zone and removes it
  again.
\<close>

theorem addRichRule_no_accessCheck:
  "addService [] ''ssh'' 0 (Some '':1.42'') (locked_daemon no_one)
     = (Raise (FirewallError ACCESS_DENIED ''lockdown is enabled''), locked_daemon no_one)
   \<and> addPort [] ''80'' ''tcp'' 0 (Some '':1.42'') (locked_daemon no_one)
     = (Raise (FirewallError ACCESS_DENIED ''lockdown is enabled''), locked_daemon no_one)
   \<and> \<not> queryRichRule ''public'' ''rule service name=ftp accept'' (locked_daemon no_one)
   \<and> fst (addRichRule [] ''rule service name=ftp accept'' 0 (Some '':1.42'') (locked_daemon no_one))
     = Return ''public''
   \<and> queryRichRule ''public'' ''rule service name=ftp accept''
       (snd (addRichRule [] ''rule service name=ftp accept'' 0 (Some '':1.42'') (locked_daemon no_one)))
   \<and> fst (removeRichRule [] ''rule service name=ftp accept'' (Some '':1.42'')
       (snd (addRichRule [] ''rule service name=ftp accept'' 0 (Some '':1.42'') (locked_daemon no_one))))
     = Return ''public''
   \<and> \<not> queryRichRule ''public'' ''rule service name=ftp accept''
       (snd (removeRichRule [] ''rule service name=ftp accept'' (Some '':1.42'')
         (snd (addRichRule [] ''rule service name=ftp accept'' 0 (Some '':1.42'') (locked_daemon no_one)))))"
proof -
  let ?s = "locked_daemon no_one"
  let ?r = "''rule service name=ftp accept''"
  have denied: "accessCheck (Some '':1.42'') ?s = Raise (FirewallError ACCESS_DENIED ''lockdown is enabled'')"
    by (simp add: accessCheck_def concrete_defs)
  have 1: "addService [] ''ssh'' 0 (Some '':1.42'') ?s
            = (Raise (FirewallError ACCESS_DENIED ''lockdown is enabled''), ?s)"
    by (simp add: addService_def denied)
  have 2: "addPort [] ''80'' ''tcp'' 0 (Some '':1.42'') ?s
            = (Raise (FirewallError ACCESS_DENIED ''lockdown is enabled''), ?s)"
    by (simp add: addPort_def denied)
  have 3: "\<not> queryRichRule ''public'' ?r ?s"
    by (simp add: rich_defs concrete_defs)
  define s1 where "s1 = emit (RichRuleAdded ''public'' ?r 0)
     (?s\<lparr>fw := (fw ?s)\<lparr>zones := (zones (fw ?s))(''public'' := {RichRule (Rich_Rule ?r)})\<rparr>\<rparr>)"
  have add: "addRichRule [] ?r 0 (Some '':1.42'') ?s = (Return ''public'', s1)"
    by (simp add: rich_defs concrete_defs s1_def)
  have 5: "queryRichRule ''public'' ?r s1"
    by (simp add: rich_defs concrete_defs s1_def)
  have rem: "fst (removeRichRule [] ?r (Some '':1.42'') s1) = Return ''public''
            \<and> \<not> queryRichRule ''public'' ?r (snd (removeRichRule [] ?r (Some '':1.42'') s1))"
    by (simp add: rich_defs concrete_defs s1_def removeTimeout_def)
  show ?thesis using 1 2 3 5 rem by (simp add: add)
qed
subsection \<open>The lockdown check\<close>

text \<open>
  Claim C3. With lockdown enabled and a sender given, \<open>accessCheck\<close> tests the sender's
  security context first, then its uid, then the user name of that uid, then its command
  line. The first test that passes ends the check without an error: a later lookup is not
  made, so the result does not depend on it (in each case below the lookups after the
  passing test are left open). When all four values are found and none passes, the check
  raises \<open>ACCESS_DENIED\<close> with the message \<open>lockdown is enabled\<close>.
\<close>

theorem accessCheck_order:
  assumes "query_lockdown (policies (fw s))"
  shows
    "(context_of_sender (system_bus s) name = Inr ctx
          \<and> access_check (policies (fw s)) ''context'' (PyStr ctx)
        \<longrightarrow> accessCheck (Some name) s = Return ())
   \<and> (context_of_sender (system_bus s) name = Inr ctx
          \<and> \<not> access_check (policies (fw s)) ''context'' (PyStr ctx)
          \<and> uid_of_sender (system_bus s) name = Inr uid
          \<and> access_check (policies (fw s)) ''uid'' (PyInt uid)
        \<longrightarrow> accessCheck (Some name) s = Return ())
   \<and> (context_of_sender (system_bus s) name = Inr ctx
          \<and> \<not> access_check (policies (fw s)) ''context'' (PyStr ctx)
          \<and> uid_of_sender (system_bus s) name = Inr uid
          \<and> \<not> access_check (policies (fw s)) ''uid'' (PyInt uid)
          \<and> user_of_uid (system_bus s) uid = Inr user
          \<and> access_check (policies (fw s)) ''user'' (PyStr user)
        \<longrightarrow> accessCheck (Some name) s = Return ())
   \<and> (context_of_sender (system_bus s) name = Inr ctx
          \<and> \<not> access_check (policies (fw s)) ''context'' (PyStr ctx)
          \<and> uid_of_sender (system_bus s) name = Inr uid
          \<and> \<not> access_check (policies (fw s)) ''uid'' (PyInt uid)
          \<and> user_of_uid (system_bus s) uid = Inr user
          \<and> \<not> access_check (policies (fw s)) ''user'' (PyStr user)
          \<and> command_of_sender (system_bus s) name = Inr command
          \<and> access_check (policies (fw s)) ''command'' (PyStr command)
        \<longrightarrow> accessCheck (Some name) s = Return ())
   \<and> (context_of_sender (system_bus s) name = Inr ctx
          \<and> \<not> access_check (policies (fw s)) ''context'' (PyStr ctx)
          \<and> uid_of_sender (system_bus s) name = Inr uid
          \<and> \<not> access_check (policies (fw s)) ''uid'' (PyInt uid)
          \<and> user_of_uid (system_bus s) uid = Inr user
          \<and> \<not> access_check (policies (fw s)) ''user'' (PyStr user)
          \<and> command_of_sender (system_bus s) name = Inr command
          \<and> \<not> access_check (policies (fw s)) ''command'' (PyStr command)
        \<longrightarrow> accessCheck (Some name) s = Raise (FirewallError ACCESS_DENIED ''lockdown is enabled''))"
  using assms by (simp add: accessCheck_def)

theorem accessCheck_order_witness:
  "accessCheck (Some '':1.42'')
     ((locked_daemon (no_one\<lparr>contexts := {''unconfined''}\<rparr>))\<lparr>system_bus := broken_bus\<rparr>) = Return ()
   \<and> accessCheck (Some '':1.42'') (locked_daemon (no_one\<lparr>uids := {1000}\<rparr>)) = Return ()
   \<and> accessCheck (Some '':1.42'') (locked_daemon (no_one\<lparr>users := {''alice''}\<rparr>)) = Return ()
   \<and> accessCheck (Some '':1.42'') (locked_daemon (no_one\<lparr>commands := {''/usr/bin/firewall-cmd''}\<rparr>)) = Return ()
   \<and> accessCheck (Some '':1.42'') (locked_daemon no_one)
        = Raise (FirewallError ACCESS_DENIED ''lockdown is enabled'')"
proof -
  let ?a = "(locked_daemon (no_one\<lparr>contexts := {''unconfined''}\<rparr>))\<lparr>system_bus := broken_bus\<rparr>"
  let ?b = "locked_daemon (no_one\<lparr>uids := {1000}\<rparr>)"
  let ?c = "locked_daemon (no_one\<lparr>users := {''alice''}\<rparr>)"
  let ?d = "locked_daemon (no_one\<lparr>commands := {''/usr/bin/firewall-cmd''}\<rparr>)"
  let ?e = "locked_daemon no_one"
  have la: "query_lockdown (policies (fw ?a))" by (simp add: concrete_defs)
  have lb: "query_lockdown (policies (fw ?b))" by (simp add: concrete_defs)
  have lc: "query_lockdown (policies (fw ?c))" by (simp add: concrete_defs)
  have ld: "query_lockdown (policies (fw ?d))" by (simp add: concrete_defs)
  have le: "query_lockdown (policies (fw ?e))" by (simp add: concrete_defs)
  have 1: "accessCheck (Some '':1.42'') ?a = Return ()"
  proof (rule accessCheck_order [OF la, THEN conjunct1, THEN mp])
    show "context_of_sender (system_bus ?a) '':1.42'' = Inr ''unconfined''
          \<and> access_check (policies (fw ?a)) ''context'' (PyStr ''unconfined'')"
      by (simp add: concrete_defs broken_bus_def)
  qed
  have 2: "accessCheck (Some '':1.42'') ?b = Return ()"
  proof (rule accessCheck_order [OF lb, THEN conjunct2, THEN conjunct1, THEN mp])
    show "context_of_sender (system_bus ?b) '':1.42'' = Inr ''unconfined''
          \<and> \<not> access_check (policies (fw ?b)) ''context'' (PyStr ''unconfined'')
          \<and> uid_of_sender (system_bus ?b) '':1.42'' = Inr 1000
          \<and> access_check (policies (fw ?b)) ''uid'' (PyInt 1000)"
      by (simp add: concrete_defs)
  qed
  have 3: "accessCheck (Some '':1.42'') ?c = Return ()"
  proof (rule accessCheck_order [OF lc, THEN conjunct2, THEN conjunct2, THEN conjunct1, THEN mp])
    show "context_of_sender (system_bus ?c) '':1.42'' = Inr ''unconfined''
          \<and> \<not> access_check (policies (fw ?c)) ''context'' (PyStr ''unconfined'')
          \<and> uid_of_sender (system_bus ?c) '':1.42'' = Inr 1000
          \<and> \<not> access_check (policies (fw ?c)) ''uid'' (PyInt 1000)
          \<and> user_of_uid (system_bus ?c) 1000 = Inr ''alice''
          \<and> access_check (policies (fw ?c)) ''user'' (PyStr ''alice'')"
      by (simp add: concrete_defs)
  qed
  have 4: "accessCheck (Some '':1.42'') ?d = Return ()"
  proof (rule accessCheck_order [OF ld, THEN conjunct2, THEN conjunct2, THEN conjunct2, THEN conjunct1, THEN mp])
    show "context_of_sender (system_bus ?d) '':1.42'' = Inr ''unconfined''
          \<and> \<not> access_check (policies (fw ?d)) ''context'' (PyStr ''unconfined'')
          \<and> uid_of_sender (system_bus ?d) '':1.42'' = Inr 1000
          \<and> \<not> access_check (policies (fw ?d)) ''uid'' (PyInt 1000)
          \<and> user_of_uid (system_bus ?d) 1000 = Inr ''alice''
          \<and> \<not> access_check (policies (fw ?d)) ''user'' (PyStr ''alice'')
          \<and> command_of_sender (system_bus ?d) '':1.42'' = Inr ''/usr/bin/firewall-cmd''
          \<and> access_check (policies (fw ?d)) ''command'' (PyStr ''/usr/bin/firewall-cmd'')"
      by (simp add: concrete_defs)
  qed
  have 5: "accessCheck (Some '':1.42'') ?e = Raise (FirewallError ACCESS_DENIED ''lockdown is enabled'')"
  proof (rule accessCheck_order [OF le, THEN conjunct2, THEN conjunct2, THEN conjunct2, THEN conjunct2, THEN mp])
    show "context_of_sender (system_bus ?e) '':1.42'' = Inr ''unconfined''
          \<and> \<not> access_check (policies (fw ?e)) ''context'' (PyStr ''unconfined'')
          \<and> uid_of_sender (system_bus ?e) '':1.42'' = Inr 1000
          \<and> \<not> access_check (policies (fw ?e)) ''uid'' (PyInt 1000)
          \<and> user_of_uid (system_bus ?e) 1000 = Inr ''alice''
          \<and> \<not> access_check (policies (fw ?e)) ''user'' (PyStr ''alice'')
          \<and> command_of_sender (system_bus ?e) '':1.42'' = Inr ''/usr/bin/firewall-cmd''
          \<and> \<not> access_check (policies (fw ?e)) ''command'' (PyStr ''/usr/bin/firewall-cmd'')"
      by (simp add: concrete_defs)
  qed
  show ?thesis by (intro conjI) (rule 1, rule 2, rule 3, rule 4, rule 5)
qed

text \<open>
  Claim C10. With lockdown enabled and no sender (\<open>sender\<close> is \<open>None\<close>) \<open>accessCheck\<close>
  returns without raising, whatever the whitelist holds; a gated method called without a
  sender then does exactly what it does for a sender that passes the whitelist check
  (shown for \<open>removeService\<close> and \<open>removePassthrough\<close>, which hand the sender to
  nothing but \<open>accessCheck\<close>).
\<close>

theorem accessCheck_sender_None:
  assumes "query_lockdown (policies (fw s))"
  shows "accessCheck None s = Return ()
       \<and> (accessCheck (Some name) s = Return () \<longrightarrow>
            removeService zone service None s = removeService zone service (Some name) s
          \<and> removePassthrough ipv args None s = removePassthrough ipv args (Some name) s)"
  using assms by (simp add: accessCheck_def removeService_def removePassthrough_def)

theorem accessCheck_sender_None_witness:
  "accessCheck None (locked_daemon no_one) = Return ()
   \<and> accessCheck (Some '':1.42'') (locked_daemon no_one) \<noteq> Return ()
   \<and> accessCheck None (locked_daemon (no_one\<lparr>users := {''alice''}\<rparr>)) = Return ()
   \<and> removeService ''public'' ''ssh'' None (locked_daemon (no_one\<lparr>users := {''alice''}\<rparr>))
       = removeService ''public'' ''ssh'' (Some '':1.42'') (locked_daemon (no_one\<lparr>users := {''alice''}\<rparr>))
   \<and> removePassthrough ''ipv4'' [''-N'', ''A''] None (locked_daemon (no_one\<lparr>users := {''alice''}\<rparr>))
       = removePassthrough ''ipv4'' [''-N'', ''A''] (Some '':1.42'') (locked_daemon (no_one\<lparr>users := {''alice''}\<rparr>))"
proof -
  let ?e = "locked_daemon no_one"
  let ?c = "locked_daemon (no_one\<lparr>users := {''alice''}\<rparr>)"
  have le: "query_lockdown (policies (fw ?e))" by (simp add: concrete_defs)
  have lc: "query_lockdown (policies (fw ?c))" by (simp add: concrete_defs)
  have ok: "accessCheck (Some '':1.42'') ?c = Return ()"
    by (simp add: accessCheck_def concrete_defs)
  have no: "accessCheck (Some '':1.42'') ?e \<noteq> Return ()"
    by (simp add: accessCheck_def concrete_defs)
  note a = accessCheck_sender_None [OF le, THEN conjunct1]
  note b = accessCheck_sender_None [OF lc, THEN conjunct1]
  note c = accessCheck_sender_None [OF lc, THEN conjunct2, THEN mp, OF ok]
  show ?thesis
    by (intro conjI) (rule a, rule no, rule b, rule c [THEN conjunct1], rule c [THEN conjunct2])
qed

subsection \<open>The timeout table\<close>

lemma timeout_tag_addTimeout:
  "timeout_tag (addTimeout zone x tag s) zone' x' =
     (if zone' = zone \<and> x' = x then Some tag else timeout_tag s zone' x')"
  by (auto simp: timeout_tag_def addTimeout_def Let_def update_conv' split: option.splits)

lemma timeout_tag_removeTimeout:
  "timeout_tag (removeTimeout zone x s) zone' x' =
     (if zone' = zone \<and> x' = x then None else timeout_tag s zone' x')"
  by (auto simp: timeout_tag_def removeTimeout_def source_remove_def update_conv' delete_conv'
      split: option.splits)

lemma glib_sources_removeTimeout:
  "glib_sources (removeTimeout zone x s) =
     (case timeout_tag s zone x of None \<Rightarrow> glib_sources s | Some tag \<Rightarrow> (glib_sources s)(tag := None))"
  by (auto simp: timeout_tag_def removeTimeout_def source_remove_def split: option.splits)

lemma removeTimeout_frame:
  "fw (removeTimeout zone x s) = fw s" "signals (removeTimeout zone x s) = signals s"
  "config (removeTimeout zone x s) = config s" "system_bus (removeTimeout zone x s) = system_bus s"
  "next_tag (removeTimeout zone x s) = next_tag s"
  by (auto simp: removeTimeout_def source_remove_def split: option.splits)

lemma addTimeout_frame:
  "fw (addTimeout zone x tag s) = fw s" "signals (addTimeout zone x tag s) = signals s"
  "config (addTimeout zone x tag s) = config s" "system_bus (addTimeout zone x tag s) = system_bus s"
  "next_tag (addTimeout zone x tag s) = next_tag s"
  "glib_sources (addTimeout zone x tag s) = glib_sources s"
  by (simp_all add: addTimeout_def Let_def)

lemma del_timeout_None:
  "timeout_tag s zone x = None \<Longrightarrow> del_timeout zone x s = Inl KeyError"
  by (auto simp: timeout_tag_def del_timeout_def split: option.splits)

lemma del_timeout_Some:
  assumes "timeout_tag s zone x = Some tag"
  shows "\<exists>s'. del_timeout zone x s = Inr s'
        \<and> fw s' = fw s \<and> signals s' = signals s \<and> glib_sources s' = glib_sources s
        \<and> config s' = config s \<and> system_bus s' = system_bus s \<and> next_tag s' = next_tag s
        \<and> (\<forall>zone' x'. timeout_tag s' zone' x' =
              (if zone' = zone \<and> x' = x then None else timeout_tag s zone' x'))"
proof -
  from assms obtain m where m: "map_of (timeouts s) zone = Some m" "map_of m x = Some tag"
    by (auto simp: timeout_tag_def split: option.splits)
  let ?s' = "s\<lparr>timeouts := AList.update zone (AList.delete x m) (timeouts s)\<rparr>"
  have "del_timeout zone x s = Inr ?s'"
    by (simp add: del_timeout_def m)
  moreover have "timeout_tag ?s' zone' x' =
      (if zone' = zone \<and> x' = x then None else timeout_tag s zone' x')" for zone' x'
    by (simp add: timeout_tag_def update_conv' delete_conv' m)
  ultimately show ?thesis by simp
qed

lemma timeout_tag_cong:
  "timeouts s = timeouts s' \<Longrightarrow> timeout_tag s = timeout_tag s'"
  by (simp add: timeout_tag_def fun_eq_iff)

subsection \<open>The timed methods are instances of one pattern\<close>

lemma emit_frame:
  "fw (emit sig s) = fw s" "signals (emit sig s) = signals s @ [sig]"
  "config (emit sig s) = config s" "system_bus (emit sig s) = system_bus s"
  "next_tag (emit sig s) = next_tag s" "glib_sources (emit sig s) = glib_sources s"
  "timeouts (emit sig s) = timeouts s" "timeout_tag (emit sig s) = timeout_tag s"
  by (simp_all add: emit_def timeout_tag_def fun_eq_iff)

lemma add_entry_pattern:
  "add_entry e zone T sender s =
     add_pattern (gated e) e (timer_key e) (\<lambda>z. timer_callback e z sender)
       (\<lambda>z. added_signal e z T) zone T sender s"
proof (cases e)
  case (RichRule r)
  then show ?thesis
    by (cases r) (simp add: addRichRule_def add_pattern_def fw_zone_defs cong: sum.case_cong)
qed (simp_all add: add_pattern_def fw_zone_defs addService_def addPort_def addProtocol_def
       addMasquerade_def addForwardPort_def addIcmpBlock_def cong: outcome.case_cong sum.case_cong)

lemma remove_entry_pattern:
  "remove_entry e zone sender s =
     remove_pattern (gated e) e (timer_key e) (removed_signal e) zone sender s"
proof (cases e)
  case (RichRule r)
  then show ?thesis
    by (cases r) (simp add: removeRichRule_def remove_pattern_def fw_zone_defs cong: sum.case_cong)
qed (simp_all add: remove_pattern_def fw_zone_defs removeService_def removePort_def
       removeProtocol_def removeMasquerade_def removeForwardPort_def removeIcmpBlock_def
       cong: outcome.case_cong sum.case_cong)

lemma run_callback_pattern:
  "run_callback (timer_callback e z sender) s =
     disable_pattern e (timer_key e) (removed_signal e z) z s"
proof (cases e)
  case (RichRule r)
  then show ?thesis
    by (cases r) (simp add: disableTimedRichRule_def disable_pattern_def fw_zone_defs cong: sum.case_cong)
qed (simp_all add: disable_pattern_def fw_zone_defs disableTimedService_def disableTimedPort_def
       disableTimedProtocol_def disableTimedMasquerade_def disable_forward_port_def
       disableTimedIcmpBlock_def cong: sum.case_cong)

lemma query_entry_zone_query: "query_entry e z s = zone_query (fw s) z e"
proof (cases e)
  case (RichRule r)
  then show ?thesis by (cases r) (simp add: queryRichRule_def fw_zone_defs)
qed (simp_all add: fw_zone_defs queryService_def queryPort_def queryProtocol_def
       queryMasquerade_def queryForwardPort_def queryIcmpBlock_def)

lemma zone_add_Inr:
  assumes "zone_add f zone e = Inr (z, f')"
  shows "check_zone f zone = Inr z" and "e \<notin> zones f z"
    and "f' = f\<lparr>zones := (zones f)(z := insert e (zones f z))\<rparr>"
  using assms by (auto simp: zone_add_def split: sum.splits option.splits if_splits)

lemma zone_remove_Inr:
  assumes "zone_remove f zone e = Inr (z, f')"
  shows "check_zone f zone = Inr z" and "e \<in> zones f z"
    and "f' = f\<lparr>zones := (zones f)(z := zones f z - {e})\<rparr>"
  using assms by (auto simp: zone_remove_def split: sum.splits if_splits)

lemma check_zone_idem: "check_zone f zone = Inr z \<Longrightarrow> check_zone f z = Inr z"
  by (auto simp: check_zone_def Let_def split: if_splits)

lemma check_zone_zones_update [simp]: "check_zone (f\<lparr>zones := x\<rparr>) zone = check_zone f zone"
  by (simp add: check_zone_def)

lemma accessCheck_cong:
  "policies (fw s') = policies (fw s) \<Longrightarrow> system_bus s' = system_bus s
     \<Longrightarrow> accessCheck sender s' = accessCheck sender s"
  by (simp add: accessCheck_def cong: option.case_cong sum.case_cong if_cong)

lemma accessCheck_start: "accessCheck sender start_daemon = Return ()"
  by (simp add: accessCheck_def concrete_defs)

subsection \<open>Timed entries\<close>

lemma add_pattern_timed:
  assumes add: "add_pattern g e k cb sig zone T sender s = (Return z, s1)" and T: "0 < T"
  shows "check_zone (fw s) zone = Inr z"
    and "e \<notin> zones (fw s) z"
    and "fw s1 = (fw s)\<lparr>zones := (zones (fw s))(z := insert e (zones (fw s) z))\<rparr>"
    and "timeout_tag s1 z' k' = (if z' = z \<and> k' = k then Some (next_tag s) else timeout_tag s z' k')"
    and "glib_sources s1 = (glib_sources s)(next_tag s \<mapsto> (T, cb z))"
    and "signals s1 = signals s @ [sig z]"
    and "system_bus s1 = system_bus s"
    and "config s1 = config s"
    and "next_tag s1 = Suc (next_tag s)"
    and "g \<Longrightarrow> accessCheck sender s = Return ()"
proof -
  from add obtain f where f: "zone_add (fw s) zone e = Inr (z, f)"
    and s1: "s1 = emit (sig z) (addTimeout z k (next_tag s)
                (s\<lparr>fw := f, glib_sources := (glib_sources s)(next_tag s \<mapsto> (T, cb z)),
                   next_tag := Suc (next_tag s)\<rparr>))"
    and ok: "g \<longrightarrow> accessCheck sender s = Return ()"
    using T
    by (auto simp: add_pattern_def timeout_add_seconds_def Let_def
        split: outcome.splits sum.splits if_splits)
  note z = zone_add_Inr [OF f]
  show "check_zone (fw s) zone = Inr z" by (rule z(1))
  show "e \<notin> zones (fw s) z" by (rule z(2))
  show "fw s1 = (fw s)\<lparr>zones := (zones (fw s))(z := insert e (zones (fw s) z))\<rparr>"
    by (simp add: s1 emit_frame addTimeout_frame z(3))
  show "timeout_tag s1 z' k' = (if z' = z \<and> k' = k then Some (next_tag s) else timeout_tag s z' k')"
    by (simp add: s1 emit_frame timeout_tag_addTimeout) (simp add: timeout_tag_def)
  show "glib_sources s1 = (glib_sources s)(next_tag s \<mapsto> (T, cb z))"
    by (simp add: s1 emit_frame addTimeout_frame)
  show "signals s1 = signals s @ [sig z]"
    by (simp add: s1 emit_frame addTimeout_frame)
  show "system_bus s1 = system_bus s" by (simp add: s1 emit_frame addTimeout_frame)
  show "config s1 = config s" by (simp add: s1 emit_frame addTimeout_frame)
  show "next_tag s1 = Suc (next_tag s)" by (simp add: s1 emit_frame addTimeout_frame)
  show "g \<Longrightarrow> accessCheck sender s = Return ()" using ok by simp
qed

lemma after_addPort_eq:
  "add_entry (Port ''80'' ''tcp'') [] 2 (Some '':1.42'') start_daemon = (Return ''public'', after_addPort)"
proof -
  have "fst (addPort [] ''80'' ''tcp'' 2 (Some '':1.42'') start_daemon) = Return ''public''"
    by (simp add: addPort_def accessCheck_start add_port_def zone_add_def check_zone_def Let_def)
       (simp add: start_daemon_def public_fw_def)
  then show ?thesis by (simp add: after_addPort_def prod_eq_iff)
qed

lemma after_addPort_facts:
  "timeout_tag after_addPort ''public'' (KPair ''80'' ''tcp'') = Some 1"
  "glib_sources after_addPort 1 = Some (2, DisableTimedPort ''public'' ''80'' ''tcp'')"
  "signals after_addPort = [PortAdded ''public'' ''80'' ''tcp'' 2]"
  "config after_addPort = permanent_store"
  "fw after_addPort = public_fw\<lparr>zones := (zones public_fw)(''public'' := {Port ''80'' ''tcp''})\<rparr>"
proof -
  have T: "(0::int) < 2" by simp
  note a = add_pattern_timed [OF after_addPort_eq [unfolded add_entry_pattern] T]
  show "timeout_tag after_addPort ''public'' (KPair ''80'' ''tcp'') = Some 1"
    using a(4) [of "''public''" "KPair ''80'' ''tcp''"] by (simp add: start_daemon_def)
  show "glib_sources after_addPort 1 = Some (2, DisableTimedPort ''public'' ''80'' ''tcp'')"
    using a(5) by (simp add: start_daemon_def)
  show "signals after_addPort = [PortAdded ''public'' ''80'' ''tcp'' 2]"
    using a(6) by (simp add: start_daemon_def)
  show "config after_addPort = permanent_store"
    using a(8) by (simp add: start_daemon_def)
  show "fw after_addPort = public_fw\<lparr>zones := (zones public_fw)(''public'' := {Port ''80'' ''tcp''})\<rparr>"
    using a(3) by (simp add: start_daemon_def) (simp add: public_fw_def)
qed

subsection \<open>Reload and the timers\<close>

lemma reload_keeps_timers:
  "fst (reload sender s) = Return ()"
  "timeouts (snd (reload sender s)) = timeouts s"
  "timeout_tag (snd (reload sender s)) = timeout_tag s"
  "glib_sources (snd (reload sender s)) = glib_sources s"
  "signals (snd (reload sender s)) = signals s @ [Reloaded]"
  "fw (snd (reload sender s)) = fw_reload (config s) (fw s)"
  by (simp_all add: reload_def Let_def emit_def timeout_tag_def fun_eq_iff)

lemma glib_sources_fold_inner:
  "glib_sources (fold (\<lambda>(x, tag) s''. source_remove tag s'') m s) t =
     (if \<exists>x. (x, t) \<in> set m then None else glib_sources s t)"
  by (induction m arbitrary: s) (auto simp: source_remove_def)

lemma glib_sources_fold_outer:
  "glib_sources (fold (\<lambda>(zone, m) s'. fold (\<lambda>(x, tag) s''. source_remove tag s'') m s') ts s) t =
     (if \<exists>zone m x. (zone, m) \<in> set ts \<and> (x, t) \<in> set m then None else glib_sources s t)"
proof (induction ts arbitrary: s)
  case Nil
  show ?case by simp
next
  case (Cons p ts)
  obtain zone m where p: "p = (zone, m)" by (cases p)
  show ?case
    by (simp add: p Cons.IH glib_sources_fold_inner) blast
qed

lemma cleanup_timeouts_cancels:
  "timeouts (cleanup_timeouts s) = []"
  "timeout_tag s zone x = Some tag \<Longrightarrow> glib_sources (cleanup_timeouts s) tag = None"
proof -
  show "timeouts (cleanup_timeouts s) = []" by (simp add: cleanup_timeouts_def)
  assume "timeout_tag s zone x = Some tag"
  then obtain m where "map_of (timeouts s) zone = Some m" "map_of m x = Some tag"
    by (auto simp: timeout_tag_def split: option.splits)
  then have "(zone, m) \<in> set (timeouts s)" "(x, tag) \<in> set m"
    by (auto dest!: map_of_SomeD)
  then have "\<exists>zone m x. (zone, m) \<in> set (timeouts s) \<and> (x, tag) \<in> set m" by blast
  then show "glib_sources (cleanup_timeouts s) tag = None"
    by (simp add: cleanup_timeouts_def glib_sources_fold_outer)
qed

text \<open>
  Claim C4. After \<open>reload()\<close> every timer armed by an earlier timed add is to be cancelled
  and the timeout table is to hold no armed timer. \<open>reload\<close> calls \<open>self.fw.reload()\<close>,
  \<open>self.config.reload()\<close> and \<open>self.Reloaded()\<close> and nothing else; \<open>cleanup_timeouts\<close>,
  which would detach every source in the table and empty it, is called nowhere. After
  \<open>addPort("", "80", "tcp", 2)\<close> and a reload the table still holds the timer's id and the
  source is still attached, although the rebuilt zone no longer has the port; when it
  expires, the callback runs and deletes the table entry.
\<close>

theorem reload_leaves_timers_armed:
  "reload (Some '':1.42'') after_addPort = (Return (), after_reload)
   \<and> timeout_tag after_reload ''public'' (KPair ''80'' ''tcp'') = Some 1
   \<and> glib_sources after_reload 1 = Some (2, DisableTimedPort ''public'' ''80'' ''tcp'')
   \<and> timeouts after_reload \<noteq> []
   \<and> \<not> queryPort ''public'' ''80'' ''tcp'' after_reload
   \<and> timeout_tag (timer_fires 1 after_reload) ''public'' (KPair ''80'' ''tcp'') = None
   \<and> timeout_tag (cleanup_timeouts after_addPort) ''public'' (KPair ''80'' ''tcp'') = None
   \<and> glib_sources (cleanup_timeouts after_addPort) 1 = None"
proof -
  have 1: "reload (Some '':1.42'') after_addPort = (Return (), after_reload)"
    by (simp add: after_reload_def prod_eq_iff reload_keeps_timers)
  have 2: "timeout_tag after_reload ''public'' (KPair ''80'' ''tcp'') = Some 1"
    by (simp add: after_reload_def reload_keeps_timers after_addPort_facts)
  have 3: "glib_sources after_reload 1 = Some (2, DisableTimedPort ''public'' ''80'' ''tcp'')"
    using after_addPort_facts(2) by (simp add: after_reload_def reload_keeps_timers)
  have 4: "timeouts after_reload \<noteq> []"
    using 2 by (auto simp: timeout_tag_def)
  have fwr: "fw after_reload = fw_reload permanent_store (fw after_addPort)"
    by (simp add: after_reload_def reload_keeps_timers after_addPort_facts)
  have 5: "\<not> queryPort ''public'' ''80'' ''tcp'' after_reload"
    by (simp add: queryPort_def query_port_def zone_query_def check_zone_def fwr fw_reload_def
        permanent_store_def zone_entries_def Let_def)
  from del_timeout_Some [OF 2] obtain d where d: "del_timeout ''public'' (KPair ''80'' ''tcp'') after_reload = Inr d"
    and dt: "timeout_tag d ''public'' (KPair ''80'' ''tcp'') = None" and dfw: "fw d = fw after_reload"
    by auto
  have zr: "zone_remove (fw after_reload) ''public'' (Port ''80'' ''tcp'')
              = Inl (FirewallError NOT_ENABLED ''public'')"
    by (simp add: zone_remove_def check_zone_def fwr fw_reload_def
        permanent_store_def zone_entries_def Let_def after_addPort_facts)
  have run: "disableTimedPort ''public'' ''80'' ''tcp'' after_reload
               = (Raise (FirewallError NOT_ENABLED ''public''), d)"
    by (simp add: disableTimedPort_def remove_port_def d dfw zr)
  have fires: "timer_fires 1 after_reload = source_remove 1 d"
    unfolding timer_fires_def by (simp add: 3 run del: One_nat_def)
  have 6: "timeout_tag (timer_fires 1 after_reload) ''public'' (KPair ''80'' ''tcp'') = None"
    using dt by (simp add: fires source_remove_def timeout_tag_def del: One_nat_def)
  have 7: "timeout_tag (cleanup_timeouts after_addPort) ''public'' (KPair ''80'' ''tcp'') = None"
    by (simp add: timeout_tag_def cleanup_timeouts_cancels(1))
  have 8: "glib_sources (cleanup_timeouts after_addPort) 1 = None"
    by (rule cleanup_timeouts_cancels(2) [OF after_addPort_facts(1)])
  show ?thesis using 1 2 3 4 5 6 7 8 by simp
qed

subsection \<open>One key, several timers\<close>

lemma del_timeout_glib: "del_timeout z k s = Inr s' \<Longrightarrow> glib_sources s' = glib_sources s"
  by (auto simp: del_timeout_def split: option.splits)

lemma disable_pattern_glib: "glib_sources (snd (disable_pattern e k sig z s)) = glib_sources s"
  by (auto simp: disable_pattern_def emit_def dest: del_timeout_glib split: sum.splits)

lemma callback_is_timer_callback: "\<exists>e z sender. cb = timer_callback e z sender"
proof (cases cb)
  case (DisableTimedRichRule z r)
  then have "cb = timer_callback (RichRule (Rich_Rule r)) z None" by simp
  then show ?thesis by blast
next
  case (DisableTimedService z x)
  then have "cb = timer_callback (Service x) z None" by simp
  then show ?thesis by blast
next
  case (DisableTimedPort z p q)
  then have "cb = timer_callback (Port p q) z None" by simp
  then show ?thesis by blast
next
  case (DisableTimedProtocol z p)
  then have "cb = timer_callback (Protocol p) z None" by simp
  then show ?thesis by blast
next
  case (DisableTimedMasquerade z)
  then have "cb = timer_callback Masquerade z None" by simp
  then show ?thesis by blast
next
  case (Disable_forward_port z a b c d)
  then have "cb = timer_callback (ForwardPort a b c d) z None" by simp
  then show ?thesis by blast
next
  case (DisableTimedIcmpBlock z i sender)
  then have "cb = timer_callback (IcmpBlock i) z sender" by simp
  then show ?thesis by blast
qed

lemma run_callback_glib: "glib_sources (snd (run_callback cb s)) = glib_sources s"
proof -
  obtain e z sender where "cb = timer_callback e z sender"
    using callback_is_timer_callback by blast
  then show ?thesis by (simp add: run_callback_pattern disable_pattern_glib)
qed

lemma glib_sources_timer_fires: "glib_sources (timer_fires t s) t = None"
  by (cases "glib_sources s t") (auto simp: timer_fires_def source_remove_def run_callback_glib)

lemma disable_pattern_ok:
  assumes "timeout_tag s z k = Some tag" and "check_zone (fw s) z = Inr z" and "e \<in> zones (fw s) z"
  shows "\<exists>s'. disable_pattern e k sig z s = (Return (), s')
          \<and> fw s' = (fw s)\<lparr>zones := (zones (fw s))(z := zones (fw s) z - {e})\<rparr>
          \<and> signals s' = signals s @ [sig]
          \<and> glib_sources s' = glib_sources s
          \<and> (\<forall>z' k'. timeout_tag s' z' k' = (if z' = z \<and> k' = k then None else timeout_tag s z' k'))"
proof -
  from del_timeout_Some [OF assms(1)] obtain d where d: "del_timeout z k s = Inr d"
    and dfw: "fw d = fw s" and dsig: "signals d = signals s"
    and dsrc: "glib_sources d = glib_sources s"
    and dtag: "\<And>zone' x'. timeout_tag d zone' x' =
              (if zone' = z \<and> x' = k then None else timeout_tag s zone' x')"
    by blast
  let ?gone = "(fw s)\<lparr>zones := (zones (fw s))(z := zones (fw s) z - {e})\<rparr>"
  have zr: "zone_remove (fw s) z e = Inr (z, ?gone)"
    by (simp add: zone_remove_def assms)
  have "disable_pattern e k sig z s = (Return (), emit sig (d\<lparr>fw := ?gone\<rparr>))"
    by (simp add: disable_pattern_def d dfw zr)
  moreover have "timeout_tag (emit sig (d\<lparr>fw := ?gone\<rparr>)) z' k' =
       (if z' = z \<and> k' = k then None else timeout_tag s z' k')" for z' k'
    using dtag [of z' k'] by (simp add: emit_def timeout_tag_def)
  ultimately show ?thesis by (simp add: emit_frame dsig dsrc)
qed

lemma after_addService_eq:
  "add_entry (Service ''gre'') [] 10 (Some '':1.42'') start_daemon = (Return ''public'', after_addService)"
proof -
  have "fst (addService [] ''gre'' 10 (Some '':1.42'') start_daemon) = Return ''public''"
    by (simp add: addService_def accessCheck_start add_service_def zone_add_def check_zone_def Let_def)
       (simp add: start_daemon_def public_fw_def)
  then show ?thesis by (simp add: after_addService_def prod_eq_iff)
qed

lemma after_addService_facts:
  "timeout_tag after_addService ''public'' (KStr ''gre'') = Some 1"
  "glib_sources after_addService = (\<lambda>t. None)(1 \<mapsto> (10, DisableTimedService ''public'' ''gre''))"
  "system_bus after_addService = local_bus"
  "next_tag after_addService = 2"
  "fw after_addService = public_fw\<lparr>zones := (zones public_fw)(''public'' := {Service ''gre''})\<rparr>"
proof -
  have T: "(0::int) < 10" by simp
  note a = add_pattern_timed [OF after_addService_eq [unfolded add_entry_pattern] T]
  show "timeout_tag after_addService ''public'' (KStr ''gre'') = Some 1"
    using a(4) [of "''public''" "KStr ''gre''"] by (simp add: start_daemon_def)
  show "glib_sources after_addService = (\<lambda>t. None)(1 \<mapsto> (10, DisableTimedService ''public'' ''gre''))"
    using a(5) by (simp add: start_daemon_def)
  show "system_bus after_addService = local_bus"
    using a(7) by (simp add: start_daemon_def)
  show "next_tag after_addService = 2"
    using a(9) by (simp add: start_daemon_def)
  show "fw after_addService = public_fw\<lparr>zones := (zones public_fw)(''public'' := {Service ''gre''})\<rparr>"
    using a(3) by (simp add: start_daemon_def) (simp add: public_fw_def)
qed

lemma after_addProtocol_eq:
  "add_entry (Protocol ''gre'') [] 10 (Some '':1.42'') after_addService = (Return ''public'', after_addProtocol)"
proof -
  have ac: "accessCheck (Some '':1.42'') after_addService = Return ()"
    by (simp add: accessCheck_def after_addService_facts)
       (simp add: public_fw_def no_lockdown_def query_lockdown_def)
  have "fst (addProtocol [] ''gre'' 10 (Some '':1.42'') after_addService) = Return ''public''"
    by (simp add: addProtocol_def ac add_protocol_def zone_add_def check_zone_def Let_def
        after_addService_facts)
       (simp add: public_fw_def)
  then show ?thesis by (simp add: after_addProtocol_def prod_eq_iff)
qed

lemma after_addProtocol_facts:
  "timeout_tag after_addProtocol ''public'' (KStr ''gre'') = Some 2"
  "glib_sources after_addProtocol 1 = Some (10, DisableTimedService ''public'' ''gre'')"
  "glib_sources after_addProtocol 2 = Some (10, DisableTimedProtocol ''public'' ''gre'')"
  "fw after_addProtocol =
     public_fw\<lparr>zones := (zones public_fw)(''public'' := {Protocol ''gre'', Service ''gre''})\<rparr>"
proof -
  have T: "(0::int) < 10" by simp
  note a = add_pattern_timed [OF after_addProtocol_eq [unfolded add_entry_pattern] T]
  show "timeout_tag after_addProtocol ''public'' (KStr ''gre'') = Some 2"
    using a(4) [of "''public''" "KStr ''gre''"] by (simp add: after_addService_facts)
  show "glib_sources after_addProtocol 1 = Some (10, DisableTimedService ''public'' ''gre'')"
    using a(5) by (simp add: after_addService_facts)
  show "glib_sources after_addProtocol 2 = Some (10, DisableTimedProtocol ''public'' ''gre'')"
    using a(5) by (simp add: after_addService_facts)
  show "fw after_addProtocol =
     public_fw\<lparr>zones := (zones public_fw)(''public'' := {Protocol ''gre'', Service ''gre''})\<rparr>"
    using a(3) by (simp add: after_addService_facts)
qed

text \<open>
  Claim C5, as stated, fails. \<open>addTimeout\<close> only stores the new id; it never calls
  \<open>GLib.source_remove\<close>. The keys of the table do not say which kind of entry they stand
  for, so a service and a protocol of the same name share the key: after
  \<open>addService("", "gre", 10)\<close> and \<open>addProtocol("", "gre", 10)\<close> two sources are attached
  for the key \<open>("public", "gre")\<close>, the table knows the second only, and the first, which
  was replaced in the table, still expires and removes the service.
\<close>

theorem two_timers_under_one_key:
  "addService [] ''gre'' 10 (Some '':1.42'') start_daemon = (Return ''public'', after_addService)
   \<and> timeout_tag after_addService ''public'' (KStr ''gre'') = Some 1
   \<and> glib_sources after_addService 1 = Some (10, DisableTimedService ''public'' ''gre'')
   \<and> addProtocol [] ''gre'' 10 (Some '':1.42'') after_addService = (Return ''public'', after_addProtocol)
   \<and> timeout_tag after_addProtocol ''public'' (KStr ''gre'') = Some 2
   \<and> glib_sources after_addProtocol 1 = Some (10, DisableTimedService ''public'' ''gre'')
   \<and> glib_sources after_addProtocol 2 = Some (10, DisableTimedProtocol ''public'' ''gre'')
   \<and> queryService ''public'' ''gre'' after_addProtocol
   \<and> \<not> queryService ''public'' ''gre'' (timer_fires 1 after_addProtocol)"
proof -
  have 1: "addService [] ''gre'' 10 (Some '':1.42'') start_daemon = (Return ''public'', after_addService)"
    using after_addService_eq by simp
  have 3: "glib_sources after_addService 1 = Some (10, DisableTimedService ''public'' ''gre'')"
    by (simp add: after_addService_facts)
  have 4: "addProtocol [] ''gre'' 10 (Some '':1.42'') after_addService = (Return ''public'', after_addProtocol)"
    using after_addProtocol_eq by simp
  have cz: "check_zone (fw after_addProtocol) ''public'' = Inr ''public''"
    by (simp add: check_zone_def after_addProtocol_facts) (simp add: public_fw_def)
  have mem: "Service ''gre'' \<in> zones (fw after_addProtocol) ''public''"
    by (simp add: after_addProtocol_facts)
  have 8: "queryService ''public'' ''gre'' after_addProtocol"
    by (simp add: queryService_def query_service_def zone_query_def cz mem)
  from disable_pattern_ok [OF after_addProtocol_facts(1) cz mem, where sig = "ServiceRemoved ''public'' ''gre''"]
  obtain s' where run: "disable_pattern (Service ''gre'') (KStr ''gre'') (ServiceRemoved ''public'' ''gre'')
        ''public'' after_addProtocol = (Return (), s')"
    and fw': "fw s' = (fw after_addProtocol)\<lparr>zones := (zones (fw after_addProtocol))
        (''public'' := zones (fw after_addProtocol) ''public'' - {Service ''gre''})\<rparr>"
    by blast
  have run': "disableTimedService ''public'' ''gre'' after_addProtocol = (Return (), s')"
    using run run_callback_pattern [of "Service ''gre''" "''public''" None after_addProtocol]
    by simp
  have fires: "timer_fires 1 after_addProtocol = source_remove 1 s'"
    unfolding timer_fires_def by (simp add: after_addProtocol_facts(2) run' del: One_nat_def)
  have 9: "\<not> queryService ''public'' ''gre'' (timer_fires 1 after_addProtocol)"
    by (simp add: queryService_def query_service_def zone_query_def fires source_remove_def fw' cz
        del: One_nat_def)
  show ?thesis
    using 1 after_addService_facts(1) 3 4 after_addProtocol_facts(1,2,3) 8 9 by simp
qed

text \<open>
  Claim C5, amended. The timeout table holds at most one timer id for a key
  \<open>(zone, entryKey)\<close>: \<open>addTimeout\<close> files the new id under the key, in place of an id
  already filed there, and leaves every other key as it was. \<open>addTimeout\<close> detaches no
  source, so a timer whose id it replaces stays armed. A source is detached once it has
  been dispatched, and \<open>timeout_add_seconds\<close> attaches nothing but the fresh next id, so
  each arm runs its callback at most once.
\<close>

theorem addTimeout_overwrites:
  "timeout_tag (addTimeout zone x tag s) zone x = Some tag
   \<and> (zone' \<noteq> zone \<or> x' \<noteq> x \<longrightarrow>
        timeout_tag (addTimeout zone x tag s) zone' x' = timeout_tag s zone' x')
   \<and> glib_sources (addTimeout zone x tag s) = glib_sources s
   \<and> glib_sources (timer_fires t s) t = None
   \<and> (t \<noteq> next_tag s \<longrightarrow>
        glib_sources (snd (timeout_add_seconds T cb s)) t = glib_sources s t)"
  by (auto simp: timeout_tag_addTimeout addTimeout_frame glib_sources_timer_fires
      timeout_add_seconds_def)

theorem addTimeout_overwrites_witness:
  "timeout_tag (addTimeout ''public'' (KStr ''gre'') 2 after_addService) ''public'' (KStr ''gre'') = Some 2
   \<and> timeout_tag (addTimeout ''public'' (KStr ''gre'') 2 after_addService) ''public'' (KStr ''ssh'') = None
   \<and> glib_sources (addTimeout ''public'' (KStr ''gre'') 2 after_addService) 1
        = Some (10, DisableTimedService ''public'' ''gre'')
   \<and> glib_sources (timer_fires 1 after_addService) 1 = None
   \<and> glib_sources (snd (timeout_add_seconds 10 (DisableTimedProtocol ''public'' ''gre'') after_addService)) 1
        = Some (10, DisableTimedService ''public'' ''gre'')"
proof -
  note w = addTimeout_overwrites [of "''public''" "KStr ''gre''" 2 after_addService
      "''public''" "KStr ''ssh''" 1 10 "DisableTimedProtocol ''public'' ''gre''"]
  have other: "''public'' \<noteq> ''public'' \<or> KStr ''ssh'' \<noteq> KStr ''gre''" by simp
  have fresh: "1 \<noteq> next_tag after_addService" by (simp add: after_addService_facts)
  have none: "timeout_tag after_addService ''public'' (KStr ''ssh'') = None"
    using add_pattern_timed(4) [OF after_addService_eq [unfolded add_entry_pattern],
        of "''public''" "KStr ''ssh''"]
    by (simp add: start_daemon_def timeout_tag_def)
  have src: "glib_sources after_addService 1 = Some (10, DisableTimedService ''public'' ''gre'')"
    by (simp add: after_addService_facts)
  from w have a: "timeout_tag (addTimeout ''public'' (KStr ''gre'') 2 after_addService) ''public'' (KStr ''gre'') = Some 2"
    by (rule conjunct1)
  from w other have b: "timeout_tag (addTimeout ''public'' (KStr ''gre'') 2 after_addService) ''public'' (KStr ''ssh'')
       = timeout_tag after_addService ''public'' (KStr ''ssh'')"
    by (elim conjE) (erule mp)
  from w have c: "glib_sources (addTimeout ''public'' (KStr ''gre'') 2 after_addService) = glib_sources after_addService"
    by (elim conjE)
  from w have d: "glib_sources (timer_fires 1 after_addService) 1 = None"
    by (elim conjE)
  from w fresh have e: "glib_sources (snd (timeout_add_seconds 10 (DisableTimedProtocol ''public'' ''gre'') after_addService)) 1
      = glib_sources after_addService 1"
    by (elim conjE) (erule mp)
  show ?thesis
    by (intro conjI) (rule a, simp only: b none, simp only: c src, rule d, simp only: e src)
qed

subsection \<open>Removing all tracked passthroughs\<close>

lemma accessCheck_None: "accessCheck None s = Return ()"
  by (simp add: accessCheck_def)

lemma removePassthrough_tracked:
  assumes "(ipv, args) \<in> set (passthroughs (fw s))"
  shows "removePassthrough ipv args None s =
           (Return (), emit (PassthroughRemoved ipv args)
              (s\<lparr>fw := (fw s)\<lparr>passthroughs := remove1 (ipv, args) (passthroughs (fw s))\<rparr>\<rparr>))"
  using assms by (simp add: removePassthrough_def accessCheck_None remove_passthrough_def)

lemma removePassthrough_each_all:
  assumes "mset qs \<subseteq># mset (passthroughs (fw s))"
  shows "fst (removePassthrough_each qs s) = Return ()
       \<and> signals (snd (removePassthrough_each qs s))
            = signals s @ map (\<lambda>p. PassthroughRemoved (fst p) (snd p)) qs
       \<and> mset (passthroughs (fw (snd (removePassthrough_each qs s))))
            = mset (passthroughs (fw s)) - mset qs"
  using assms
proof (induction qs arbitrary: s)
  case Nil
  show ?case by simp
next
  case (Cons q qs)
  obtain ipv args where q: "q = (ipv, args)" by (cases q)
  let ?s' = "emit (PassthroughRemoved ipv args)
              (s\<lparr>fw := (fw s)\<lparr>passthroughs := remove1 (ipv, args) (passthroughs (fw s))\<rparr>\<rparr>)"
  from Cons.prems have "q \<in># mset (passthroughs (fw s))"
    by (simp add: insert_subset_eq_iff)
  then have mem: "(ipv, args) \<in> set (passthroughs (fw s))" by (simp add: q)
  have step: "removePassthrough ipv args None s = (Return (), ?s')"
    by (rule removePassthrough_tracked [OF mem])
  from Cons.prems have "mset qs \<subseteq># mset (passthroughs (fw s)) - {#q#}"
    by (simp add: insert_subset_eq_iff)
  then have sub: "mset qs \<subseteq># mset (passthroughs (fw ?s'))"
    by (simp add: emit_frame q)
  note ih = Cons.IH [OF sub]
  have unfold: "removePassthrough_each (q # qs) s = removePassthrough_each qs ?s'"
    by (simp add: q step)
  show ?case
    unfolding unfold using ih by (simp add: emit_frame q)
qed

text \<open>
  Claim C9. \<open>removeAllPassthroughs\<close> calls \<open>removePassthrough\<close> on the elements of the
  enumeration \<open>getAllPassthroughs()\<close> in reverse: the last one first, the first one last.
  Every call succeeds and emits its \<open>PassthroughRemoved\<close> signal, so the signals of the
  method are those of the reversed enumeration, one for each entry, and no tracked
  passthrough is left.
\<close>

theorem removeAllPassthroughs_reverse_order:
  "fst (removeAllPassthroughs sender s) = Return ()
   \<and> signals (snd (removeAllPassthroughs sender s))
        = signals s @ map (\<lambda>p. PassthroughRemoved (fst p) (snd p)) (rev (getAllPassthroughs s))
   \<and> getAllPassthroughs (snd (removeAllPassthroughs sender s)) = []"
proof -
  have "mset (rev (passthroughs (fw s))) \<subseteq># mset (passthroughs (fw s))" by simp
  from removePassthrough_each_all [OF this]
  show ?thesis
    by (simp add: removeAllPassthroughs_def getAllPassthroughs_def get_all_passthroughs_def)
qed

subsection \<open>The empty zone name\<close>

lemma check_zone_empty: "check_zone f [] = Inr z \<Longrightarrow> z = default_zone f"
  by (auto simp: check_zone_def Let_def split: if_splits)

lemma add_pattern_Return:
  assumes "add_pattern g e k cb sig zone T sender s = (Return z, s1)"
  shows "check_zone (fw s) zone = Inr z" and "signals s1 = signals s @ [sig z]"
proof -
  from assms obtain f where f: "zone_add (fw s) zone e = Inr (z, f)"
    and s1: "signals s1 = signals s @ [sig z]"
    by (auto simp: add_pattern_def timeout_add_seconds_def Let_def emit_frame addTimeout_frame
        split: outcome.splits sum.splits if_splits)
  show "check_zone (fw s) zone = Inr z" by (rule zone_add_Inr(1) [OF f])
  show "signals s1 = signals s @ [sig z]" by (rule s1)
qed

lemma remove_pattern_Return:
  assumes "remove_pattern g e k sig zone sender s = (Return z, s1)"
  shows "check_zone (fw s) zone = Inr z" and "signals s1 = signals s @ [sig z]"
proof -
  from assms obtain f where f: "zone_remove (fw s) zone e = Inr (z, f)"
    and s1: "signals s1 = signals s @ [sig z]"
    by (auto simp: remove_pattern_def emit_frame removeTimeout_frame
        split: outcome.splits sum.splits if_splits)
  show "check_zone (fw s) zone = Inr z" by (rule zone_remove_Inr(1) [OF f])
  show "signals s1 = signals s @ [sig z]" by (rule s1)
qed

lemma bind_to_zone_Inr: "bind_to_zone f b zone x = Inr (z, b') \<Longrightarrow> check_zone f zone = Inr z"
  by (auto simp: bind_to_zone_def split: sum.splits option.splits if_splits)

lemma rebind_to_zone_Inr: "rebind_to_zone f b zone x = Inr (z, b') \<Longrightarrow> check_zone f zone = Inr z"
  by (auto simp: rebind_to_zone_def split: sum.splits)

lemma unbind_from_zone_empty: "unbind_from_zone f b [] x = Inr (z, b') \<Longrightarrow> map_of b x = Some z"
  by (auto simp: unbind_from_zone_def split: option.splits)

lemma binding_methods_Return:
  "addInterface zone i sender s = (Return z, s') \<Longrightarrow>
     check_zone (fw s) zone = Inr z \<and> signals s' = signals s @ [InterfaceAdded z i]"
  "changeZoneOfInterface zone i sender s = (Return z, s') \<Longrightarrow>
     check_zone (fw s) zone = Inr z
     \<and> signals s' = signals s @ [ZoneChanged z i, ZoneOfInterfaceChanged z i]"
  "removeInterface [] i sender s = (Return z, s') \<Longrightarrow>
     get_zone_of_interface (fw s) i = Some z \<and> signals s' = signals s @ [InterfaceRemoved z i]"
  "addSource zone x sender s = (Return z, s') \<Longrightarrow>
     check_zone (fw s) zone = Inr z \<and> signals s' = signals s @ [SourceAdded z x]"
  "changeZoneOfSource zone x sender s = (Return z, s') \<Longrightarrow>
     check_zone (fw s) zone = Inr z \<and> signals s' = signals s @ [ZoneOfSourceChanged z x]"
  "removeSource [] x sender s = (Return z, s') \<Longrightarrow>
     get_zone_of_source (fw s) x = Some z \<and> signals s' = signals s @ [SourceRemoved z x]"
  by (auto simp: addInterface_def add_interface_def changeZoneOfInterface_def
      change_zone_of_interface_def removeInterface_def remove_interface_def
      addSource_def add_source_def changeZoneOfSource_def change_zone_of_source_def
      removeSource_def remove_source_def zoneOfInterfaceChanged_def emit_def
      get_zone_of_interface_def get_zone_of_source_def
      dest: bind_to_zone_Inr rebind_to_zone_Inr unbind_from_zone_empty
      split: outcome.splits sum.splits)

lemma after_addInterface_facts:
  "fw after_addInterface = public_fw\<lparr>bound_interfaces := [(''eth0'', ''work'')]\<rparr>"
  "signals after_addInterface = [InterfaceAdded ''work'' ''eth0'']"
  "system_bus after_addInterface = local_bus"
proof -
  have eq: "after_addInterface = emit (InterfaceAdded ''work'' ''eth0'')
          (start_daemon\<lparr>fw := public_fw\<lparr>bound_interfaces := [(''eth0'', ''work'')]\<rparr>\<rparr>)"
    unfolding after_addInterface_def
    by (simp add: addInterface_def accessCheck_start add_interface_def bind_to_zone_def
        check_zone_def Let_def)
       (simp add: start_daemon_def public_fw_def)
  show "fw after_addInterface = public_fw\<lparr>bound_interfaces := [(''eth0'', ''work'')]\<rparr>"
    and "signals after_addInterface = [InterfaceAdded ''work'' ''eth0'']"
    and "system_bus after_addInterface = local_bus"
    by (simp_all add: eq emit_def start_daemon_def)
qed

lemma removeInterface_eth0:
  "fst (removeInterface [] ''eth0'' (Some '':1.42'') after_addInterface) = Return ''work''"
proof -
  have ac: "accessCheck (Some '':1.42'') after_addInterface = Return ()"
    by (simp add: accessCheck_def after_addInterface_facts)
       (simp add: public_fw_def no_lockdown_def query_lockdown_def)
  show ?thesis
    by (simp add: removeInterface_def ac remove_interface_def unbind_from_zone_def
        after_addInterface_facts)
qed

text \<open>
  Claim C8, as stated, fails for two of the mutators. \<open>removeInterface\<close> and \<open>removeSource\<close>
  do not resolve the empty zone name to the default zone: "If zone is empty, remove from
  zone the interface belongs to", as their docstrings say. With \<open>eth0\<close> bound to \<open>work\<close> and
  \<open>public\<close> the default zone, \<open>removeInterface("", "eth0")\<close> returns \<open>work\<close> and emits
  \<open>InterfaceRemoved("work", "eth0")\<close>.
\<close>

theorem removeInterface_empty_zone_not_default:
  "fst (removeInterface [] ''eth0'' (Some '':1.42'') after_addInterface) = Return ''work''
   \<and> default_zone (fw after_addInterface) = ''public''
   \<and> signals (snd (removeInterface [] ''eth0'' (Some '':1.42'') after_addInterface))
        = [InterfaceAdded ''work'' ''eth0'', InterfaceRemoved ''work'' ''eth0'']"
proof -
  let ?r = "removeInterface [] ''eth0'' (Some '':1.42'') after_addInterface"
  have eq: "?r = (Return ''work'', snd ?r)"
    using removeInterface_eth0 by (simp add: prod_eq_iff)
  have "default_zone (fw after_addInterface) = ''public''"
    by (simp add: after_addInterface_facts) (simp add: public_fw_def)
  moreover have "signals (snd ?r) = [InterfaceAdded ''work'' ''eth0'', InterfaceRemoved ''work'' ''eth0'']"
    using binding_methods_Return(3) [OF eq] by (simp add: after_addInterface_facts)
  ultimately show ?thesis using removeInterface_eth0 by simp
qed

text \<open>
  Claim C8, amended. For every mutator of the zone interface called with the empty string
  as the zone, the zone is resolved, and the resolved name is both the value returned and
  the zone payload of every signal the call emits. The resolved zone is the default zone,
  except for \<open>removeInterface\<close> and \<open>removeSource\<close>, where it is the zone that the interface
  or the source belongs to. (For instance \<open>addService("", s, t)\<close> returns the default zone's
  name and emits \<open>ServiceAdded\<close> with that name.)
\<close>

theorem empty_zone_resolution:
  assumes "zone_method c [] sender s = (Return z, s')"
  shows "resolved_zone c (fw s) = Some z \<and> signals s' = signals s @ zone_signals c z"
proof (cases c)
  case (AddInterface i)
  with assms binding_methods_Return(1) [of "[]" i sender s z s'] show ?thesis
    by (auto dest: check_zone_empty)
next
  case (ChangeZone i)
  with assms binding_methods_Return(2) [of "[]" i sender s z s'] show ?thesis
    by (auto simp: changeZone_def dest: check_zone_empty)
next
  case (ChangeZoneOfInterface i)
  with assms binding_methods_Return(2) [of "[]" i sender s z s'] show ?thesis
    by (auto dest: check_zone_empty)
next
  case (RemoveInterface i)
  with assms binding_methods_Return(3) [of i sender s z s'] show ?thesis by simp
next
  case (AddSource x)
  with assms binding_methods_Return(4) [of "[]" x sender s z s'] show ?thesis
    by (auto dest: check_zone_empty)
next
  case (ChangeZoneOfSource x)
  with assms binding_methods_Return(5) [of "[]" x sender s z s'] show ?thesis
    by (auto dest: check_zone_empty)
next
  case (RemoveSource x)
  with assms binding_methods_Return(6) [of x sender s z s'] show ?thesis by simp
next
  case (Add e T)
  with assms have "add_pattern (gated e) e (timer_key e) (\<lambda>z. timer_callback e z sender)
       (\<lambda>z. added_signal e z T) [] T sender s = (Return z, s')"
    by (simp add: add_entry_pattern)
  from add_pattern_Return [OF this] Add show ?thesis
    by (auto dest: check_zone_empty)
next
  case (Remove e)
  with assms have "remove_pattern (gated e) e (timer_key e) (removed_signal e) [] sender s
       = (Return z, s')"
    by (simp add: remove_entry_pattern)
  from remove_pattern_Return [OF this] Remove show ?thesis
    by (auto dest: check_zone_empty)
qed

theorem empty_zone_resolution_witness:
  "addService [] ''ssh'' 0 (Some '':1.42'') start_daemon = (Return ''public'', after_add_ssh)
   \<and> default_zone (fw start_daemon) = ''public''
   \<and> signals after_add_ssh = [ServiceAdded ''public'' ''ssh'' 0]
   \<and> fst (removeInterface [] ''eth0'' (Some '':1.42'') after_addInterface) = Return ''work''
   \<and> get_zone_of_interface (fw after_addInterface) ''eth0'' = Some ''work''
   \<and> signals (snd (removeInterface [] ''eth0'' (Some '':1.42'') after_addInterface))
        = signals after_addInterface @ [InterfaceRemoved ''work'' ''eth0'']"
proof -
  have "fst (addService [] ''ssh'' 0 (Some '':1.42'') start_daemon) = Return ''public''"
    by (simp add: addService_def accessCheck_start add_service_def zone_add_def check_zone_def Let_def)
       (simp add: start_daemon_def public_fw_def)
  then have add: "zone_method (Add (Service ''ssh'') 0) [] (Some '':1.42'') start_daemon
                    = (Return ''public'', after_add_ssh)"
    by (simp add: after_add_ssh_def prod_eq_iff)
  let ?r = "removeInterface [] ''eth0'' (Some '':1.42'') after_addInterface"
  have rem: "zone_method (RemoveInterface ''eth0'') [] (Some '':1.42'') after_addInterface
               = (Return ''work'', snd ?r)"
    using removeInterface_eth0 by (simp add: prod_eq_iff)
  note a = empty_zone_resolution [OF add]
  note b = empty_zone_resolution [OF rem]
  have s0: "signals start_daemon = []" by (simp add: start_daemon_def)
  show ?thesis
    using add a b removeInterface_eth0 by (simp add: s0)
qed

subsection \<open>Runtime to permanent\<close>

lemma copy_loop_fail_fast:
  assumes "copy_loop kind get persist pre s = (Return (), s1)"
    and "get name s1 = Return conf"
    and "persist (config s1) name conf = Inl e"
  shows "copy_loop kind get persist (pre @ name # rest) s =
           (Raise (FirewallError RT_TO_PERM_FAILED
                     (kind @ '' '' @ quoted name @ '' : '' @ str_of_error e)), s1)"
  using assms
proof (induction pre arbitrary: s)
  case Nil
  then show ?case by simp
next
  case (Cons p pre)
  from Cons.prems(1) obtain conf' c where g: "get p s = Return conf'"
    and p: "persist (config s) p conf' = Inr c"
    and r: "copy_loop kind get persist pre (s\<lparr>config := c\<rparr>) = (Return (), s1)"
    by (auto split: outcome.splits sum.splits)
  from Cons.IH [OF r Cons.prems(2,3)] show ?case
    by (simp add: g p)
qed

lemmas store_defs = getServiceByName_def config_addService_def service_update_def
  getIcmpTypeByName_def config_addIcmpType_def icmptype_update_def
  getZoneByName_def config_addZone_def zone_update_def error_has_def
  service_to_permanent_def icmptype_to_permanent_def zone_to_permanent_def

lemma faulty_daemon_facts:
  "get_services (fw faulty_daemon) = [''ssh'', ''gre'']"
  "getServiceSettings ''ssh'' faulty_daemon = Return (ServiceSettings [''22/tcp''])"
  "service_to_permanent (config faulty_daemon) ''ssh'' (ServiceSettings [''22/tcp''])
     = Inl (Exception ''read-only file system'')"
  "getServiceByName (config faulty_daemon) ''gre'' = Inl (FirewallError INVALID_SERVICE ''gre'')"
  "service_to_permanent (config faulty_daemon) ''gre'' (ServiceSettings [''gre''])
     = Inr ((config faulty_daemon)\<lparr>c_services := [(''gre'', ServiceSettings [''gre''])]\<rparr>)"
  by (simp_all add: faulty_daemon_def start_daemon_def public_fw_def permanent_store_def
      get_services_def getServiceSettings_def get_service_config_def store_defs)

lemma faulty_icmptype_daemon_facts:
  "copy_loop ''service'' getServiceSettings service_to_permanent
     (get_services (fw faulty_icmptype_daemon)) faulty_icmptype_daemon
     = (Return (), faulty_icmptype_daemon)"
  "copy_loop ''icmptype'' getIcmpTypeSettings icmptype_to_permanent
     (get_icmptypes (fw faulty_icmptype_daemon)) faulty_icmptype_daemon
     = (Raise (FirewallError RT_TO_PERM_FAILED
                 (''icmptype '' @ quoted ''echo-request'' @ '' : read-only file system'')),
        faulty_icmptype_daemon)"
  by (simp_all add: faulty_icmptype_daemon_def start_daemon_def public_fw_def permanent_store_def
      get_services_def getServiceSettings_def get_service_config_def
      get_icmptypes_def getIcmpTypeSettings_def get_icmptype_config_def store_defs)

lemma faulty_zone_daemon_facts:
  "copy_loop ''service'' getServiceSettings service_to_permanent
     (get_services (fw faulty_zone_daemon)) faulty_zone_daemon
     = (Return (), faulty_zone_daemon)"
  "copy_loop ''icmptype'' getIcmpTypeSettings icmptype_to_permanent
     (get_icmptypes (fw faulty_zone_daemon)) faulty_zone_daemon
     = (Return (), faulty_zone_daemon)"
  "copy_loop ''zone'' getZoneSettings zone_to_permanent
     (get_zones (fw faulty_zone_daemon)) faulty_zone_daemon
     = (Raise (FirewallError RT_TO_PERM_FAILED
                 (''zone '' @ quoted ''public'' @ '' : read-only file system'')),
        faulty_zone_daemon)"
  by (simp_all add: faulty_zone_daemon_def start_daemon_def public_fw_def permanent_store_def
      get_services_def getServiceSettings_def get_service_config_def
      get_icmptypes_def getIcmpTypeSettings_def get_icmptype_config_def
      get_zones_def getZoneSettings_def get_config_with_settings_def check_zone_def store_defs)

text \<open>
  Claim C7, as stated, fails in its second half. The \<open>except Exception\<close> clause of each loop
  body raises the wrapped error, which leaves the loop and the method: the walk does not
  go on to the next entity. With the runtime services \<open>ssh\<close> and \<open>gre\<close>, a permanent store
  that holds neither and cannot save \<open>ssh\<close>, the method raises \<open>RT_TO_PERM_FAILED\<close> for
  \<open>ssh\<close> and leaves the store as it was: \<open>gre\<close>, which could have been saved, is still
  unknown to it.
\<close>

theorem runtimeToPermanent_stops_at_first_failure:
  "runtimeToPermanent (Some '':1.42'') faulty_daemon
     = (Raise (FirewallError RT_TO_PERM_FAILED
                 (''service '' @ quoted ''ssh'' @ '' : read-only file system'')), faulty_daemon)
   \<and> get_services (fw faulty_daemon) = [''ssh'', ''gre'']
   \<and> getServiceByName (config faulty_daemon) ''gre'' = Inl (FirewallError INVALID_SERVICE ''gre'')
   \<and> service_to_permanent (config faulty_daemon) ''gre'' (ServiceSettings [''gre''])
       = Inr ((config faulty_daemon)\<lparr>c_services := [(''gre'', ServiceSettings [''gre''])]\<rparr>)"
proof -
  have loop: "copy_loop ''service'' getServiceSettings service_to_permanent [''ssh'', ''gre''] faulty_daemon
      = (Raise (FirewallError RT_TO_PERM_FAILED
                 (''service '' @ quoted ''ssh'' @ '' : read-only file system'')), faulty_daemon)"
    by (simp add: faulty_daemon_facts)
  have "runtimeToPermanent (Some '':1.42'') faulty_daemon
     = (Raise (FirewallError RT_TO_PERM_FAILED
                 (''service '' @ quoted ''ssh'' @ '' : read-only file system'')), faulty_daemon)"
    unfolding runtimeToPermanent_def faulty_daemon_facts(1) loop by simp
  then show ?thesis by (simp add: faulty_daemon_facts)
qed

text \<open>
  Claim C7, amended. In \<open>runtimeToPermanent\<close> a failure while persisting one entity is
  wrapped in an \<open>RT_TO_PERM_FAILED\<close> error that carries the entity's kind and name, and is
  raised at once. The walk ends there: the state is the one left by the entities before
  the failing one, whatever follows it in the same category (first conjunct, for each of
  the three loops), and no later category is attempted (the other conjuncts: the error and
  the state of the first failing loop are those of the method).
\<close>

theorem runtimeToPermanent_fail_fast:
  "(copy_loop kind get persist pre s = (Return (), s1)
      \<and> get name s1 = Return conf
      \<and> persist (config s1) name conf = Inl e
    \<longrightarrow> copy_loop kind get persist (pre @ name # rest) s =
          (Raise (FirewallError RT_TO_PERM_FAILED
                    (kind @ '' '' @ quoted name @ '' : '' @ str_of_error e)), s1))
   \<and> (copy_loop ''service'' getServiceSettings service_to_permanent (get_services (fw s)) s
        = (Raise err, s')
    \<longrightarrow> runtimeToPermanent sender s = (Raise err, s'))
   \<and> (copy_loop ''service'' getServiceSettings service_to_permanent (get_services (fw s)) s
        = (Return (), sa)
      \<and> copy_loop ''icmptype'' getIcmpTypeSettings icmptype_to_permanent (get_icmptypes (fw sa)) sa
        = (Raise err, s')
    \<longrightarrow> runtimeToPermanent sender s = (Raise err, s'))
   \<and> (copy_loop ''service'' getServiceSettings service_to_permanent (get_services (fw s)) s
        = (Return (), sa)
      \<and> copy_loop ''icmptype'' getIcmpTypeSettings icmptype_to_permanent (get_icmptypes (fw sa)) sa
        = (Return (), sb)
      \<and> copy_loop ''zone'' getZoneSettings zone_to_permanent (get_zones (fw sb)) sb
        = (Raise err, s')
    \<longrightarrow> runtimeToPermanent sender s = (Raise err, s'))"
  by (auto simp: runtimeToPermanent_def copy_loop_fail_fast)

theorem runtimeToPermanent_fail_fast_witness:
  "copy_loop ''service'' getServiceSettings service_to_permanent ([] @ ''ssh'' # [''gre'']) faulty_daemon
     = (Raise (FirewallError RT_TO_PERM_FAILED
                 (''service '' @ quoted ''ssh'' @ '' : read-only file system'')), faulty_daemon)
   \<and> runtimeToPermanent (Some '':1.42'') faulty_daemon
     = (Raise (FirewallError RT_TO_PERM_FAILED
                 (''service '' @ quoted ''ssh'' @ '' : read-only file system'')), faulty_daemon)
   \<and> runtimeToPermanent (Some '':1.42'') faulty_icmptype_daemon
     = (Raise (FirewallError RT_TO_PERM_FAILED
                 (''icmptype '' @ quoted ''echo-request'' @ '' : read-only file system'')),
        faulty_icmptype_daemon)
   \<and> runtimeToPermanent (Some '':1.42'') faulty_zone_daemon
     = (Raise (FirewallError RT_TO_PERM_FAILED
                 (''zone '' @ quoted ''public'' @ '' : read-only file system'')),
        faulty_zone_daemon)"
proof -
  let ?e = "Exception ''read-only file system''"
  have h1: "copy_loop ''service'' getServiceSettings service_to_permanent [] faulty_daemon
              = (Return (), faulty_daemon)
            \<and> getServiceSettings ''ssh'' faulty_daemon = Return (ServiceSettings [''22/tcp''])
            \<and> service_to_permanent (config faulty_daemon) ''ssh'' (ServiceSettings [''22/tcp'']) = Inl ?e"
    by (simp add: faulty_daemon_facts)
  have a: "copy_loop ''service'' getServiceSettings service_to_permanent ([] @ ''ssh'' # [''gre'']) faulty_daemon
     = (Raise (FirewallError RT_TO_PERM_FAILED
                 (''service '' @ quoted ''ssh'' @ '' : '' @ str_of_error ?e)), faulty_daemon)"
    using runtimeToPermanent_fail_fast [THEN conjunct1, THEN mp, OF h1, of "[''gre'']"]
    by simp
  have h2: "copy_loop ''service'' getServiceSettings service_to_permanent
              (get_services (fw faulty_daemon)) faulty_daemon
     = (Raise (FirewallError RT_TO_PERM_FAILED
                 (''service '' @ quoted ''ssh'' @ '' : '' @ str_of_error ?e)), faulty_daemon)"
    using a by (simp add: faulty_daemon_facts(1))
  have b: "runtimeToPermanent (Some '':1.42'') faulty_daemon
     = (Raise (FirewallError RT_TO_PERM_FAILED
                 (''service '' @ quoted ''ssh'' @ '' : '' @ str_of_error ?e)), faulty_daemon)"
    by (rule runtimeToPermanent_fail_fast [THEN conjunct2, THEN conjunct1, THEN mp, OF h2])
  have h3: "copy_loop ''service'' getServiceSettings service_to_permanent
              (get_services (fw faulty_icmptype_daemon)) faulty_icmptype_daemon
              = (Return (), faulty_icmptype_daemon)
            \<and> copy_loop ''icmptype'' getIcmpTypeSettings icmptype_to_permanent
              (get_icmptypes (fw faulty_icmptype_daemon)) faulty_icmptype_daemon
              = (Raise (FirewallError RT_TO_PERM_FAILED
                 (''icmptype '' @ quoted ''echo-request'' @ '' : read-only file system'')),
                 faulty_icmptype_daemon)"
    using faulty_icmptype_daemon_facts by simp
  have c: "runtimeToPermanent (Some '':1.42'') faulty_icmptype_daemon
     = (Raise (FirewallError RT_TO_PERM_FAILED
                 (''icmptype '' @ quoted ''echo-request'' @ '' : read-only file system'')),
        faulty_icmptype_daemon)"
    by (rule runtimeToPermanent_fail_fast
        [THEN conjunct2, THEN conjunct2, THEN conjunct1, THEN mp, OF h3])
  have h4: "copy_loop ''service'' getServiceSettings service_to_permanent
              (get_services (fw faulty_zone_daemon)) faulty_zone_daemon
              = (Return (), faulty_zone_daemon)
            \<and> copy_loop ''icmptype'' getIcmpTypeSettings icmptype_to_permanent
              (get_icmptypes (fw faulty_zone_daemon)) faulty_zone_daemon
              = (Return (), faulty_zone_daemon)
            \<and> copy_loop ''zone'' getZoneSettings zone_to_permanent
              (get_zones (fw faulty_zone_daemon)) faulty_zone_daemon
              = (Raise (FirewallError RT_TO_PERM_FAILED
                 (''zone '' @ quoted ''public'' @ '' : read-only file system'')),
                 faulty_zone_daemon)"
    using faulty_zone_daemon_facts by simp
  have d: "runtimeToPermanent (Some '':1.42'') faulty_zone_daemon
     = (Raise (FirewallError RT_TO_PERM_FAILED
                 (''zone '' @ quoted ''public'' @ '' : read-only file system'')),
        faulty_zone_daemon)"
    by (rule runtimeToPermanent_fail_fast
        [THEN conjunct2, THEN conjunct2, THEN conjunct2, THEN mp, OF h4])
  show ?thesis using a b c d by simp
qed
subsection \<open>Runs\<close>

lemma timeout_tag_updates [simp]:
  "timeout_tag (s\<lparr>fw := f\<rparr>) = timeout_tag s"
  "timeout_tag (s\<lparr>glib_sources := g\<rparr>) = timeout_tag s"
  "timeout_tag (s\<lparr>next_tag := n\<rparr>) = timeout_tag s"
  "timeout_tag (s\<lparr>signals := sg\<rparr>) = timeout_tag s"
  "timeout_tag (s\<lparr>config := c\<rparr>) = timeout_tag s"
  "timeout_tag (source_remove t s) = timeout_tag s"
  by (simp_all add: timeout_tag_def fun_eq_iff source_remove_def)

lemma slot_of_timer_callback [simp]: "slot_of (timer_callback e z sender) = (z, timer_key e)"
proof (cases e)
  case (RichRule r)
  then show ?thesis by (cases r) simp
qed simp_all

text \<open>What a call of the add pattern does to the state.\<close>

lemma add_pattern_effect:
  assumes "add_pattern g e k cb sig zone T sender s = (r, s')"
  shows "s' = s
       \<or> (\<exists>z. check_zone (fw s) zone = Inr z \<and> r = Return z
            \<and> s' = emit (sig z)
                 (if 0 < T
                  then addTimeout z k (next_tag s)
                         (s\<lparr>fw := (fw s)\<lparr>zones := (zones (fw s))(z := insert e (zones (fw s) z))\<rparr>,
                            glib_sources := (glib_sources s)(next_tag s \<mapsto> (T, cb z)),
                            next_tag := Suc (next_tag s)\<rparr>)
                  else s\<lparr>fw := (fw s)\<lparr>zones := (zones (fw s))(z := insert e (zones (fw s) z))\<rparr>\<rparr>))"
proof (cases "if g then accessCheck sender s else Return ()")
  case (Raise err)
  with assms show ?thesis by (simp add: add_pattern_def)
next
  case (Return u)
  show ?thesis
  proof (cases "zone_add (fw s) zone e")
    case (Inl err)
    with assms Return show ?thesis by (simp add: add_pattern_def)
  next
    case (Inr p)
    obtain z f where p: "p = (z, f)" by (cases p)
    note zf = zone_add_Inr [OF Inr [unfolded p]]
    from assms Return Inr p
    have "r = Return z \<and> s' = emit (sig z)
                 (if 0 < T
                  then addTimeout z k (next_tag s)
                         (s\<lparr>fw := f, glib_sources := (glib_sources s)(next_tag s \<mapsto> (T, cb z)),
                            next_tag := Suc (next_tag s)\<rparr>)
                  else s\<lparr>fw := f\<rparr>)"
      by (auto simp: add_pattern_def timeout_add_seconds_def Let_def)
    with zf show ?thesis by auto
  qed
qed

lemma remove_pattern_effect:
  assumes "remove_pattern g e k sig zone sender s = (r, s')"
  shows "s' = s
       \<or> (\<exists>z. check_zone (fw s) zone = Inr z \<and> r = Return z
            \<and> s' = emit (sig z) (removeTimeout z k
                 (s\<lparr>fw := (fw s)\<lparr>zones := (zones (fw s))(z := zones (fw s) z - {e})\<rparr>\<rparr>)))"
proof (cases "if g then accessCheck sender s else Return ()")
  case (Raise err)
  with assms show ?thesis by (simp add: remove_pattern_def)
next
  case (Return u)
  show ?thesis
  proof (cases "zone_remove (fw s) zone e")
    case (Inl err)
    with assms Return show ?thesis by (simp add: remove_pattern_def)
  next
    case (Inr p)
    obtain z f where p: "p = (z, f)" by (cases p)
    note zf = zone_remove_Inr [OF Inr [unfolded p]]
    from assms Return Inr p
    have "r = Return z \<and> s' = emit (sig z) (removeTimeout z k (s\<lparr>fw := f\<rparr>))"
      by (auto simp: remove_pattern_def)
    with zf show ?thesis by auto
  qed
qed

lemma disable_pattern_effect:
  assumes "disable_pattern e k sig z s = (r, s')"
  shows "s' = s
       \<or> (\<exists>d. del_timeout z k s = Inr d
            \<and> (s' = d
               \<or> (\<exists>z'. check_zone (fw s) z = Inr z'
                    \<and> s' = emit sig (d\<lparr>fw := (fw s)\<lparr>zones := (zones (fw s))(z' := zones (fw s) z' - {e})\<rparr>\<rparr>))))"
proof (cases "del_timeout z k s")
  case (Inl err)
  with assms show ?thesis by (simp add: disable_pattern_def)
next
  case (Inr d)
  note del = Inr
  have dfw: "fw d = fw s"
    using del by (auto simp: del_timeout_def split: option.splits)
  show ?thesis
  proof (cases "zone_remove (fw d) z e")
    case (Inl err)
    with assms del show ?thesis by (simp add: disable_pattern_def)
  next
    case (Inr p)
    obtain z' f where p: "p = (z', f)" by (cases p)
    note zf = zone_remove_Inr [OF Inr [unfolded p]]
    from assms del Inr p have "s' = emit sig (d\<lparr>fw := f\<rparr>)"
      by (simp add: disable_pattern_def)
    with zf del dfw show ?thesis by auto
  qed
qed

lemma binding_methods_effect:
  "\<exists>f sg. snd (addInterface zone i sender s) = s\<lparr>fw := f, signals := sg\<rparr>
      \<and> zones f = zones (fw s) \<and> check_zone f = check_zone (fw s) \<and> policies f = policies (fw s)"
  "\<exists>f sg. snd (changeZoneOfInterface zone i sender s) = s\<lparr>fw := f, signals := sg\<rparr>
      \<and> zones f = zones (fw s) \<and> check_zone f = check_zone (fw s) \<and> policies f = policies (fw s)"
  "\<exists>f sg. snd (removeInterface zone i sender s) = s\<lparr>fw := f, signals := sg\<rparr>
      \<and> zones f = zones (fw s) \<and> check_zone f = check_zone (fw s) \<and> policies f = policies (fw s)"
  "\<exists>f sg. snd (addSource zone x sender s) = s\<lparr>fw := f, signals := sg\<rparr>
      \<and> zones f = zones (fw s) \<and> check_zone f = check_zone (fw s) \<and> policies f = policies (fw s)"
  "\<exists>f sg. snd (changeZoneOfSource zone x sender s) = s\<lparr>fw := f, signals := sg\<rparr>
      \<and> zones f = zones (fw s) \<and> check_zone f = check_zone (fw s) \<and> policies f = policies (fw s)"
  "\<exists>f sg. snd (removeSource zone x sender s) = s\<lparr>fw := f, signals := sg\<rparr>
      \<and> zones f = zones (fw s) \<and> check_zone f = check_zone (fw s) \<and> policies f = policies (fw s)"
proof -
  have same: "\<exists>f sg. s = s\<lparr>fw := f, signals := sg\<rparr>
      \<and> zones f = zones (fw s) \<and> check_zone f = check_zone (fw s) \<and> policies f = policies (fw s)"
    by (rule exI [of _ "fw s"], rule exI [of _ "signals s"]) simp
  have upd: "\<exists>f sg. emit sig (s\<lparr>fw := (fw s)\<lparr>bound_interfaces := b\<rparr>\<rparr>) = s\<lparr>fw := f, signals := sg\<rparr>
      \<and> zones f = zones (fw s) \<and> check_zone f = check_zone (fw s) \<and> policies f = policies (fw s)" for sig b
    by (rule exI [of _ "(fw s)\<lparr>bound_interfaces := b\<rparr>"], rule exI [of _ "signals s @ [sig]"])
       (simp add: emit_def check_zone_def fun_eq_iff)
  have upd2: "\<exists>f sg. emit sig2 (emit sig (s\<lparr>fw := (fw s)\<lparr>bound_interfaces := b\<rparr>\<rparr>)) = s\<lparr>fw := f, signals := sg\<rparr>
      \<and> zones f = zones (fw s) \<and> check_zone f = check_zone (fw s) \<and> policies f = policies (fw s)" for sig sig2 b
    by (rule exI [of _ "(fw s)\<lparr>bound_interfaces := b\<rparr>"], rule exI [of _ "signals s @ [sig, sig2]"])
       (simp add: emit_def check_zone_def fun_eq_iff)
  have upd': "\<exists>f sg. emit sig (s\<lparr>fw := (fw s)\<lparr>bound_sources := b\<rparr>\<rparr>) = s\<lparr>fw := f, signals := sg\<rparr>
      \<and> zones f = zones (fw s) \<and> check_zone f = check_zone (fw s) \<and> policies f = policies (fw s)" for sig b
    by (rule exI [of _ "(fw s)\<lparr>bound_sources := b\<rparr>"], rule exI [of _ "signals s @ [sig]"])
       (simp add: emit_def check_zone_def fun_eq_iff)
  show "\<exists>f sg. snd (addInterface zone i sender s) = s\<lparr>fw := f, signals := sg\<rparr>
      \<and> zones f = zones (fw s) \<and> check_zone f = check_zone (fw s) \<and> policies f = policies (fw s)"
    using same upd
    by (simp add: addInterface_def add_interface_def split: outcome.splits sum.splits prod.splits)
  show "\<exists>f sg. snd (changeZoneOfInterface zone i sender s) = s\<lparr>fw := f, signals := sg\<rparr>
      \<and> zones f = zones (fw s) \<and> check_zone f = check_zone (fw s) \<and> policies f = policies (fw s)"
    using same upd2
    by (simp add: changeZoneOfInterface_def change_zone_of_interface_def zoneOfInterfaceChanged_def
        split: outcome.splits sum.splits prod.splits)
  show "\<exists>f sg. snd (removeInterface zone i sender s) = s\<lparr>fw := f, signals := sg\<rparr>
      \<and> zones f = zones (fw s) \<and> check_zone f = check_zone (fw s) \<and> policies f = policies (fw s)"
    using same upd
    by (simp add: removeInterface_def remove_interface_def split: outcome.splits sum.splits prod.splits)
  show "\<exists>f sg. snd (addSource zone x sender s) = s\<lparr>fw := f, signals := sg\<rparr>
      \<and> zones f = zones (fw s) \<and> check_zone f = check_zone (fw s) \<and> policies f = policies (fw s)"
    using same upd'
    by (simp add: addSource_def add_source_def split: outcome.splits sum.splits prod.splits)
  show "\<exists>f sg. snd (changeZoneOfSource zone x sender s) = s\<lparr>fw := f, signals := sg\<rparr>
      \<and> zones f = zones (fw s) \<and> check_zone f = check_zone (fw s) \<and> policies f = policies (fw s)"
    using same upd'
    by (simp add: changeZoneOfSource_def change_zone_of_source_def split: outcome.splits sum.splits prod.splits)
  show "\<exists>f sg. snd (removeSource zone x sender s) = s\<lparr>fw := f, signals := sg\<rparr>
      \<and> zones f = zones (fw s) \<and> check_zone f = check_zone (fw s) \<and> policies f = policies (fw s)"
    using same upd'
    by (simp add: removeSource_def remove_source_def split: outcome.splits sum.splits prod.splits)
qed


lemma resolves_self_zones_update [simp]: "resolves_self (f\<lparr>zones := x\<rparr>) z = resolves_self f z"
  by (simp add: resolves_self_def)

lemma resolves_self_idem: "check_zone f zone = Inr z \<Longrightarrow> resolves_self f z"
  by (simp add: resolves_self_def check_zone_idem)

lemma linked_frame:
  assumes "timer_linked s e z tag T sender"
    and "check_zone (fw s') = check_zone (fw s)" and "zones (fw s') = zones (fw s)"
    and "glib_sources s' = glib_sources s" and "next_tag s' = next_tag s"
    and "timeout_tag s' = timeout_tag s"
  shows "timer_linked s' e z tag T sender"
  using assms by (simp add: timer_linked_def resolves_self_def)

lemma linked_add:
  assumes L: "timer_linked s e z tag T sender"
    and q: "0 < T' \<and> timer_key e' = timer_key e \<longrightarrow> fst (add_entry e' zone T' sender' s) \<noteq> Return z"
  shows "timer_linked (snd (add_entry e' zone T' sender' s)) e z tag T sender"
proof -
  obtain r s' where res: "add_entry e' zone T' sender' s = (r, s')"
    by (cases "add_entry e' zone T' sender' s")
  let ?F = "\<lambda>z'. (fw s)\<lparr>zones := (zones (fw s))(z' := insert e' (zones (fw s) z'))\<rparr>"
  from add_pattern_effect [OF res [unfolded add_entry_pattern]]
  consider "s' = s"
    | z' where "check_zone (fw s) zone = Inr z'" "\<not> 0 < T'"
        "s' = emit (added_signal e' z' T') (s\<lparr>fw := ?F z'\<rparr>)"
    | z' where "check_zone (fw s) zone = Inr z'" "0 < T'" "r = Return z'"
        "s' = emit (added_signal e' z' T') (addTimeout z' (timer_key e') (next_tag s)
                 (s\<lparr>fw := ?F z',
                    glib_sources := (glib_sources s)(next_tag s \<mapsto> (T', timer_callback e' z' sender')),
                    next_tag := Suc (next_tag s)\<rparr>))"
    by (cases "0 < T'") auto
  then have "timer_linked s' e z tag T sender"
  proof cases
    case 1
    with L show ?thesis by simp
  next
    case 2
    from L show ?thesis
      by (auto simp: timer_linked_def 2(3) emit_frame)
  next
    case 3
    note rs = resolves_self_idem [OF 3(1)]
    from L have lt: "tag < next_tag s" by (simp add: timer_linked_def)
    from q 3(2,3) have k: "z' = z \<Longrightarrow> timer_key e' \<noteq> timer_key e" by (auto simp: res)
    from L k rs lt show ?thesis
      by (auto simp: timer_linked_def 3(4) emit_frame addTimeout_frame timeout_tag_addTimeout)
  qed
  then show ?thesis by (simp add: res)
qed

lemma linked_remove:
  assumes L: "timer_linked s e z tag T sender"
    and q: "timer_key e' = timer_key e \<longrightarrow> fst (remove_entry e' zone sender' s) \<noteq> Return z"
  shows "timer_linked (snd (remove_entry e' zone sender' s)) e z tag T sender"
proof -
  obtain r s' where res: "remove_entry e' zone sender' s = (r, s')"
    by (cases "remove_entry e' zone sender' s")
  from remove_pattern_effect [OF res [unfolded remove_entry_pattern]]
  consider "s' = s"
    | z' where "check_zone (fw s) zone = Inr z'" "r = Return z'"
        "s' = emit (removed_signal e' z') (removeTimeout z' (timer_key e')
                 (s\<lparr>fw := (fw s)\<lparr>zones := (zones (fw s))(z' := zones (fw s) z' - {e'})\<rparr>\<rparr>))"
    by auto
  then have "timer_linked s' e z tag T sender"
  proof cases
    case 1
    with L show ?thesis by simp
  next
    case 2
    from q 2(2) have k: "z' = z \<Longrightarrow> timer_key e' \<noteq> timer_key e" by (auto simp: res)
    then have ne: "z' = z \<Longrightarrow> e' \<noteq> e" by auto
    from L k ne show ?thesis
      by (auto simp: timer_linked_def 2(3) emit_frame removeTimeout_frame timeout_tag_removeTimeout
          glib_sources_removeTimeout split: option.splits if_splits)
  qed
  then show ?thesis by (simp add: res)
qed


lemma del_timeout_Inr:
  assumes "del_timeout z k s = Inr d"
  shows "fw d = fw s" and "glib_sources d = glib_sources s" and "next_tag d = next_tag s"
    and "signals d = signals s" and "system_bus d = system_bus s"
    and "timeout_tag d z' k' = (if z' = z \<and> k' = k then None else timeout_tag s z' k')"
proof -
  from assms obtain tag where tag: "timeout_tag s z k = Some tag"
    by (cases "timeout_tag s z k") (auto simp: del_timeout_None)
  from del_timeout_Some [OF tag] assms
  show "fw d = fw s" and "glib_sources d = glib_sources s" and "next_tag d = next_tag s"
    and "signals d = signals s" and "system_bus d = system_bus s"
    and "timeout_tag d z' k' = (if z' = z \<and> k' = k then None else timeout_tag s z' k')"
    by auto
qed

lemma linked_expire:
  assumes L: "timer_linked s e z tag T sender" and t: "t \<noteq> tag"
  shows "timer_linked (timer_fires t s) e z tag T sender"
proof (cases "glib_sources s t")
  case None
  with L show ?thesis by (simp add: timer_fires_def)
next
  case (Some p)
  obtain interval cb where p: "p = (interval, cb)" by (cases p)
  obtain e' z0 sender' where cb: "cb = timer_callback e' z0 sender'"
    using callback_is_timer_callback by blast
  from L have others: "\<And>t interval cb. glib_sources s t = Some (interval, cb) \<Longrightarrow>
      resolves_self (fw s) (fst (slot_of cb)) \<and> (t \<noteq> tag \<longrightarrow> slot_of cb \<noteq> (z, timer_key e))"
    unfolding timer_linked_def by blast
  from others [OF Some [unfolded p cb]] t have rs: "resolves_self (fw s) z0"
    and slot: "(z0, timer_key e') \<noteq> (z, timer_key e)"
    by simp_all
  obtain r s'' where run: "run_callback cb s = (r, s'')" by (cases "run_callback cb s")
  have fires: "timer_fires t s = source_remove t s''"
    by (simp add: timer_fires_def Some p run)
  let ?gone = "(fw s)\<lparr>zones := (zones (fw s))(z0 := zones (fw s) z0 - {e'})\<rparr>"
  from disable_pattern_effect [OF run [unfolded cb run_callback_pattern]] rs
  consider "s'' = s"
    | d where "del_timeout z0 (timer_key e') s = Inr d" "s'' = d"
    | d where "del_timeout z0 (timer_key e') s = Inr d"
        "s'' = emit (removed_signal e' z0) (d\<lparr>fw := ?gone\<rparr>)"
    by (auto simp: resolves_self_def)
  then have "timer_linked (source_remove t s'') e z tag T sender"
  proof cases
    case 1
    from L t show ?thesis
      by (auto simp: timer_linked_def 1 source_remove_def)
  next
    case 2
    note d = del_timeout_Inr [OF 2(1)]
    from L t slot show ?thesis
      by (auto simp: timer_linked_def 2(2) source_remove_def d)
  next
    case 3
    note d = del_timeout_Inr [OF 3(1)]
    from slot have ne: "z0 = z \<Longrightarrow> e' \<noteq> e" by auto
    from L t slot ne show ?thesis
      by (auto simp: timer_linked_def 3(2) source_remove_def emit_frame d timeout_tag_def [of "emit _ _"]
          emit_def)
  qed
  then show ?thesis by (simp add: fires)
qed


lemma same_frame_refl: "same_frame s s"
  by (simp add: same_frame_def)

lemma same_frame_trans: "same_frame s s' \<Longrightarrow> same_frame s' s'' \<Longrightarrow> same_frame s s''"
  by (simp add: same_frame_def)

lemma step_frame: "same_frame s (step ev s)"
proof (cases ev)
  case (Call c zone sender)
  have bind: "same_frame s s'"
    if "\<exists>f sg. s' = s\<lparr>fw := f, signals := sg\<rparr>
          \<and> zones f = zones (fw s) \<and> check_zone f = check_zone (fw s) \<and> policies f = policies (fw s)"
    for s'
    using that by (auto simp: same_frame_def)
  show ?thesis
  proof (cases c)
    case (Add e' T')
    obtain r s' where res: "add_entry e' zone T' sender s = (r, s')"
      by (cases "add_entry e' zone T' sender s")
    from add_pattern_effect [OF res [unfolded add_entry_pattern]]
    have "same_frame s s'"
      by (auto simp: same_frame_def emit_frame addTimeout_frame)
    then show ?thesis by (simp add: Call Add res)
  next
    case (Remove e')
    obtain r s' where res: "remove_entry e' zone sender s = (r, s')"
      by (cases "remove_entry e' zone sender s")
    from remove_pattern_effect [OF res [unfolded remove_entry_pattern]]
    have "same_frame s s'"
      by (auto simp: same_frame_def emit_frame removeTimeout_frame)
    then show ?thesis by (simp add: Call Remove res)
  qed (auto simp: Call changeZone_def intro!: bind binding_methods_effect)
next
  case (Expire t)
  show ?thesis
  proof (cases "glib_sources s t")
    case None
    then show ?thesis by (simp add: Expire timer_fires_def same_frame_refl)
  next
    case (Some p)
    obtain interval cb where p: "p = (interval, cb)" by (cases p)
    obtain e' z0 sender' where cb: "cb = timer_callback e' z0 sender'"
      using callback_is_timer_callback by blast
    obtain r s'' where run: "run_callback cb s = (r, s'')" by (cases "run_callback cb s")
    from disable_pattern_effect [OF run [unfolded cb run_callback_pattern]]
    have "same_frame s (source_remove t s'')"
      by (auto simp: same_frame_def source_remove_def emit_frame del_timeout_Inr)
    then show ?thesis by (simp add: Expire timer_fires_def Some p run)
  qed
qed

lemma linked_step:
  assumes L: "timer_linked s e z tag T sender" and q: "quiet s e z tag ev"
  shows "timer_linked (step ev s) e z tag T sender"
proof (cases ev)
  case (Call c zone sender')
  have bind: "timer_linked s' e z tag T sender"
    if "\<exists>f sg. s' = s\<lparr>fw := f, signals := sg\<rparr>
          \<and> zones f = zones (fw s) \<and> check_zone f = check_zone (fw s) \<and> policies f = policies (fw s)"
    for s'
    using that by (auto intro!: linked_frame [OF L])
  show ?thesis
  proof (cases c)
    case (Add e' T')
    with q Call show ?thesis by (simp add: linked_add [OF L])
  next
    case (Remove e')
    with q Call show ?thesis by (simp add: linked_remove [OF L])
  qed (auto simp: Call changeZone_def intro!: bind binding_methods_effect)
next
  case (Expire t)
  with q show ?thesis by (simp add: linked_expire [OF L])
qed

lemma linked_run:
  assumes "timer_linked s e z tag T sender" and "undisturbed e z tag evs s"
  shows "timer_linked (run evs s) e z tag T sender \<and> same_frame s (run evs s)"
  using assms
proof (induction evs arbitrary: s)
  case Nil
  then show ?case by (simp add: run_def same_frame_refl)
next
  case (Cons ev evs)
  from Cons.prems have q: "quiet s e z tag ev" and qs: "undisturbed e z tag evs (step ev s)"
    by simp_all
  have run: "run (ev # evs) s = run evs (step ev s)" by (simp add: run_def)
  from Cons.IH [OF linked_step [OF Cons.prems(1) q] qs] step_frame [of s ev]
  show ?case unfolding run by (blast intro: same_frame_trans)
qed

lemma add_links:
  assumes add: "add_entry e zone T sender s = (Return z, s1)" and T: "0 < T"
    and fresh: "no_timer_for s z (timer_key e)"
  shows "timer_linked s1 e z (next_tag s) T sender"
proof -
  from add have pat: "add_pattern (gated e) e (timer_key e) (\<lambda>z. timer_callback e z sender)
       (\<lambda>z. added_signal e z T) zone T sender s = (Return z, s1)"
    by (simp add: add_entry_pattern)
  note a = add_pattern_timed [OF pat T]
  have czz: "check_zone (fw s) z = Inr z" by (rule check_zone_idem [OF a(1)])
  from fresh have old: "\<And>t interval cb. glib_sources s t = Some (interval, cb) \<Longrightarrow>
        t < next_tag s \<and> slot_of cb \<noteq> (z, timer_key e) \<and> resolves_self (fw s) (fst (slot_of cb))"
    and tab: "\<And>z' k' t. timeout_tag s z' k' = Some t \<Longrightarrow> t < next_tag s"
    unfolding no_timer_for_def timers_wf_def by blast+
  have 1: "check_zone (fw s1) z = Inr z" by (simp add: a(3) czz)
  have 2: "e \<in> zones (fw s1) z" by (simp add: a(3))
  have 3: "glib_sources s1 (next_tag s) = Some (T, timer_callback e z sender)" by (simp add: a(5))
  have 4: "next_tag s < next_tag s1" by (simp add: a(9))
  have 5: "(timeout_tag s1 z' k' = Some (next_tag s)) = (z' = z \<and> k' = timer_key e)" for z' k'
    using tab [of z' k' "next_tag s"] by (auto simp: a(4))
  have 6: "resolves_self (fw s1) (fst (slot_of cb))
           \<and> (t \<noteq> next_tag s \<longrightarrow> slot_of cb \<noteq> (z, timer_key e))"
    if "glib_sources s1 t = Some (interval, cb)" for t interval cb
  proof (cases "t = next_tag s")
    case True
    with that have "cb = timer_callback e z sender" by (simp add: a(5))
    with True czz show ?thesis by (simp add: a(3) resolves_self_def)
  next
    case False
    with that have "glib_sources s t = Some (interval, cb)" by (simp add: a(5))
    from old [OF this] show ?thesis by (simp add: a(3))
  qed
  show ?thesis
    unfolding timer_linked_def using 1 2 3 4 5 6 by blast
qed


text \<open>A source that is gone stays gone: new sources get new ids.\<close>

lemma dead_source_step:
  assumes gone: "glib_sources s tag = None" and lt: "tag < next_tag s"
  shows "glib_sources (step ev s) tag = None \<and> tag < next_tag (step ev s)"
proof (cases ev)
  case (Call c zone sender)
  have bind: "glib_sources s' tag = None \<and> tag < next_tag s'"
    if "\<exists>f sg. s' = s\<lparr>fw := f, signals := sg\<rparr>
          \<and> zones f = zones (fw s) \<and> check_zone f = check_zone (fw s) \<and> policies f = policies (fw s)"
    for s'
    using that gone lt by auto
  show ?thesis
  proof (cases c)
    case (Add e' T')
    obtain r s' where res: "add_entry e' zone T' sender s = (r, s')"
      by (cases "add_entry e' zone T' sender s")
    from add_pattern_effect [OF res [unfolded add_entry_pattern]] gone lt
    have "glib_sources s' tag = None \<and> tag < next_tag s'"
      by (auto simp: emit_frame addTimeout_frame split: if_splits)
    then show ?thesis by (simp add: Call Add res)
  next
    case (Remove e')
    obtain r s' where res: "remove_entry e' zone sender s = (r, s')"
      by (cases "remove_entry e' zone sender s")
    from remove_pattern_effect [OF res [unfolded remove_entry_pattern]] gone lt
    have "glib_sources s' tag = None \<and> tag < next_tag s'"
      by (auto simp: emit_frame removeTimeout_frame glib_sources_removeTimeout split: option.splits)
    then show ?thesis by (simp add: Call Remove res)
  qed (auto simp: Call changeZone_def intro!: bind binding_methods_effect)
next
  case (Expire t)
  show ?thesis
  proof (cases "glib_sources s t")
    case None
    with gone lt show ?thesis by (simp add: Expire timer_fires_def)
  next
    case (Some p)
    obtain interval cb where p: "p = (interval, cb)" by (cases p)
    obtain e' z0 sender' where cb: "cb = timer_callback e' z0 sender'"
      using callback_is_timer_callback by blast
    obtain r s'' where run: "run_callback cb s = (r, s'')" by (cases "run_callback cb s")
    from disable_pattern_effect [OF run [unfolded cb run_callback_pattern]] gone lt
    have "glib_sources (source_remove t s'') tag = None \<and> tag < next_tag (source_remove t s'')"
      by (auto simp: source_remove_def emit_frame del_timeout_Inr)
    then show ?thesis by (simp add: Expire timer_fires_def Some p run)
  qed
qed

lemma dead_source_run:
  assumes "glib_sources s tag = None" and "tag < next_tag s"
  shows "glib_sources (run evs s) tag = None \<and> tag < next_tag (run evs s)"
  using assms
proof (induction evs arbitrary: s)
  case Nil
  then show ?case by (simp add: run_def)
next
  case (Cons ev evs)
  have run: "run (ev # evs) s = run evs (step ev s)" by (simp add: run_def)
  from dead_source_step [OF Cons.prems, of ev]
  have "glib_sources (step ev s) tag = None" and "tag < next_tag (step ev s)" by simp_all
  from Cons.IH [OF this] show ?case by (simp add: run)
qed

text \<open>What the expiry and the manual removal do in a state where the entry is enabled and
  its timer is attached and filed under its key.\<close>

lemma timer_effects:
  assumes cz: "check_zone (fw s) zone = Inr z" and mem: "e \<in> zones (fw s) z"
    and tagk: "timeout_tag s z (timer_key e) = Some tag"
    and src: "glib_sources s tag = Some (T, timer_callback e z sender)"
    and lt: "tag < next_tag s"
    and ac: "gated e \<Longrightarrow> accessCheck sender s = Return ()"
  shows "query_entry e z s
       \<and> \<not> query_entry e z (timer_fires tag s)
       \<and> fw (timer_fires tag s) = (fw s)\<lparr>zones := (zones (fw s))(z := zones (fw s) z - {e})\<rparr>
       \<and> timeout_tag (timer_fires tag s) z (timer_key e) = None
       \<and> glib_sources (timer_fires tag s) tag = None
       \<and> signals (timer_fires tag s) = signals s @ [removed_signal e z]
       \<and> (\<exists>s3. remove_entry e zone sender s = (Return z, s3)
             \<and> \<not> query_entry e z s3
             \<and> timeout_tag s3 z (timer_key e) = None
             \<and> signals s3 = signals s @ [removed_signal e z]
             \<and> (\<forall>later. glib_sources (run later s3) tag = None))"
proof -
  let ?k = "timer_key e"
  let ?gone = "(fw s)\<lparr>zones := (zones (fw s))(z := zones (fw s) z - {e})\<rparr>"
  have czz: "check_zone (fw s) z = Inr z" by (rule check_zone_idem [OF cz])
  have q: "query_entry e z s"
    by (simp add: query_entry_zone_query zone_query_def czz mem)
  \<comment> \<open>expiry\<close>
  from del_timeout_Some [OF tagk] obtain d where d: "del_timeout z ?k s = Inr d"
    and dfw: "fw d = fw s" and dsig: "signals d = signals s"
    and dsrc: "glib_sources d = glib_sources s"
    and dtag: "\<And>zone' x'. timeout_tag d zone' x' =
              (if zone' = z \<and> x' = ?k then None else timeout_tag s zone' x')"
    by blast
  have zr: "zone_remove (fw s) z e = Inr (z, ?gone)"
    by (simp add: zone_remove_def czz mem)
  have run: "run_callback (timer_callback e z sender) s
               = (Return (), emit (removed_signal e z) (d\<lparr>fw := ?gone\<rparr>))"
    by (simp add: run_callback_pattern disable_pattern_def d dfw zr)
  have fires: "timer_fires tag s = source_remove tag (emit (removed_signal e z) (d\<lparr>fw := ?gone\<rparr>))"
    by (simp add: timer_fires_def src run)
  have f1: "fw (timer_fires tag s) = ?gone"
    by (simp add: fires source_remove_def emit_frame)
  have f2: "\<not> query_entry e z (timer_fires tag s)"
    by (simp add: query_entry_zone_query zone_query_def f1 czz)
  have f3: "timeout_tag (timer_fires tag s) z ?k = None"
    using dtag [of z ?k] by (simp add: fires source_remove_def emit_def timeout_tag_def)
  have f4: "glib_sources (timer_fires tag s) tag = None"
    by (simp add: fires source_remove_def)
  have f5: "signals (timer_fires tag s) = signals s @ [removed_signal e z]"
    by (simp add: fires source_remove_def emit_frame dsig)
  \<comment> \<open>manual removal\<close>
  have zr': "zone_remove (fw s) zone e = Inr (z, ?gone)"
    by (simp add: zone_remove_def cz mem)
  define s3 where "s3 = emit (removed_signal e z) (removeTimeout z ?k (s\<lparr>fw := ?gone\<rparr>))"
  have rem: "remove_entry e zone sender s = (Return z, s3)"
    using ac by (cases "gated e") (simp_all add: remove_entry_pattern remove_pattern_def zr' s3_def)
  have r1: "\<not> query_entry e z s3"
    by (simp add: query_entry_zone_query zone_query_def s3_def emit_frame removeTimeout_frame czz)
  have r2: "timeout_tag s3 z ?k = None"
    by (simp add: s3_def emit_frame timeout_tag_removeTimeout)
  have r3: "glib_sources s3 tag = None"
    by (simp add: s3_def emit_frame glib_sources_removeTimeout tagk)
  have r4: "tag < next_tag s3"
    using lt by (simp add: s3_def emit_frame removeTimeout_frame)
  have r5: "signals s3 = signals s @ [removed_signal e z]"
    by (simp add: s3_def emit_frame removeTimeout_frame)
  have r6: "\<forall>later. glib_sources (run later s3) tag = None"
    using dead_source_run [OF r3 r4] by simp
  show ?thesis
    using q f1 f2 f3 f4 f5 rem r1 r2 r5 r6 by blast
qed

text \<open>Every event keeps the timers well formed, and the daemon starts with none.\<close>

lemma timers_wf_step:
  assumes wf: "timers_wf s"
  shows "timers_wf (step ev s)"
proof (cases ev)
  case (Call c zone sender)
  have bind: "timers_wf s'"
    if "\<exists>f sg. s' = s\<lparr>fw := f, signals := sg\<rparr>
          \<and> zones f = zones (fw s) \<and> check_zone f = check_zone (fw s) \<and> policies f = policies (fw s)"
    for s'
    using that wf by (auto simp: timers_wf_def resolves_self_def)
  show ?thesis
  proof (cases c)
    case (Add e' T')
    obtain r s' where res: "add_entry e' zone T' sender s = (r, s')"
      by (cases "add_entry e' zone T' sender s")
    let ?F = "\<lambda>z'. (fw s)\<lparr>zones := (zones (fw s))(z' := insert e' (zones (fw s) z'))\<rparr>"
    from add_pattern_effect [OF res [unfolded add_entry_pattern]]
    consider "s' = s"
      | z' where "check_zone (fw s) zone = Inr z'" "\<not> 0 < T'"
          "s' = emit (added_signal e' z' T') (s\<lparr>fw := ?F z'\<rparr>)"
      | z' where "check_zone (fw s) zone = Inr z'" "0 < T'"
          "s' = emit (added_signal e' z' T') (addTimeout z' (timer_key e') (next_tag s)
                   (s\<lparr>fw := ?F z',
                      glib_sources := (glib_sources s)(next_tag s \<mapsto> (T', timer_callback e' z' sender)),
                      next_tag := Suc (next_tag s)\<rparr>))"
      by (cases "0 < T'") auto
    then have "timers_wf s'"
    proof cases
      case 1
      with wf show ?thesis by simp
    next
      case 2
      from wf show ?thesis
        by (auto simp: timers_wf_def 2(3) emit_frame)
    next
      case 3
      note rs = resolves_self_idem [OF 3(1)]
      from wf rs show ?thesis
        by (auto simp: timers_wf_def 3(3) emit_frame addTimeout_frame timeout_tag_addTimeout
            less_Suc_eq split: if_splits)
    qed
    then show ?thesis by (simp add: Call Add res)
  next
    case (Remove e')
    obtain r s' where res: "remove_entry e' zone sender s = (r, s')"
      by (cases "remove_entry e' zone sender s")
    from remove_pattern_effect [OF res [unfolded remove_entry_pattern]] wf
    have "timers_wf s'"
      by (auto simp: timers_wf_def emit_frame removeTimeout_frame timeout_tag_removeTimeout
          glib_sources_removeTimeout split: option.splits if_splits)
    then show ?thesis by (simp add: Call Remove res)
  qed (auto simp: Call changeZone_def intro!: bind binding_methods_effect)
next
  case (Expire t)
  show ?thesis
  proof (cases "glib_sources s t")
    case None
    with wf show ?thesis by (simp add: Expire timer_fires_def)
  next
    case (Some p)
    obtain interval cb where p: "p = (interval, cb)" by (cases p)
    obtain e' z0 sender' where cb: "cb = timer_callback e' z0 sender'"
      using callback_is_timer_callback by blast
    obtain r s'' where run: "run_callback cb s = (r, s'')" by (cases "run_callback cb s")
    from disable_pattern_effect [OF run [unfolded cb run_callback_pattern]]
    consider "s'' = s"
      | d where "del_timeout z0 (timer_key e') s = Inr d" "s'' = d"
      | d z' where "del_timeout z0 (timer_key e') s = Inr d"
          "s'' = emit (removed_signal e' z0)
                   (d\<lparr>fw := (fw s)\<lparr>zones := (zones (fw s))(z' := zones (fw s) z' - {e'})\<rparr>\<rparr>)"
      by auto
    then have "timers_wf (source_remove t s'')"
    proof cases
      case 1
      from wf show ?thesis
        by (auto simp: timers_wf_def 1 source_remove_def split: if_splits)
    next
      case 2
      note d = del_timeout_Inr [OF 2(1)]
      from wf show ?thesis
        by (auto simp: timers_wf_def 2(2) source_remove_def d split: if_splits)
    next
      case 3
      note d = del_timeout_Inr [OF 3(1)]
      from wf show ?thesis
        by (auto simp: timers_wf_def 3(2) source_remove_def emit_frame d split: if_splits)
    qed
    then show ?thesis by (simp add: Expire timer_fires_def Some p run)
  qed
qed

lemma timers_wf_run: "timers_wf s \<Longrightarrow> timers_wf (run evs s)"
proof (induction evs arbitrary: s)
  case Nil
  then show ?case by (simp add: run_def)
next
  case (Cons ev evs)
  have run: "run (ev # evs) s = run evs (step ev s)" by (simp add: run_def)
  from Cons.IH [OF timers_wf_step [OF Cons.prems]] show ?case by (simp add: run)
qed

lemma timers_wf_no_timers:
  "glib_sources s = (\<lambda>t. None) \<Longrightarrow> timeouts s = [] \<Longrightarrow> timers_wf s"
  by (simp add: timers_wf_def timeout_tag_def)

lemma timers_wf_reachable: "timers_wf (run evs start_daemon)"
  by (rule timers_wf_run [OF timers_wf_no_timers]) (simp_all add: start_daemon_def)

lemma other_events_signals:
  "signals after_other_events =
     [PortAdded ''public'' ''80'' ''tcp'' 2, ServiceAdded ''work'' ''ssh'' 5,
      PortAdded ''work'' ''80'' ''tcp'' 5, InterfaceAdded ''public'' ''eth0'',
      ServiceRemoved ''work'' ''ssh'', PortRemoved ''work'' ''80'' ''tcp'']"
  by code_simp

lemma other_events_undisturbed:
  "undisturbed (Port ''80'' ''tcp'') ''public'' 1 other_events after_addPort"
  by code_simp

lemma after_addProtocol_expiries:
  "queryProtocol ''public'' ''gre'' (timer_fires 2 (timer_fires 1 after_addProtocol))"
  "fst (disableTimedProtocol ''public'' ''gre'' (timer_fires 1 after_addProtocol)) = Raise KeyError"
  "timeout_tag (timer_fires 1 after_addProtocol) ''public'' (KStr ''gre'') = None"
  "glib_sources (timer_fires 1 after_addProtocol) 2 = Some (10, DisableTimedProtocol ''public'' ''gre'')"
  "glib_sources (timer_fires 2 (timer_fires 1 after_addProtocol)) 2 = None"
  "signals (timer_fires 2 (timer_fires 1 after_addProtocol)) =
     [ServiceAdded ''public'' ''gre'' 10, ProtocolAdded ''public'' ''gre'' 10,
      ServiceRemoved ''public'' ''gre'']"
  by code_simp+

lemma after_addProtocol_removeService:
  "fst (removeService [] ''gre'' (Some '':1.42'') after_addProtocol) = Return ''public''"
  "glib_sources (snd (removeService [] ''gre'' (Some '':1.42'') after_addProtocol)) 1
     = Some (10, DisableTimedService ''public'' ''gre'')"
  "glib_sources (snd (removeService [] ''gre'' (Some '':1.42'') after_addProtocol)) 2 = None"
  "fst (disableTimedService ''public'' ''gre''
          (snd (removeService [] ''gre'' (Some '':1.42'') after_addProtocol))) = Raise KeyError"
  by code_simp+

text \<open>
  Claim C6, as stated, fails. The timeout table is keyed by the zone and the entry's key
  only, and the keys do not say which kind of entry they stand for, so the timer of one
  entry can be taken for the timer of another. After \<open>addService("", "gre", 10)\<close> and
  \<open>addProtocol("", "gre", 10)\<close> the service's source 1 and the protocol's source 2 are both
  attached and the table holds 2 under \<open>("public", "gre")\<close>. When source 1 expires,
  \<open>disableTimedService\<close> deletes that table entry; when the protocol's source 2 expires,
  \<open>disableTimedProtocol\<close> raises \<open>KeyError\<close> at the deletion: the protocol stays enabled and
  no \<open>ProtocolRemoved\<close> is sent. And a manual \<open>removeService("", "gre")\<close> before any expiry
  detaches the protocol's source 2, not its own: source 1 stays attached and its callback
  still runs.
\<close>

theorem timed_protocol_outlives_its_timer:
  "addService [] ''gre'' 10 (Some '':1.42'') start_daemon = (Return ''public'', after_addService)
   \<and> addProtocol [] ''gre'' 10 (Some '':1.42'') after_addService = (Return ''public'', after_addProtocol)
   \<and> glib_sources after_addProtocol 1 = Some (10, DisableTimedService ''public'' ''gre'')
   \<and> glib_sources after_addProtocol 2 = Some (10, DisableTimedProtocol ''public'' ''gre'')
   \<and> timeout_tag (timer_fires 1 after_addProtocol) ''public'' (KStr ''gre'') = None
   \<and> glib_sources (timer_fires 1 after_addProtocol) 2 = Some (10, DisableTimedProtocol ''public'' ''gre'')
   \<and> fst (disableTimedProtocol ''public'' ''gre'' (timer_fires 1 after_addProtocol)) = Raise KeyError
   \<and> glib_sources (timer_fires 2 (timer_fires 1 after_addProtocol)) 2 = None
   \<and> queryProtocol ''public'' ''gre'' (timer_fires 2 (timer_fires 1 after_addProtocol))
   \<and> signals (timer_fires 2 (timer_fires 1 after_addProtocol)) =
        [ServiceAdded ''public'' ''gre'' 10, ProtocolAdded ''public'' ''gre'' 10,
         ServiceRemoved ''public'' ''gre'']
   \<and> fst (removeService [] ''gre'' (Some '':1.42'') after_addProtocol) = Return ''public''
   \<and> glib_sources (snd (removeService [] ''gre'' (Some '':1.42'') after_addProtocol)) 2 = None
   \<and> glib_sources (snd (removeService [] ''gre'' (Some '':1.42'') after_addProtocol)) 1
        = Some (10, DisableTimedService ''public'' ''gre'')
   \<and> fst (disableTimedService ''public'' ''gre''
             (snd (removeService [] ''gre'' (Some '':1.42'') after_addProtocol))) = Raise KeyError"
proof -
  have 1: "addService [] ''gre'' 10 (Some '':1.42'') start_daemon = (Return ''public'', after_addService)"
    using after_addService_eq by simp
  have 2: "addProtocol [] ''gre'' 10 (Some '':1.42'') after_addService = (Return ''public'', after_addProtocol)"
    using after_addProtocol_eq by simp
  show ?thesis
    using 1 2 after_addProtocol_facts(2,3) after_addProtocol_expiries after_addProtocol_removeService
    by simp
qed

text \<open>
  Claim C6, amended. Let a timed \<open>add\<close> method (any of the seven groups, timeout \<open>T > 0\<close>)
  succeed and return the zone \<open>z\<close>, in a state where no attached source is aimed at the
  entry's key in \<open>z\<close>. Let the daemon then handle any list of events that leave the entry's
  timer alone: any calls of the zone methods and any expiries, except the expiry of this
  timer, a timed \<open>add\<close> that succeeds under the same key in \<open>z\<close> and a \<open>remove\<close> that succeeds
  under the same key in \<open>z\<close>. Then in the state \<open>s2\<close> reached the matching \<open>query\<close> method
  still answers true, and the timeout table still holds, under the entry's key, the id of
  the source that the \<open>add\<close> attached to the main loop with interval \<open>T\<close> and the group's
  \<open>disable\<close> callback. When that source expires, the callback removes exactly this entry
  from the zone, the table entry is deleted, the source is gone and the group's \<open>Removed\<close>
  signal is emitted once. If instead the matching \<open>remove\<close> method is called first, it
  succeeds, emits the \<open>Removed\<close> signal of the manual removal and detaches the source:
  whatever events follow, the source is never attached again, so its callback never runs.
  With no events in between, the proviso on the earlier sources is not needed. Real time
  is not part of the model: "until the timer expires" is "until the source is dispatched".
\<close>

theorem timed_add_expiry:
  assumes add: "add_entry e zone T sender s = (Return z, s1)" and T: "0 < T"
    and quiet: "undisturbed e z (next_tag s) evs s1"
    and fresh: "evs = [] \<or> no_timer_for s z (timer_key e)"
    and s2: "s2 = run evs s1" and tag: "tag = next_tag s"
  shows "query_entry e z s2
       \<and> timeout_tag s2 z (timer_key e) = Some tag
       \<and> glib_sources s2 tag = Some (T, timer_callback e z sender)
       \<and> \<not> query_entry e z (timer_fires tag s2)
       \<and> fw (timer_fires tag s2) = (fw s2)\<lparr>zones := (zones (fw s2))(z := zones (fw s2) z - {e})\<rparr>
       \<and> timeout_tag (timer_fires tag s2) z (timer_key e) = None
       \<and> glib_sources (timer_fires tag s2) tag = None
       \<and> signals (timer_fires tag s2) = signals s2 @ [removed_signal e z]
       \<and> (\<exists>s3. remove_entry e zone sender s2 = (Return z, s3)
             \<and> \<not> query_entry e z s3
             \<and> timeout_tag s3 z (timer_key e) = None
             \<and> signals s3 = signals s2 @ [removed_signal e z]
             \<and> (\<forall>later. glib_sources (run later s3) tag = None))"
proof -
  let ?k = "timer_key e"
  from add have pat: "add_pattern (gated e) e ?k (\<lambda>z. timer_callback e z sender)
       (\<lambda>z. added_signal e z T) zone T sender s = (Return z, s1)"
    by (simp add: add_entry_pattern)
  note a = add_pattern_timed [OF pat T]
  have cz1: "check_zone (fw s1) zone = Inr z" by (simp add: a(3) a(1))
  have pol: "policies (fw s1) = policies (fw s)" by (simp add: a(3))
  have ac1: "gated e \<Longrightarrow> accessCheck sender s1 = Return ()"
    using a(10) accessCheck_cong [OF pol a(7)] by simp
  have facts: "check_zone (fw s2) zone = Inr z \<and> e \<in> zones (fw s2) z
      \<and> timeout_tag s2 z ?k = Some tag \<and> glib_sources s2 tag = Some (T, timer_callback e z sender)
      \<and> tag < next_tag s2 \<and> (gated e \<longrightarrow> accessCheck sender s2 = Return ())"
  proof (cases "evs = []")
    case True
    then have "s2 = s1" by (simp add: s2 run_def)
    then show ?thesis using cz1 ac1 by (simp add: tag a(3) a(4) a(5) a(9))
  next
    case False
    with fresh have "no_timer_for s z ?k" by simp
    from linked_run [OF add_links [OF add T this] quiet]
    have L: "timer_linked s2 e z tag T sender" and F: "same_frame s1 s2"
      by (simp_all add: s2 tag)
    from F have "policies (fw s2) = policies (fw s1)" "system_bus s2 = system_bus s1"
      and cz: "check_zone (fw s2) zone = check_zone (fw s1) zone"
      by (simp_all add: same_frame_def)
    from accessCheck_cong [OF this(1,2)] ac1
    have "gated e \<Longrightarrow> accessCheck sender s2 = Return ()" by simp
    with L cz cz1 show ?thesis by (simp add: timer_linked_def)
  qed
  then have cz: "check_zone (fw s2) zone = Inr z" and mem: "e \<in> zones (fw s2) z"
    and tagk: "timeout_tag s2 z ?k = Some tag"
    and src: "glib_sources s2 tag = Some (T, timer_callback e z sender)"
    and lt: "tag < next_tag s2" and ac: "gated e \<Longrightarrow> accessCheck sender s2 = Return ()"
    by simp_all
  from timer_effects [OF cz mem tagk src lt ac] tagk src show ?thesis by simp
qed

theorem timed_add_expiry_witness:
  "addPort [] ''80'' ''tcp'' 2 (Some '':1.42'') start_daemon = (Return ''public'', after_addPort)
   \<and> undisturbed (Port ''80'' ''tcp'') ''public'' 1 other_events after_addPort
   \<and> no_timer_for start_daemon ''public'' (KPair ''80'' ''tcp'')
   \<and> queryPort ''public'' ''80'' ''tcp'' after_other_events
   \<and> timeout_tag after_other_events ''public'' (KPair ''80'' ''tcp'') = Some 1
   \<and> glib_sources after_other_events 1 = Some (2, DisableTimedPort ''public'' ''80'' ''tcp'')
   \<and> \<not> queryPort ''public'' ''80'' ''tcp'' (timer_fires 1 after_other_events)
   \<and> glib_sources (timer_fires 1 after_other_events) 1 = None
   \<and> signals (timer_fires 1 after_other_events)
        = [PortAdded ''public'' ''80'' ''tcp'' 2, ServiceAdded ''work'' ''ssh'' 5,
           PortAdded ''work'' ''80'' ''tcp'' 5, InterfaceAdded ''public'' ''eth0'',
           ServiceRemoved ''work'' ''ssh'', PortRemoved ''work'' ''80'' ''tcp'',
           PortRemoved ''public'' ''80'' ''tcp'']
   \<and> fst (removePort [] ''80'' ''tcp'' (Some '':1.42'') after_other_events) = Return ''public''
   \<and> signals (snd (removePort [] ''80'' ''tcp'' (Some '':1.42'') after_other_events))
        = [PortAdded ''public'' ''80'' ''tcp'' 2, ServiceAdded ''work'' ''ssh'' 5,
           PortAdded ''work'' ''80'' ''tcp'' 5, InterfaceAdded ''public'' ''eth0'',
           ServiceRemoved ''work'' ''ssh'', PortRemoved ''work'' ''80'' ''tcp'',
           PortRemoved ''public'' ''80'' ''tcp'']
   \<and> glib_sources (run [Expire 1] (snd (removePort [] ''80'' ''tcp'' (Some '':1.42'') after_other_events))) 1
        = None"
proof -
  let ?e = "Port ''80'' ''tcp''"
  note add = after_addPort_eq
  have T: "(0::int) < 2" by simp
  have nt: "next_tag start_daemon = 1" by (simp add: start_daemon_def)
  have quiet: "undisturbed ?e ''public'' (next_tag start_daemon) other_events after_addPort"
    using other_events_undisturbed by (simp add: nt)
  have fresh: "no_timer_for start_daemon ''public'' (timer_key ?e)"
    by (simp add: no_timer_for_def timers_wf_def start_daemon_def timeout_tag_def)
  from timed_add_expiry [OF add T quiet disjI2 [OF fresh] after_other_events_def nt [symmetric]]
  obtain s3 where
    q: "query_entry ?e ''public'' after_other_events"
    and t: "timeout_tag after_other_events ''public'' (timer_key ?e) = Some 1"
    and g: "glib_sources after_other_events 1 = Some (2, timer_callback ?e ''public'' (Some '':1.42''))"
    and f: "\<not> query_entry ?e ''public'' (timer_fires 1 after_other_events)"
      "glib_sources (timer_fires 1 after_other_events) 1 = None"
      "signals (timer_fires 1 after_other_events) = signals after_other_events @ [removed_signal ?e ''public'']"
    and r: "remove_entry ?e [] (Some '':1.42'') after_other_events = (Return ''public'', s3)"
      "signals s3 = signals after_other_events @ [removed_signal ?e ''public'']"
      "\<forall>later. glib_sources (run later s3) 1 = None"
    by (elim conjE exE)
  from r(3) have never: "glib_sources (run [Expire 1] s3) 1 = None" by (rule spec)
  from fresh have "no_timer_for start_daemon ''public'' (KPair ''80'' ''tcp'')" by simp
  then show ?thesis
    using add other_events_undisturbed q t g f r(1,2) never by (simp add: other_events_signals)
qed


end
